(* ===== verification/Prelude.thy ===== *)
theory Prelude
  imports Complex_Main "HOL-Library.Multiset" "HOL-Library.List_Lexorder" "HOL-Library.Char_ord"
    "HOL-Library.Sublist"
begin

text \<open>
  Shared vocabulary of the development: the Python exceptions the script can raise, the
  result type that carries them, the traversal that stops at the first exception (a
  Python loop or comprehension that raises), the arithmetic mean shared by pandas and
  scipy, and the generic facts about sums over lists that the statistics components
  use: linearity, centring, the Cauchy--Schwarz inequality, and the update identities
  of a streaming (Welford) mean and co-moment.
\<close>

section \<open>Exceptions and results\<close>

datatype py_error = KeyError string | ValueError string | TypeError string

type_synonym 'a result = "py_error + 'a"

named_theorems result_simps "rewriting of results through binds and traversals"

fun bind_r :: "'a result \<Rightarrow> ('a \<Rightarrow> 'b result) \<Rightarrow> 'b result" where
  "bind_r (Inl e) f = Inl e"
| "bind_r (Inr a) f = f a"

fun map_r :: "('a \<Rightarrow> 'b result) \<Rightarrow> 'a list \<Rightarrow> 'b list result" where
  "map_r f [] = Inr []"
| "map_r f (x # xs) =
     (case f x of Inl e \<Rightarrow> Inl e
      | Inr y \<Rightarrow> (case map_r f xs of Inl e \<Rightarrow> Inl e | Inr ys \<Rightarrow> Inr (y # ys)))"

lemma map_r_Inr_iff [result_simps]:
  "map_r f xs = Inr ys \<longleftrightarrow> list_all2 (\<lambda>x y. f x = Inr y) xs ys"
proof (induction xs arbitrary: ys)
  case Nil
  then show ?case by auto
next
  case (Cons x xs)
  show ?case
  proof (cases ys)
    case Nil
    then show ?thesis by (auto split: sum.splits)
  next
    case (Cons y ys')
    have "map_r f (x # xs) = Inr (y # ys') \<longleftrightarrow> f x = Inr y \<and> map_r f xs = Inr ys'"
      by (auto split: sum.splits)
    with Cons Cons.IH show ?thesis by simp
  qed
qed

lemma map_r_map [result_simps]:
  "(\<forall>x\<in>set xs. f x = Inr (g x)) \<Longrightarrow> map_r f xs = Inr (map g xs)"
  by (induction xs) auto

lemma map_r_Inr_rel:
  assumes "\<And>x. x \<in> set xs \<Longrightarrow> \<exists>y. f x = Inr y \<and> P x y"
  shows "\<exists>ys. map_r f xs = Inr ys \<and> list_all2 P xs ys"
  using assms
proof (induction xs)
  case (Cons x xs)
  obtain y where y: "f x = Inr y" "P x y" using Cons.prems by auto
  obtain ys where ys: "map_r f xs = Inr ys" "list_all2 P xs ys" using Cons by auto
  from y ys show ?case by simp
qed simp

lemma map_r_first_Inl:
  "f x = Inl e \<Longrightarrow> (\<forall>y\<in>set ys. \<exists>z. f y = Inr z) \<Longrightarrow> map_r f (ys @ x # zs) = Inl e"
  by (induction ys) auto

lemma bind_r_Inr_iff [result_simps]:
  "bind_r m f = Inr b \<longleftrightarrow> (\<exists>a. m = Inr a \<and> f a = Inr b)"
  by (cases m) auto

section \<open>The arithmetic mean and centred sums\<close>

text \<open>
  \<open>mean\<close> is numpy's and pandas' arithmetic mean of a non-empty sample (the callers
  guard emptiness; on \<open>[]\<close> the HOL value is 0). \<open>comoment xs ys\<close> is the centred
  cross sum \<open>\<Sum> (x - mean xs) * (y - mean ys)\<close> over the paired samples.
\<close>

definition mean :: "real list \<Rightarrow> real" where
  "mean xs = sum_list xs / real (length xs)"

definition comoment :: "(real \<times> real) list \<Rightarrow> real" where
  "comoment ps =
     (let mx = mean (map fst ps); my = mean (map snd ps)
      in (\<Sum>p\<leftarrow>ps. (fst p - mx) * (snd p - my)))"

definition sumsq_dev :: "real list \<Rightarrow> real" where
  "sumsq_dev xs = (\<Sum>x\<leftarrow>xs. (x - mean xs)\<^sup>2)"

text \<open>
  pandas' and numpy's \<^verbatim>\<open>unique\<close> (a hash table filled in row order): the distinct
  values in order of first occurrence. HOL's \<open>remdups\<close> keeps the last occurrence.
\<close>

definition unique :: "'a list \<Rightarrow> 'a list" where
  "unique xs = rev (remdups (rev xs))"

text \<open>The values of a column with missing entries (NaN, here \<open>None\<close>) left out.\<close>

fun present :: "'a option list \<Rightarrow> 'a list" where
  "present [] = []"
| "present (Some x # xs) = x # present xs"
| "present (None # xs) = present xs"

section \<open>Generic lemmas on sums over lists\<close>

lemma sum_list_map_diff_const [simp]:
  fixes f :: "'a \<Rightarrow> real"
  shows "(\<Sum>x\<leftarrow>xs. f x - c) = (\<Sum>x\<leftarrow>xs. f x) - real (length xs) * c"
  by (induction xs) (simp_all add: algebra_simps)

lemma sum_list_nonneg_sq [simp]:
  fixes f :: "'a \<Rightarrow> real"
  shows "0 \<le> (\<Sum>x\<leftarrow>xs. (f x)\<^sup>2)"
  by (rule sum_list_nonneg) auto

lemma sum_list_sq_eq_0_iff:
  fixes f :: "'a \<Rightarrow> real"
  shows "(\<Sum>x\<leftarrow>xs. (f x)\<^sup>2) = 0 \<longleftrightarrow> (\<forall>x\<in>set xs. f x = 0)"
proof (induction xs)
  case Nil
  then show ?case by simp
next
  case (Cons x xs)
  have "0 \<le> (\<Sum>x\<leftarrow>xs. (f x)\<^sup>2)" by simp
  then have "(f x)\<^sup>2 + (\<Sum>x\<leftarrow>xs. (f x)\<^sup>2) = 0 \<longleftrightarrow>
      (f x)\<^sup>2 = 0 \<and> (\<Sum>x\<leftarrow>xs. (f x)\<^sup>2) = 0"
    by (metis add_nonneg_eq_0_iff zero_le_power2)
  with Cons.IH show ?case by simp
qed

lemma sum_list_mult_const_right:
  fixes f :: "'a \<Rightarrow> real"
  shows "(\<Sum>x\<leftarrow>xs. f x * c) = (\<Sum>x\<leftarrow>xs. f x) * c"
  by (induction xs) (simp_all add: algebra_simps)

lemma sum_list_divide_const:
  fixes f :: "'a \<Rightarrow> real"
  shows "(\<Sum>x\<leftarrow>xs. f x / c) = (\<Sum>x\<leftarrow>xs. f x) / c"
  by (induction xs) (simp_all add: add_divide_distrib)

lemma sum_list_ge_length_mult:
  fixes xs :: "real list"
  shows "(\<forall>x\<in>set xs. a \<le> x) \<Longrightarrow> real (length xs) * a \<le> sum_list xs"
  by (induction xs) (simp_all add: algebra_simps)

lemma sum_list_le_length_mult:
  fixes xs :: "real list"
  shows "(\<forall>x\<in>set xs. x \<le> b) \<Longrightarrow> sum_list xs \<le> real (length xs) * b"
  by (induction xs) (simp_all add: algebra_simps)

lemma mean_times_length:
  "xs \<noteq> [] \<Longrightarrow> mean xs * real (length xs) = sum_list xs"
  by (simp add: mean_def)

text \<open>The centred cross sum equals the raw-moment form \<open>Sxy - Sx * Sy / n\<close>.\<close>

lemma comoment_raw:
  "comoment ps =
     (\<Sum>p\<leftarrow>ps. fst p * snd p)
     - (\<Sum>p\<leftarrow>ps. fst p) * (\<Sum>p\<leftarrow>ps. snd p) / real (length ps)"
proof (cases "ps = []")
  case True
  then show ?thesis by (simp add: comoment_def)
next
  case False
  define n sx sy where "n = real (length ps)" and "sx = (\<Sum>p\<leftarrow>ps. fst p)"
    and "sy = (\<Sum>p\<leftarrow>ps. snd p)"
  define mx my where "mx = sx / n" and "my = sy / n"
  have n: "n \<noteq> 0" using False by (simp add: n_def)
  have m: "mean (map fst ps) = mx" "mean (map snd ps) = my"
    by (simp_all add: mean_def mx_def my_def sx_def sy_def n_def o_def)
  have "(\<Sum>p\<leftarrow>ps. (fst p - mx) * (snd p - my))
      = (\<Sum>p\<leftarrow>ps. fst p * snd p - fst p * my - (snd p * mx - mx * my))"
    by (simp add: algebra_simps)
  also have "\<dots> = (\<Sum>p\<leftarrow>ps. fst p * snd p) - sx * my - (sy * mx - n * (mx * my))"
    by (simp add: sum_list_subtractf sum_list_mult_const_right sx_def sy_def n_def)
  also have "\<dots> = (\<Sum>p\<leftarrow>ps. fst p * snd p) - sx * sy / n"
    using n by (simp add: mx_def my_def field_simps)
  finally show ?thesis by (simp add: comoment_def Let_def m sx_def sy_def n_def)
qed

lemma comoment_diag: "comoment (map (\<lambda>x. (x, x)) xs) = sumsq_dev xs"
  by (simp add: comoment_def sumsq_dev_def o_def power2_eq_square)

lemma sumsq_dev_raw:
  "sumsq_dev xs = (\<Sum>x\<leftarrow>xs. x\<^sup>2) - (sum_list xs)\<^sup>2 / real (length xs)"
  using comoment_raw [of "map (\<lambda>x. (x, x)) xs"]
  by (simp add: comoment_diag o_def power2_eq_square)

text \<open>Sum of squares about any centre: the deviation about the mean plus the shift.\<close>

lemma sum_sq_shift:
  fixes xs :: "real list"
  assumes "xs \<noteq> []"
  shows "(\<Sum>x\<leftarrow>xs. (x - c)\<^sup>2) = sumsq_dev xs + real (length xs) * (mean xs - c)\<^sup>2"
proof -
  define n s q where "n = real (length xs)" and "s = sum_list xs" and "q = (\<Sum>x\<leftarrow>xs. x\<^sup>2)"
  have n: "n \<noteq> 0" using assms by (simp add: n_def)
  have "(\<Sum>x\<leftarrow>xs. (x - c)\<^sup>2) = (\<Sum>x\<leftarrow>xs. x\<^sup>2 - 2 * c * x + c\<^sup>2)"
    by (simp add: power2_eq_square algebra_simps)
  also have "\<dots> = q - 2 * c * s + n * c\<^sup>2"
    by (simp add: sum_list_addf sum_list_subtractf sum_list_const_mult q_def s_def n_def sum_list_triv)
  finally have l: "(\<Sum>x\<leftarrow>xs. (x - c)\<^sup>2) = q - 2 * c * s + n * c\<^sup>2" .
  have r: "sumsq_dev xs + real (length xs) * (mean xs - c)\<^sup>2
      = q - s\<^sup>2 / n + n * (s / n - c)\<^sup>2"
    by (simp add: sumsq_dev_raw mean_def q_def s_def n_def)
  show ?thesis unfolding l r using n by (simp add: power2_eq_square field_simps)
qed

lemma sumsq_dev_nonneg [simp]: "0 \<le> sumsq_dev xs"
  by (simp add: sumsq_dev_def)

lemma sumsq_dev_eq_0_iff: "sumsq_dev xs = 0 \<longleftrightarrow> (\<forall>x\<in>set xs. x = mean xs)"
  using sum_list_sq_eq_0_iff [of "\<lambda>x. x - mean xs" xs] by (simp add: sumsq_dev_def)

lemma mean_const_elems: "xs \<noteq> [] \<Longrightarrow> \<forall>y\<in>set xs. y = c \<Longrightarrow> mean xs = c"
proof -
  assume ne: "xs \<noteq> []" and c: "\<forall>y\<in>set xs. y = c"
  from c have "sum_list xs = real (length xs) * c"
    by (induction xs) (simp_all add: algebra_simps)
  with ne show ?thesis by (simp add: mean_def)
qed

lemma const_elems_sumsq_dev_0: "(\<forall>v\<in>set xs. v = c) \<Longrightarrow> sumsq_dev xs = 0"
  by (cases "xs = []") (simp_all add: sumsq_dev_eq_0_iff mean_const_elems)

lemma set_unique [simp]: "set (unique xs) = set xs"
  by (simp add: unique_def)

lemma distinct_unique [simp]: "distinct (unique xs)"
  by (simp add: unique_def)

lemma length_unique_le: "length (unique xs) \<le> length xs"
  using length_remdups_leq [of "rev xs"] by (simp add: unique_def)

lemma present_Nil_iff: "present xs = [] \<longleftrightarrow> (\<forall>x\<in>set xs. x = None)"
  by (induction xs rule: present.induct) auto

lemma in_set_present: "x \<in> set (present xs) \<longleftrightarrow> Some x \<in> set xs"
  by (induction xs rule: present.induct) auto

lemma present_map_Some [simp]: "present (map Some xs) = xs"
  by (induction xs) simp_all

section \<open>Cauchy--Schwarz over lists\<close>

lemma two_ab_le_cs_step:
  fixes a b A B C :: real
  assumes "C\<^sup>2 \<le> A * B" "0 \<le> A" "0 \<le> B"
  shows "2 * a * b * C \<le> a\<^sup>2 * B + A * b\<^sup>2"
proof -
  have "(2 * a * b * C)\<^sup>2 = 4 * (a\<^sup>2 * b\<^sup>2) * C\<^sup>2" by (simp add: power2_eq_square)
  also have "\<dots> \<le> 4 * (a\<^sup>2 * b\<^sup>2) * (A * B)"
    using assms(1) by (intro mult_left_mono) auto
  also have "\<dots> \<le> (a\<^sup>2 * B + A * b\<^sup>2)\<^sup>2"
  proof -
    have "0 \<le> (a\<^sup>2 * B - A * b\<^sup>2)\<^sup>2" by simp
    then show ?thesis by (simp add: power2_eq_square algebra_simps)
  qed
  finally have "(2 * a * b * C)\<^sup>2 \<le> (a\<^sup>2 * B + A * b\<^sup>2)\<^sup>2" .
  moreover have "0 \<le> a\<^sup>2 * B + A * b\<^sup>2" using assms(2,3) by simp
  ultimately show ?thesis by (rule power2_le_imp_le)
qed

lemma cauchy_schwarz_list:
  fixes f g :: "'a \<Rightarrow> real"
  shows "(\<Sum>x\<leftarrow>xs. f x * g x)\<^sup>2 \<le> (\<Sum>x\<leftarrow>xs. (f x)\<^sup>2) * (\<Sum>x\<leftarrow>xs. (g x)\<^sup>2)"
proof (induction xs)
  case Nil
  then show ?case by simp
next
  case (Cons x xs)
  let ?C = "\<Sum>x\<leftarrow>xs. f x * g x"
  have "2 * f x * g x * ?C \<le> (f x)\<^sup>2 * (\<Sum>x\<leftarrow>xs. (g x)\<^sup>2) + (\<Sum>x\<leftarrow>xs. (f x)\<^sup>2) * (g x)\<^sup>2"
    using two_ab_le_cs_step [OF Cons.IH] by simp
  with Cons.IH show ?case by (simp add: power2_eq_square algebra_simps)
qed

text \<open>
  The consequence the correlation components use: a cross sum divided by the geometric
  mean of the two sums of squares lies in \<open>[-1, 1]\<close>.
\<close>

lemma abs_div_sqrt_le_1:
  fixes c a b :: real
  assumes "c\<^sup>2 \<le> a * b"
  shows "\<bar>c / sqrt (a * b)\<bar> \<le> 1"
proof (cases "0 < sqrt (a * b)")
  case False
  have "0 \<le> a * b" using assms by (rule order_trans [OF zero_le_power2])
  then have "0 \<le> sqrt (a * b)" by simp
  with False have "sqrt (a * b) = 0" by linarith
  then show ?thesis by (simp del: real_sqrt_eq_zero_cancel_iff)
next
  case True
  have "\<bar>c\<bar> = sqrt (c\<^sup>2)" by (rule real_sqrt_abs [symmetric])
  also have "\<dots> \<le> sqrt (a * b)" using assms(1) by (rule real_sqrt_le_mono)
  finally have le: "\<bar>c\<bar> \<le> sqrt (a * b)" .
  have "\<bar>c / sqrt (a * b)\<bar> = \<bar>c\<bar> / sqrt (a * b)"
    using True by (simp only: abs_divide abs_of_pos)
  also have "\<dots> \<le> 1" using le by (simp only: divide_le_eq_1_pos [OF True])
  finally show ?thesis .
qed

text \<open>The co-moment is bounded by the sums of squared deviations of its two samples.\<close>

lemma comoment_sq_le:
  "(comoment ps)\<^sup>2 \<le> sumsq_dev (map fst ps) * sumsq_dev (map snd ps)"
  using cauchy_schwarz_list [of "\<lambda>p. fst p - mean (map fst ps)" "\<lambda>p. snd p - mean (map snd ps)" ps]
  by (simp add: comoment_def sumsq_dev_def o_def)

lemma max_min_clip_id:
  fixes r :: real
  shows "\<bar>r\<bar> \<le> 1 \<Longrightarrow> max (min r 1) (-1) = r"
  by (auto simp: abs_le_iff)

section \<open>Streaming moments\<close>

text \<open>
  One step of a streaming mean: the running mean of \<open>m\<close> values with sum \<open>sx\<close>,
  updated by \<open>1/(m+1)\<close> of the deviation of the next value, is the mean of the
  \<open>m + 1\<close> values. The second identity is the co-moment update of Welford's method.
\<close>

lemma stream_mean_step:
  fixes m sx x :: real
  assumes "0 < m"
  shows "sx / m + 1 / (m + 1) * (x - sx / m) = (sx + x) / (m + 1)"
proof -
  have m1: "m + 1 \<noteq> 0" using assms by linarith
  have "sx / m + 1 / (m + 1) * (x - sx / m) = (sx / m * m + x) / (m + 1)"
    using m1 by (simp add: field_simps)
  then show ?thesis using assms by simp
qed

lemma stream_comoment_step0:
  fixes m a b sxy x y :: real
  assumes "0 < m"
  shows "sxy - a * b * m + (x - (a + 1 / (m + 1) * (x - a))) * (y - b)
         = sxy + x * y - (a * m + x) * (b * m + y) / (m + 1)"
proof -
  have m1: "m + 1 \<noteq> 0" using assms by linarith
  have "x - (a + 1 / (m + 1) * (x - a)) = (x - a) * m / (m + 1)"
    using m1 by (simp add: field_simps)
  then show ?thesis
    using m1 by (simp add: field_simps)
qed

lemma stream_comoment_step:
  fixes m sx sy sxy x y :: real
  assumes "0 < m"
  shows "sxy - sx * sy / m + (x - (sx / m + 1 / (m + 1) * (x - sx / m))) * (y - sy / m)
         = sxy + x * y - (sx + x) * (sy + y) / (m + 1)"
proof -
  have m0: "m \<noteq> 0" using assms by simp
  have "sx / m * (sy / m) * m = sx * sy / m" and "sx / m * m = sx" and "sy / m * m = sy"
    using m0 by (simp_all add: field_simps power2_eq_square)
  with stream_comoment_step0 [OF assms, of sxy "sx / m" "sy / m" x y] show ?thesis
    by simp
qed

end
