(* ===== verification/Frame.thy ===== *)
theory Frame
  imports Prelude
begin

text \<open>
  The pandas DataFrame the script loads from the CSV file (\<^verbatim>\<open>df = pd.read_csv(path_name)\<close>)
  and the pandas operations on it that the script calls directly: column access
  \<^verbatim>\<open>df['c']\<close>, column selection \<^verbatim>\<open>df[[c1, ..., cn]]\<close> (KeyError for a missing
  column), \<^verbatim>\<open>head()\<close>, and the conversion of a column to floats that every numeric
  routine performs first (a string cell makes it raise). A cell is a float, a string, or
  the missing value NaN that \<^verbatim>\<open>read_csv\<close> produces for an empty field. The order on
  cells is the one pandas uses to sort group keys: numbers by value, strings by code
  point, lexicographically.
\<close>

section \<open>Cells and frames\<close>

datatype cell = Num real | Str string | NaN

instantiation cell :: linorder
begin

fun less_eq_cell :: "cell \<Rightarrow> cell \<Rightarrow> bool" where
  "less_eq_cell (Num a) (Num b) = (a \<le> b)"
| "less_eq_cell (Num a) _ = True"
| "less_eq_cell (Str a) (Num b) = False"
| "less_eq_cell (Str a) (Str b) = (a \<le> b)"
| "less_eq_cell (Str a) NaN = True"
| "less_eq_cell NaN y = (y = NaN)"

definition less_cell :: "cell \<Rightarrow> cell \<Rightarrow> bool" where
  "less_cell x y \<longleftrightarrow> x \<le> y \<and> \<not> y \<le> x"

instance
proof
  fix x y z :: cell
  show "x < y \<longleftrightarrow> x \<le> y \<and> \<not> y \<le> x" by (simp add: less_cell_def)
  show "x \<le> x" by (cases x) simp_all
  show "x \<le> y \<Longrightarrow> y \<le> z \<Longrightarrow> x \<le> z" by (cases x; cases y; cases z) auto
  show "x \<le> y \<Longrightarrow> y \<le> x \<Longrightarrow> x = y" by (cases x; cases y) auto
  show "x \<le> y \<or> y \<le> x" by (cases x; cases y) auto
qed

end

record frame =
  columns :: "string list"
  rows :: "cell list list"

text \<open>
  A frame as \<^verbatim>\<open>read_csv\<close> builds it: distinct column names, and every row has one cell
  per column.
\<close>

definition wf_frame :: "frame \<Rightarrow> bool" where
  "wf_frame df \<longleftrightarrow>
     distinct (columns df) \<and> list_all (\<lambda>r. length r = length (columns df)) (rows df)"

section \<open>Column access and selection\<close>

fun index_of :: "'a \<Rightarrow> 'a list \<Rightarrow> nat option" where
  "index_of x [] = None"
| "index_of x (y # ys) = (if x = y then Some 0 else map_option Suc (index_of x ys))"

definition col_index :: "frame \<Rightarrow> string \<Rightarrow> nat result" where
  "col_index df c =
     (case index_of c (columns df) of None \<Rightarrow> Inl (KeyError c) | Some i \<Rightarrow> Inr i)"

definition column_at :: "cell list list \<Rightarrow> nat \<Rightarrow> cell list" where
  "column_at rs i = map (\<lambda>r. r ! i) rs"

text \<open>\<^verbatim>\<open>df['c']\<close>: the column's cells in row order, KeyError when there is no such column.\<close>

definition get_column :: "frame \<Rightarrow> string \<Rightarrow> cell list result" where
  "get_column df c = bind_r (col_index df c) (\<lambda>i. Inr (column_at (rows df) i))"

text \<open>
  \<^verbatim>\<open>df[[c1, ..., cn]]\<close>: a new frame with exactly these columns, in this order; a KeyError
  names the first column that is missing.
\<close>

definition select_columns :: "frame \<Rightarrow> string list \<Rightarrow> frame result" where
  "select_columns df cs =
     bind_r (map_r (col_index df) cs)
       (\<lambda>is. Inr \<lparr>columns = cs, rows = map (\<lambda>r. map (\<lambda>i. r ! i) is) (rows df)\<rparr>)"

text \<open>\<^verbatim>\<open>df.head(n)\<close>: the first \<open>n\<close> rows (the script prints \<^verbatim>\<open>df.head()\<close>, \<open>n = 5\<close>).\<close>

definition head :: "nat \<Rightarrow> frame \<Rightarrow> frame" where
  "head n df = df\<lparr>rows := take n (rows df)\<rparr>"

section \<open>Numeric view of a column\<close>

text \<open>
  Every numeric routine (pandas' \<^verbatim>\<open>corr\<close> and \<^verbatim>\<open>mean\<close>, scipy's \<^verbatim>\<open>pearsonr\<close> and
  \<^verbatim>\<open>f_oneway\<close>) first converts the cells to floats: NaN stays missing (\<open>None\<close>), a
  string raises.
\<close>

fun cell_float :: "cell \<Rightarrow> real option result" where
  "cell_float (Num r) = Inr (Some r)"
| "cell_float NaN = Inr None"
| "cell_float (Str s) = Inl (ValueError (''could not convert string to float: '' @ s))"

definition series_floats :: "cell list \<Rightarrow> real option list result" where
  "series_floats col = map_r cell_float col"

text \<open>The float a numeric cell holds, \<open>None\<close> for NaN and for strings.\<close>

definition float_of :: "cell \<Rightarrow> real option" where
  "float_of c = (case c of Num r \<Rightarrow> Some r | _ \<Rightarrow> None)"

fun is_str :: "cell \<Rightarrow> bool" where
  "is_str (Str s) = True"
| "is_str _ = False"

fun cell_of_float :: "real option \<Rightarrow> cell" where
  "cell_of_float (Some r) = Num r"
| "cell_of_float None = NaN"

section \<open>Lemmas: lookup, selection, conversion\<close>

lemma less_cell_simps [simp]:
  "Num a < Num b \<longleftrightarrow> a < b" "Str s < Str t \<longleftrightarrow> s < t"
  "Num a < Str s" "\<not> Str s < Num a" "Num a < NaN" "Str s < NaN" "\<not> NaN < c"
  by (auto simp: less_cell_def)

lemma index_of_None_iff [simp]: "index_of x xs = None \<longleftrightarrow> x \<notin> set xs"
  by (induction xs) auto

lemma index_of_Some: "index_of x xs = Some i \<Longrightarrow> i < length xs \<and> xs ! i = x"
  by (induction xs arbitrary: i) (auto split: if_splits)

lemma index_of_nth: "distinct xs \<Longrightarrow> i < length xs \<Longrightarrow> index_of (xs ! i) xs = Some i"
proof (induction xs arbitrary: i)
  case Nil
  then show ?case by simp
next
  case (Cons y ys)
  then show ?case by (cases i) (auto simp: nth_mem)
qed

lemma col_index_ok:
  "c \<in> set (columns df) \<Longrightarrow> col_index df c = Inr (the (index_of c (columns df)))"
  by (auto simp: col_index_def split: option.split)

lemma col_index_missing:
  "c \<notin> set (columns df) \<Longrightarrow> col_index df c = Inl (KeyError c)"
  by (simp add: col_index_def flip: index_of_None_iff)

lemmas col_index_simps = col_index_ok col_index_missing

lemma cell_float_not_str: "\<not> is_str c \<Longrightarrow> cell_float c = Inr (float_of c)"
  by (cases c) (simp_all add: float_of_def)

lemma series_floats_ok:
  "\<not> list_ex is_str col \<Longrightarrow> series_floats col = Inr (map float_of col)"
  unfolding series_floats_def
  by (rule map_r_map) (simp add: cell_float_not_str list_ex_iff)

lemma series_floats_str:
  "list_ex is_str col \<Longrightarrow> \<exists>e. series_floats col = Inl e"
proof (induction col)
  case Nil
  then show ?case by simp
next
  case (Cons c col)
  then show ?case
    by (cases c) (auto simp: series_floats_def split: sum.splits)
qed

lemma series_floats_Inr_iff:
  "series_floats col = Inr vs \<longleftrightarrow> \<not> list_ex is_str col \<and> vs = map float_of col"
  by (cases "list_ex is_str col") (use series_floats_ok [of col] series_floats_str [of col] in auto)

lemma select_columns_Inr_iff:
  "select_columns df cs = Inr s \<longleftrightarrow>
     (\<exists>is. list_all2 (\<lambda>c i. col_index df c = Inr i) cs is
           \<and> s = \<lparr>columns = cs, rows = map (\<lambda>r. map (\<lambda>i. r ! i) is) (rows df)\<rparr>)"
  by (auto simp: select_columns_def bind_r_Inr_iff map_r_Inr_iff)

lemma col_index_Inr_nth:
  "col_index df c = Inr i \<Longrightarrow> i < length (columns df) \<and> columns df ! i = c"
  by (auto simp: col_index_def dest: index_of_Some split: option.splits)

subsection \<open>Selecting columns and reading one back\<close>



end
