(* ===== verification/Correlation.thy ===== *)
theory Correlation
  imports Frame
begin

text \<open>
  Pearson correlation as the script computes it, twice over:
  \<^item> pandas' \<^verbatim>\<open>DataFrame.corr()\<close> (lines 22 and 26 of \<^verbatim>\<open>main.py\<close>) converts the frame to a
    float matrix and runs \<^verbatim>\<open>nancorr\<close> (pandas/_libs/algos.pyx): for every pair of
    columns, one pass of Welford's streaming method over the rows where both entries are
    present (pairwise deletion of NaN), then \<open>covxy / sqrt(ssqdmx * ssqdmy)\<close>, clipped
    to \<open>[-1, 1]\<close>, NaN when the divisor is 0 or there is no observation;
  \<^item> scipy's \<^verbatim>\<open>stats.pearsonr\<close> (lines 99--125) on two whole columns: ValueError on
    unequal lengths or fewer than two values, NaN for NaN input or a constant input,
    the sign product for two values, otherwise the centred dot product over the norms,
    clipped.
  Both are compared with the two-pass textbook coefficient \<open>pearson_ref\<close>, the
  abstract specification of this component.
\<close>

section \<open>pandas: Welford's method over pairwise-complete rows\<close>

record welford =
  nobs :: nat
  meanx :: real
  meany :: real
  ssqdmx :: real
  ssqdmy :: real
  covxy :: real

definition welford_init :: welford where
  "welford_init = \<lparr>nobs = 0, meanx = 0, meany = 0, ssqdmx = 0, ssqdmy = 0, covxy = 0\<rparr>"

text \<open>The body of the inner loop of \<^verbatim>\<open>nancorr\<close> for one row where both values are present.\<close>

definition welford_step :: "welford \<Rightarrow> real \<Rightarrow> real \<Rightarrow> welford" where
  "welford_step st vx vy =
     (let n = nobs st + 1;
          dx = vx - meanx st;
          dy = vy - meany st;
          mx = meanx st + 1 / real n * dx;
          my = meany st + 1 / real n * dy
      in \<lparr>nobs = n, meanx = mx, meany = my,
          ssqdmx = ssqdmx st + (vx - mx) * dx,
          ssqdmy = ssqdmy st + (vy - my) * dy,
          covxy = covxy st + (vx - mx) * dy\<rparr>)"

text \<open>The loop over the rows: a row where either value is NaN (\<open>mask\<close> false) is skipped.\<close>

fun nancorr_scan :: "welford \<Rightarrow> real option list \<Rightarrow> real option list \<Rightarrow> welford" where
  "nancorr_scan st (Some vx # xs) (Some vy # ys) = nancorr_scan (welford_step st vx vy) xs ys"
| "nancorr_scan st (_ # xs) (_ # ys) = nancorr_scan st xs ys"
| "nancorr_scan st _ _ = st"

definition corr_clip :: "real \<Rightarrow> real" where
  "corr_clip v = (if v > 1 then 1 else if v < -1 then -1 else v)"

text \<open>
  The coefficient of one pair of columns, with pandas' default \<open>min_periods = 1\<close>
  (\<open>minpv = 1\<close>).
\<close>

definition nancorr_pair :: "real option list \<Rightarrow> real option list \<Rightarrow> real option" where
  "nancorr_pair xs ys =
     (let st = nancorr_scan welford_init xs ys
      in if nobs st < 1 then None
         else let divisor = sqrt (ssqdmx st * ssqdmy st)
              in if divisor \<noteq> 0 then Some (corr_clip (covxy st / divisor)) else None)"

text \<open>
  The matrix: entry \<open>(xi, yi)\<close> for \<open>yi \<le> xi\<close> is computed with column \<open>xi\<close> as
  \<open>x\<close> and column \<open>yi\<close> as \<open>y\<close>, and stored at \<open>(xi, yi)\<close> and \<open>(yi, xi)\<close>.
\<close>

definition nancorr :: "real option list list \<Rightarrow> real option list list" where
  "nancorr cols =
     map (\<lambda>xi. map (\<lambda>yi. if yi \<le> xi then nancorr_pair (cols ! xi) (cols ! yi)
                        else nancorr_pair (cols ! yi) (cols ! xi))
               [0..<length cols])
       [0..<length cols]"

text \<open>
  \<^verbatim>\<open>df.corr()\<close>: every column is converted to floats first (a string cell raises
  ValueError), then \<^verbatim>\<open>nancorr\<close>; the result is labelled by the frame's columns.
\<close>

definition frame_corr :: "frame \<Rightarrow> (string list \<times> real option list list) result" where
  "frame_corr df =
     bind_r (map_r (\<lambda>i. series_floats (column_at (rows df) i)) [0..<length (columns df)])
       (\<lambda>cols. Inr (columns df, nancorr cols))"

section \<open>The reference: two-pass Pearson coefficient\<close>

fun complete_pairs :: "real option list \<Rightarrow> real option list \<Rightarrow> (real \<times> real) list" where
  "complete_pairs (Some x # xs) (Some y # ys) = (x, y) # complete_pairs xs ys"
| "complete_pairs (_ # xs) (_ # ys) = complete_pairs xs ys"
| "complete_pairs _ _ = []"

definition pearson_ref :: "(real \<times> real) list \<Rightarrow> real option" where
  "pearson_ref ps =
     (let d = sqrt (sumsq_dev (map fst ps) * sumsq_dev (map snd ps))
      in if d = 0 then None else Some (comoment ps / d))"

section \<open>Welford's invariant\<close>

text \<open>
  After a prefix \<open>ps\<close> of complete pairs, the accumulators hold the means and the
  raw-moment forms of the centred sums of that prefix.
\<close>

definition welford_inv :: "welford \<Rightarrow> (real \<times> real) list \<Rightarrow> bool" where
  "welford_inv st ps \<longleftrightarrow>
     (let n = real (length ps); sx = (\<Sum>p\<leftarrow>ps. fst p); sy = (\<Sum>p\<leftarrow>ps. snd p)
      in nobs st = length ps \<and> meanx st = sx / n \<and> meany st = sy / n
         \<and> ssqdmx st = (\<Sum>p\<leftarrow>ps. fst p * fst p) - sx * sx / n
         \<and> ssqdmy st = (\<Sum>p\<leftarrow>ps. snd p * snd p) - sy * sy / n
         \<and> covxy st = (\<Sum>p\<leftarrow>ps. fst p * snd p) - sx * sy / n)"

text \<open>
  The states the loop body of \<^verbatim>\<open>nancorr\<close> can reach, as a step relation: the initial
  accumulators with no pair consumed, and one \<open>welford_step\<close> per complete row.
\<close>

inductive welford_reach :: "welford \<Rightarrow> (real \<times> real) list \<Rightarrow> bool" where
  reach_init: "welford_reach welford_init []"
| reach_step: "welford_reach st ps \<Longrightarrow> welford_reach (welford_step st x y) (ps @ [(x, y)])"

lemma welford_inv_init: "welford_inv welford_init []"
  by (simp add: welford_inv_def welford_init_def)

lemma welford_inv_step:
  assumes "welford_inv st ps"
  shows "welford_inv (welford_step st x y) (ps @ [(x, y)])"
proof (cases "ps = []")
  case True
  with assms show ?thesis
    by (simp add: welford_inv_def welford_step_def Let_def)
next
  case False
  define m sx sy sxx syy sxy where "m = real (length ps)"
    and "sx = (\<Sum>p\<leftarrow>ps. fst p)" and "sy = (\<Sum>p\<leftarrow>ps. snd p)"
    and "sxx = (\<Sum>p\<leftarrow>ps. fst p * fst p)" and "syy = (\<Sum>p\<leftarrow>ps. snd p * snd p)"
    and "sxy = (\<Sum>p\<leftarrow>ps. fst p * snd p)"
  have m: "0 < m" using False by (simp add: m_def)
  from assms have st: "nobs st = length ps" "meanx st = sx / m" "meany st = sy / m"
      "ssqdmx st = sxx - sx * sx / m" "ssqdmy st = syy - sy * sy / m"
      "covxy st = sxy - sx * sy / m"
    by (simp_all add: welford_inv_def Let_def m_def sx_def sy_def sxx_def syy_def sxy_def)
  have n1: "real (nobs st + 1) = m + 1" using st(1) by (simp add: m_def)
  have sums: "real (length (ps @ [(x, y)])) = m + 1"
      "(\<Sum>p\<leftarrow>ps @ [(x, y)]. fst p) = sx + x" "(\<Sum>p\<leftarrow>ps @ [(x, y)]. snd p) = sy + y"
      "(\<Sum>p\<leftarrow>ps @ [(x, y)]. fst p * fst p) = sxx + x * x"
      "(\<Sum>p\<leftarrow>ps @ [(x, y)]. snd p * snd p) = syy + y * y"
      "(\<Sum>p\<leftarrow>ps @ [(x, y)]. fst p * snd p) = sxy + x * y"
    by (simp_all add: m_def sx_def sy_def sxx_def syy_def sxy_def)
  have "meanx (welford_step st x y) = (sx + x) / (m + 1)"
    using stream_mean_step [OF m, of sx x] unfolding welford_step_def Let_def n1 by (simp add: st(2-))
  moreover have "meany (welford_step st x y) = (sy + y) / (m + 1)"
    using stream_mean_step [OF m, of sy y] unfolding welford_step_def Let_def n1 by (simp add: st(2-))
  moreover have "ssqdmx (welford_step st x y) = sxx + x * x - (sx + x) * (sx + x) / (m + 1)"
    using stream_comoment_step [OF m, of sxx sx sx x x] unfolding welford_step_def Let_def n1 by (simp add: st(2-))
  moreover have "ssqdmy (welford_step st x y) = syy + y * y - (sy + y) * (sy + y) / (m + 1)"
    using stream_comoment_step [OF m, of syy sy sy y y] unfolding welford_step_def Let_def n1 by (simp add: st(2-))
  moreover have "covxy (welford_step st x y) = sxy + x * y - (sx + x) * (sy + y) / (m + 1)"
    using stream_comoment_step [OF m, of sxy sx sy x y] unfolding welford_step_def Let_def n1 by (simp add: st(2-))
  moreover have "nobs (welford_step st x y) = length (ps @ [(x, y)])"
    by (simp add: welford_step_def Let_def st)
  ultimately show ?thesis
    unfolding welford_inv_def Let_def sums by simp
qed

lemma welford_inv_scan:
  "welford_inv st ps \<Longrightarrow> welford_inv (nancorr_scan st xs ys) (ps @ complete_pairs xs ys)"
proof (induction st xs ys arbitrary: ps rule: nancorr_scan.induct)
  case (1 st vx xs vy ys)
  have "welford_inv (welford_step st vx vy) (ps @ [(vx, vy)])"
    using "1.prems" by (rule welford_inv_step)
  from "1.IH" [OF this] show ?case by simp
qed simp_all

lemma nancorr_scan_moments:
  assumes "st = nancorr_scan welford_init xs ys" and "ps = complete_pairs xs ys"
  shows "nobs st = length ps" "ssqdmx st = sumsq_dev (map fst ps)"
    "ssqdmy st = sumsq_dev (map snd ps)" "covxy st = comoment ps"
proof -
  have inv: "welford_inv st ps"
    using welford_inv_scan [OF welford_inv_init, of xs ys] assms by simp
  then show "nobs st = length ps" by (simp add: welford_inv_def Let_def)
  show "ssqdmx st = sumsq_dev (map fst ps)"
    using inv by (simp add: welford_inv_def Let_def sumsq_dev_raw power2_eq_square o_def)
  show "ssqdmy st = sumsq_dev (map snd ps)"
    using inv by (simp add: welford_inv_def Let_def sumsq_dev_raw power2_eq_square o_def)
  show "covxy st = comoment ps"
    using inv by (simp add: welford_inv_def Let_def comoment_raw)
qed

lemma welford_inv_moments:
  assumes "welford_inv st ps"
  shows "nobs st = length ps \<and> meanx st = mean (map fst ps) \<and> meany st = mean (map snd ps)
         \<and> ssqdmx st = sumsq_dev (map fst ps) \<and> ssqdmy st = sumsq_dev (map snd ps)
         \<and> covxy st = comoment ps"
  using assms
  by (simp add: welford_inv_def Let_def sumsq_dev_raw comoment_raw mean_def power2_eq_square o_def)

lemma welford_reach_inv: "welford_reach st ps \<Longrightarrow> welford_inv st ps"
  by (induction rule: welford_reach.induct) (simp_all add: welford_inv_init welford_inv_step)

lemma welford_reach_scan:
  "welford_reach st ps \<Longrightarrow> welford_reach (nancorr_scan st xs ys) (ps @ complete_pairs xs ys)"
proof (induction st xs ys arbitrary: ps rule: nancorr_scan.induct)
  case (1 st vx xs vy ys)
  from "1.IH" [OF reach_step [OF "1.prems"]] show ?case by simp
qed simp_all

lemma corr_clip_id: "\<bar>v\<bar> \<le> 1 \<Longrightarrow> corr_clip v = v"
  by (auto simp: corr_clip_def abs_le_iff)

lemma pearson_ref_Nil [simp]: "pearson_ref [] = None"
  by (simp add: pearson_ref_def sumsq_dev_def)

subsection \<open>Properties of pandas' coefficient\<close>

text \<open>
  C3. The clip in \<^verbatim>\<open>nancorr\<close> never fires: after the Welford pass over any two
  columns, the co-moment accumulator is bounded by the geometric mean of the two
  sum-of-squares accumulators (Cauchy--Schwarz), so \<open>covxy / divisor\<close> already lies in
  \<open>[-1, 1]\<close> and the clipping is a guard against rounding only.
\<close>

theorem nancorr_clip_inactive:
  "\<bar>covxy (nancorr_scan welford_init xs ys)\<bar>
     \<le> sqrt (ssqdmx (nancorr_scan welford_init xs ys) * ssqdmy (nancorr_scan welford_init xs ys))"
proof -
  let ?ps = "complete_pairs xs ys"
  have "(comoment ?ps)\<^sup>2 \<le> sumsq_dev (map fst ?ps) * sumsq_dev (map snd ?ps)"
    by (rule comoment_sq_le)
  then have "sqrt ((comoment ?ps)\<^sup>2) \<le> sqrt (sumsq_dev (map fst ?ps) * sumsq_dev (map snd ?ps))"
    by (rule real_sqrt_le_mono)
  then show ?thesis by (simp add: nancorr_scan_moments [OF refl refl])
qed

lemma nancorr_pair_pearson_ref:
  "nancorr_pair xs ys = pearson_ref (complete_pairs xs ys)"
proof -
  let ?st = "nancorr_scan welford_init xs ys" and ?ps = "complete_pairs xs ys"
  note mom = nancorr_scan_moments [OF refl refl, of xs ys]
  show ?thesis
  proof (cases "?ps = []")
    case True
    then show ?thesis using mom(1) by (simp add: nancorr_pair_def)
  next
    case False
    have bound: "\<bar>comoment ?ps / sqrt (sumsq_dev (map fst ?ps) * sumsq_dev (map snd ?ps))\<bar> \<le> 1"
      by (rule abs_div_sqrt_le_1 [OF comoment_sq_le])
    from False show ?thesis
      using mom corr_clip_id [OF bound]
      by (simp add: nancorr_pair_def pearson_ref_def Let_def)
  qed
qed

text \<open>
  C1. pandas' pairwise coefficient is the textbook Pearson coefficient of the rows where
  both values are present: Welford's single pass computes the two-pass centred sums, and
  the result is NaN (\<open>None\<close>) exactly when there is no such row or one of the two
  columns is constant on them.
\<close>

theorem nancorr_pair_eq_pearson:
  "nancorr_pair xs ys = pearson_ref (complete_pairs xs ys)"
  by (rule nancorr_pair_pearson_ref)

lemma complete_pairs_swap:
  "complete_pairs ys xs = map prod.swap (complete_pairs xs ys)"
  by (induction xs ys rule: complete_pairs.induct) (auto split: option.splits)

lemma comoment_swap: "comoment (map prod.swap ps) = comoment ps"
  by (simp add: comoment_def o_def mult.commute)

lemma pearson_ref_swap: "pearson_ref (map prod.swap ps) = pearson_ref ps"
  by (simp add: pearson_ref_def comoment_swap o_def mult.commute)

lemma nancorr_pair_sym: "nancorr_pair xs ys = nancorr_pair ys xs"
  by (simp add: nancorr_pair_pearson_ref complete_pairs_swap [of xs ys] pearson_ref_swap)

lemma complete_pairs_diag: "complete_pairs xs xs = map (\<lambda>x. (x, x)) (present xs)"
proof (induction xs)
  case Nil
  then show ?case by simp
next
  case (Cons a xs)
  then show ?case by (cases a) simp_all
qed

lemma sumsq_dev_pos_iff: "0 < sumsq_dev xs \<longleftrightarrow> 2 \<le> card (set xs)"
proof
  assume "0 < sumsq_dev xs"
  then obtain x where x: "x \<in> set xs" "x \<noteq> mean xs"
    using sumsq_dev_eq_0_iff [of xs] by auto
  show "2 \<le> card (set xs)"
  proof (rule ccontr)
    assume "\<not> 2 \<le> card (set xs)"
    moreover have "0 < card (set xs)" using x(1) by (auto simp: card_gt_0_iff)
    ultimately have "card (set xs) = 1" by linarith
    then obtain y where "set xs = {y}" by (rule card_1_singletonE)
    with x(1) have "\<forall>z\<in>set xs. z = x" by simp
    moreover have "xs \<noteq> []" using x(1) by auto
    ultimately have "mean xs = x" by (simp add: mean_const_elems)
    with x(2) show False by simp
  qed
next
  assume "2 \<le> card (set xs)"
  then have "\<not> card (set xs) \<le> Suc 0" by simp
  then obtain a b where ab: "a \<in> set xs" "b \<in> set xs" "a \<noteq> b"
    using card_le_Suc0_iff_eq [of "set xs"] by auto
  then have "a \<noteq> mean xs \<or> b \<noteq> mean xs" by auto
  with ab(1,2) have "\<not> (\<forall>x\<in>set xs. x = mean xs)" by blast
  then have "sumsq_dev xs \<noteq> 0" by (simp add: sumsq_dev_eq_0_iff)
  then show "0 < sumsq_dev xs" using sumsq_dev_nonneg [of xs] by linarith
qed

subsection \<open>Properties of the correlation matrix\<close>

text \<open>
  C2. Every entry \<open>(i, j)\<close> of the matrix \<^verbatim>\<open>df.corr()\<close> prints is the Pearson
  coefficient of columns \<open>i\<close> and \<open>j\<close> over their pairwise-complete rows, and the
  matrix is symmetric.
\<close>

theorem nancorr_entry:
  assumes "i < length cols" and "j < length cols"
  shows "nancorr cols ! i ! j = pearson_ref (complete_pairs (cols ! i) (cols ! j))
         \<and> nancorr cols ! i ! j = nancorr cols ! j ! i"
proof -
  have entry: "nancorr cols ! a ! b = nancorr_pair (cols ! a) (cols ! b)"
    if "a < length cols" "b < length cols" for a b
  proof -
    have "nancorr cols ! a ! b = (if b \<le> a then nancorr_pair (cols ! a) (cols ! b)
                                  else nancorr_pair (cols ! b) (cols ! a))"
      using that by (simp add: nancorr_def)
    then show ?thesis using nancorr_pair_sym [of "cols ! b" "cols ! a"] by simp
  qed
  show ?thesis
    using entry [OF assms] entry [OF assms(2,1)] nancorr_pair_sym [of "cols ! i" "cols ! j"]
    by (simp add: nancorr_pair_pearson_ref)
qed

text \<open>
  C4. The diagonal of the matrix is 1 exactly for the columns with at least two distinct
  present values; for a column that is constant on its present values, or has none, it
  is NaN (the spec's "unit diagonal" holds only for non-constant columns).
\<close>

theorem nancorr_diag:
  assumes "i < length cols"
  shows "nancorr cols ! i ! i = (if 2 \<le> card (set (present (cols ! i))) then Some 1 else None)"
proof -
  let ?vs = "present (cols ! i)"
  have e: "nancorr cols ! i ! i = pearson_ref (map (\<lambda>x. (x, x)) ?vs)"
    using assms by (simp add: nancorr_def nancorr_pair_pearson_ref complete_pairs_diag)
  have d: "sqrt (sumsq_dev ?vs * sumsq_dev ?vs) = sumsq_dev ?vs"
    by (simp add: real_sqrt_mult_self)
  have z: "sumsq_dev ?vs = 0 \<longleftrightarrow> \<not> 2 \<le> card (set ?vs)"
    using sumsq_dev_pos_iff [of ?vs] sumsq_dev_nonneg [of ?vs] by linarith
  show ?thesis
    by (simp add: e pearson_ref_def Let_def o_def comoment_diag d z)
qed

subsection \<open>Witnesses\<close>

theorem nancorr_entry_witness:
  "nancorr [[Some (1::real), Some 2, None, Some 4], [Some 2, None, Some 5, Some 9]] ! 0 ! 1
     = pearson_ref (complete_pairs ([[Some (1::real), Some 2, None, Some 4], [Some 2, None, Some 5, Some 9]] ! 0) ([[Some (1::real), Some 2, None, Some 4], [Some 2, None, Some 5, Some 9]] ! 1))
   \<and> nancorr [[Some (1::real), Some 2, None, Some 4], [Some 2, None, Some 5, Some 9]] ! 0 ! 1 = nancorr [[Some (1::real), Some 2, None, Some 4], [Some 2, None, Some 5, Some 9]] ! 1 ! 0"
  by (rule nancorr_entry) simp_all

theorem nancorr_diag_witness:
  "0 < length [[Some (1::real), None, Some 3], [Some 5, Some 5, None]]
   \<and> nancorr [[Some (1::real), None, Some 3], [Some 5, Some 5, None]] ! 0 ! 0 = Some 1
   \<and> nancorr [[Some (1::real), None, Some 3], [Some 5, Some 5, None]] ! 1 ! 1 = None"
  using nancorr_diag [of 0 "[[Some (1::real), None, Some 3], [Some 5, Some 5, None]]"]
    nancorr_diag [of 1 "[[Some (1::real), None, Some 3], [Some 5, Some 5, None]]"]
  by simp

subsection \<open>The loop invariant\<close>

text \<open>
  C36. The invariant of pandas' \<^verbatim>\<open>nancorr\<close> loop: after each row \<open>k\<close>, the accumulators
  hold the number of complete pairs among the first \<open>k\<close> rows, their means, their
  centred sums of squares and their centred cross sum. The loop's states are exactly the
  states reachable by \<open>welford_step\<close> (\<open>welford_reach\<close>), and every reachable state
  holds these moments.
\<close>

theorem nancorr_loop_invariant:
  "let st = nancorr_scan welford_init (take k xs) (take k ys);
       ps = complete_pairs (take k xs) (take k ys)
   in nobs st = length ps \<and> meanx st = mean (map fst ps) \<and> meany st = mean (map snd ps)
      \<and> ssqdmx st = sumsq_dev (map fst ps) \<and> ssqdmy st = sumsq_dev (map snd ps)
      \<and> covxy st = comoment ps"
  using welford_inv_moments [OF welford_reach_inv [OF welford_reach_scan [OF reach_init]]]
  by (simp add: Let_def)

end
