(* ===== verification/Pearson.thy ===== *)
theory Pearson
  imports Correlation
begin

text \<open>
  scipy's \<^verbatim>\<open>stats.pearsonr(x, y)\<close>, called at lines 99--125 of \<^verbatim>\<open>main.py\<close> on nine
  numeric columns against \<^verbatim>\<open>price\<close>. The branches follow scipy (1.9 and later): ValueError
  for unequal lengths and for fewer than two values; a ConstantInputWarning and NaN when
  either input equals its first element everywhere (a NaN entry never compares equal,
  so a column with NaN is not constant); for two values the product of the signs of the
  differences; otherwise the dot product of the centred vectors divided by their norms,
  clipped to \<open>[-1, 1]\<close>. Arithmetic on a NaN entry yields NaN, written here as the
  result \<open>None\<close> whenever an input has a missing value. The p-value, computed from the
  beta distribution, is not modelled.
\<close>

section \<open>scipy.stats.pearsonr\<close>

definition all_present :: "real option list \<Rightarrow> bool" where
  "all_present xs \<longleftrightarrow> None \<notin> set xs"

text \<open>\<^verbatim>\<open>(x == x[0]).all()\<close> under IEEE comparison: NaN equals nothing.\<close>

definition const_input :: "real option list \<Rightarrow> bool" where
  "const_input xs \<longleftrightarrow> list_all (\<lambda>v. v \<noteq> None \<and> v = xs ! 0) xs"

text \<open>The general branch: the dot product of the centred vectors scaled by their norms.\<close>

definition centred_dot :: "real list \<Rightarrow> real list \<Rightarrow> real" where
  "centred_dot x y =
     (let xmean = mean x; ymean = mean y;
          xm = map (\<lambda>v. v - xmean) x; ym = map (\<lambda>v. v - ymean) y;
          normxm = sqrt (\<Sum>v\<leftarrow>xm. v\<^sup>2); normym = sqrt (\<Sum>v\<leftarrow>ym. v\<^sup>2)
      in (\<Sum>p\<leftarrow>zip xm ym. (fst p / normxm) * (snd p / normym)))"

definition pearsonr :: "real option list \<Rightarrow> real option list \<Rightarrow> real option result" where
  "pearsonr xs ys =
     (let n = length xs
      in if n \<noteq> length ys then Inl (ValueError ''x and y must have the same length.'')
         else if n < 2 then Inl (ValueError ''x and y must have length at least 2.'')
         else if const_input xs \<or> const_input ys then Inr None
         else if \<not> (all_present xs \<and> all_present ys) then Inr None
         else
           let x = map the xs; y = map the ys
           in if n = 2 then Inr (Some (sgn (x ! 1 - x ! 0) * sgn (y ! 1 - y ! 0)))
              else Inr (Some (max (min (centred_dot x y) 1) (-1))))"

section \<open>Lemmas\<close>

lemma complete_pairs_Some [simp]:
  "length xs = length ys \<Longrightarrow> complete_pairs (map Some xs) (map Some ys) = zip xs ys"
  by (induction xs ys rule: list_induct2) simp_all

lemma const_input_Some: "const_input (map Some xs) \<longleftrightarrow> (\<forall>v\<in>set xs. v = xs ! 0)"
  by (cases xs) (auto simp: const_input_def list_all_iff)

lemma not_const_sumsq_dev_pos:
  assumes "\<not> (\<forall>v\<in>set xs. v = xs ! 0)"
  shows "0 < sumsq_dev xs"
proof -
  from assms obtain v where v: "v \<in> set xs" "v \<noteq> xs ! 0" by auto
  then have "xs ! 0 \<in> set xs" by (cases xs) auto
  with v have "{v, xs ! 0} \<subseteq> set xs" by auto
  then have "card {v, xs ! 0} \<le> card (set xs)" by (rule card_mono [OF finite_set])
  with v(2) have "2 \<le> card (set xs)" by simp
  then show ?thesis by (simp add: sumsq_dev_pos_iff)
qed

lemma map_fst_zip_eq: "length xs = length ys \<Longrightarrow> map fst (zip xs ys) = xs"
  and map_snd_zip_eq: "length xs = length ys \<Longrightarrow> map snd (zip xs ys) = ys"
  by simp_all

text \<open>The two-value shortcut is the Pearson coefficient of two points.\<close>

lemma pearson_ref_two:
  assumes "a0 \<noteq> a1" and "b0 \<noteq> b1"
  shows "pearson_ref [(a0, b0), (a1, b1)] = Some (sgn (a1 - a0) * sgn (b1 - b0))"
proof -
  define u v where "u = a1 - a0" and "v = b1 - b0"
  have u: "u \<noteq> 0" and v: "v \<noteq> 0" using assms by (simp_all add: u_def v_def)
  have sx: "sumsq_dev [a0, a1] = u\<^sup>2 / 2"
    by (simp add: sumsq_dev_def mean_def u_def power2_eq_square field_simps)
  have sy: "sumsq_dev [b0, b1] = v\<^sup>2 / 2"
    by (simp add: sumsq_dev_def mean_def v_def power2_eq_square field_simps)
  have c: "comoment [(a0, b0), (a1, b1)] = u * v / 2"
    by (simp add: comoment_def mean_def u_def v_def field_simps)
  have d: "sqrt (u\<^sup>2 / 2 * (v\<^sup>2 / 2)) = \<bar>u * v\<bar> / 2"
  proof -
    have "u\<^sup>2 / 2 * (v\<^sup>2 / 2) = (\<bar>u * v\<bar> / 2)\<^sup>2"
      by (simp add: power2_eq_square field_simps abs_mult_self_eq)
    then show ?thesis by simp
  qed
  have "u * v / 2 / (\<bar>u * v\<bar> / 2) = (u * v) / \<bar>u * v\<bar>"
    using u v by simp
  also have "\<dots> = sgn u * sgn v" by (simp only: real_sgn_eq [symmetric] sgn_mult)
  finally have sg: "u * v / 2 / (\<bar>u * v\<bar> / 2) = sgn u * sgn v" .
  have nz: "\<bar>u * v\<bar> / 2 \<noteq> 0" using u v by simp
  have "pearson_ref [(a0, b0), (a1, b1)] = Some (u * v / 2 / (\<bar>u * v\<bar> / 2))"
    unfolding pearson_ref_def Let_def using nz by (simp only: list.map fst_conv snd_conv sx sy c d if_False)
  then have "pearson_ref [(a0, b0), (a1, b1)] = Some (sgn u * sgn v)" by (simp only: sg)
  then show ?thesis by (simp only: u_def v_def)
qed

text \<open>The general branch computes the centred co-moment over the product of the norms.\<close>

lemma pearsonr_dot:
  assumes "length x = length y"
  shows "centred_dot x y = comoment (zip x y) / sqrt (sumsq_dev x * sumsq_dev y)"
proof -
  have nx: "(\<Sum>v\<leftarrow>map (\<lambda>v. v - mean x) x. v\<^sup>2) = sumsq_dev x"
    and ny: "(\<Sum>v\<leftarrow>map (\<lambda>v. v - mean y) y. v\<^sup>2) = sumsq_dev y"
    by (simp_all add: sumsq_dev_def o_def)
  have "(\<Sum>p\<leftarrow>zip (map (\<lambda>v. v - mean x) x) (map (\<lambda>v. v - mean y) y).
            (fst p / sqrt (sumsq_dev x)) * (snd p / sqrt (sumsq_dev y)))
      = (\<Sum>p\<leftarrow>zip x y. (fst p - mean x) * (snd p - mean y) / (sqrt (sumsq_dev x) * sqrt (sumsq_dev y)))"
    by (simp add: zip_map_map o_def case_prod_beta)
  also have "\<dots> = comoment (zip x y) / sqrt (sumsq_dev x * sumsq_dev y)"
    using assms by (simp add: sum_list_divide_const comoment_def real_sqrt_mult)
  finally show ?thesis by (simp only: centred_dot_def Let_def nx ny)
qed

subsection \<open>Properties of pearsonr\<close>

text \<open>
  C5. \<^verbatim>\<open>pearsonr\<close> raises exactly for inputs of unequal length or of fewer than two
  values, each with its ValueError; every other input gives a coefficient or NaN.
\<close>

theorem pearsonr_error:
  "pearsonr xs ys = Inl e \<longleftrightarrow>
     (length xs \<noteq> length ys \<and> e = ValueError ''x and y must have the same length.'')
     \<or> (length xs = length ys \<and> length xs < 2
        \<and> e = ValueError ''x and y must have length at least 2.'')"
  by (auto simp: pearsonr_def Let_def)

lemma pearsonr_const_ref:
  assumes len: "length xs = length ys" and two: "2 \<le> length xs"
    and const: "(\<forall>v\<in>set xs. v = xs ! 0) \<or> (\<forall>v\<in>set ys. v = ys ! 0)"
  shows "pearsonr (map Some xs) (map Some ys) = Inr (pearson_ref (zip xs ys))"
proof -
  have "sumsq_dev xs = 0 \<or> sumsq_dev ys = 0" using const by (auto intro: const_elems_sumsq_dev_0)
  then have "pearson_ref (zip xs ys) = None" using len by (auto simp: pearson_ref_def)
  with const len two show ?thesis by (simp add: pearsonr_def const_input_Some)
qed

lemma pearsonr_two_ref:
  assumes len: "length ys = 2" and lx: "length xs = 2"
    and nc: "\<not> ((\<forall>v\<in>set xs. v = xs ! 0) \<or> (\<forall>v\<in>set ys. v = ys ! 0))"
  shows "pearsonr (map Some xs) (map Some ys) = Inr (pearson_ref (zip xs ys))"
proof -
  obtain a0 a1 b0 b1 where xs: "xs = [a0, a1]" and ys: "ys = [b0, b1]"
    using len lx by (auto simp: numeral_2_eq_2 length_Suc_conv)
  with nc have "a0 \<noteq> a1" "b0 \<noteq> b1" by auto
  then have pr: "pearson_ref (zip xs ys) = Some (sgn (a1 - a0) * sgn (b1 - b0))"
    by (simp add: xs ys pearson_ref_two)
  have nth: "xs ! 0 = a0" "xs ! Suc 0 = a1" "ys ! 0 = b0" "ys ! Suc 0 = b1" by (simp_all add: xs ys)
  have the_Some: "map the (map Some zs) = zs" for zs :: "real list" by (simp add: o_def)
  show ?thesis using nc len lx
    by (simp add: pearsonr_def Let_def const_input_Some all_present_def the_Some nth pr)
qed

lemma pearsonr_general_ref:
  assumes len: "length xs = length ys" and n: "2 < length xs"
    and nc: "\<not> ((\<forall>v\<in>set xs. v = xs ! 0) \<or> (\<forall>v\<in>set ys. v = ys ! 0))"
  shows "pearsonr (map Some xs) (map Some ys) = Inr (pearson_ref (zip xs ys))"
proof -
  have fz: "map fst (zip xs ys) = xs" "map snd (zip xs ys) = ys" using len by simp_all
  have px: "0 < sumsq_dev xs" and py: "0 < sumsq_dev ys"
    using nc by (auto intro: not_const_sumsq_dev_pos)
  let ?r = "comoment (zip xs ys) / sqrt (sumsq_dev xs * sumsq_dev ys)"
  have "\<bar>?r\<bar> \<le> 1"
    using abs_div_sqrt_le_1 [OF comoment_sq_le [of "zip xs ys"]] by (simp add: fz)
  then have clip: "max (min ?r 1) (-1) = ?r" by (rule max_min_clip_id)
  have "pearson_ref (zip xs ys) = Some ?r" using px py by (simp add: pearson_ref_def fz)
  with nc n len show ?thesis
    by (simp add: pearsonr_def Let_def const_input_Some all_present_def o_def pearsonr_dot [OF len] clip)
qed

lemma pearsonr_Some_ref:
  assumes len: "length xs = length ys" and two: "2 \<le> length xs"
  shows "pearsonr (map Some xs) (map Some ys) = Inr (pearson_ref (zip xs ys))"
proof (cases "(\<forall>v\<in>set xs. v = xs ! 0) \<or> (\<forall>v\<in>set ys. v = ys ! 0)")
  case True
  then show ?thesis by (rule pearsonr_const_ref [OF len two])
next
  case False
  show ?thesis
  proof (cases "length xs = 2")
    case True
    then show ?thesis using pearsonr_two_ref [OF _ True False] len by simp
  next
    case n: False
    then show ?thesis using pearsonr_general_ref [OF len _ False] two by simp
  qed
qed

text \<open>
  C6. On two complete columns of equal length at least 2, scipy's \<^verbatim>\<open>pearsonr\<close> and
  pandas' \<^verbatim>\<open>corr\<close> give the same coefficient: the constant-input branch, the two-value
  shortcut and the clipped general formula all agree with the Welford computation.
\<close>

theorem pearsonr_agrees_nancorr:
  assumes len: "length xs = length ys" and two: "2 \<le> length xs"
  shows "pearsonr (map Some xs) (map Some ys) = Inr (nancorr_pair (map Some xs) (map Some ys))"
proof -
  have "nancorr_pair (map Some xs) (map Some ys) = pearson_ref (zip xs ys)"
    using len by (simp add: nancorr_pair_pearson_ref)
  then show ?thesis using pearsonr_Some_ref [OF len two] by simp
qed


subsection \<open>Witnesses\<close>

theorem pearsonr_error_witness:
  "pearsonr [Some 1] [Some 2] = Inl (ValueError ''x and y must have length at least 2.'')
   \<and> pearsonr [Some 1, Some 2] [Some 2] = Inl (ValueError ''x and y must have the same length.'')"
  using pearsonr_error [of "[Some 1]" "[Some 2]" "ValueError ''x and y must have length at least 2.''"]
    pearsonr_error [of "[Some 1, Some 2]" "[Some 2]" "ValueError ''x and y must have the same length.''"]
  by simp

theorem pearsonr_agrees_nancorr_witness:
  "pearsonr (map Some [1, 2, 4]) (map Some [2, 3, 7])
     = Inr (nancorr_pair (map Some [1, 2, 4]) (map Some [2, 3, 7]))"
  by (rule pearsonr_agrees_nancorr) simp_all


end
