(* ===== verification/Samples.thy ===== *)
theory Samples
  imports Frame
begin

text \<open>
  A handful of rows in the shape of the automobile table the script loads (the columns it
  uses, with one missing value), for the witnesses of the component theories: each
  witness instantiates a theorem at this frame and evaluates its hypotheses by
  \<open>simp\<close>.
\<close>

definition autos :: frame where
  "autos =
     \<lparr>columns = [''drive-wheels'', ''body-style'', ''bore'', ''horsepower'', ''price''],
      rows =
        [[Str ''rwd'', Str ''convertible'', Num (347/100), Num 111, Num 13495],
         [Str ''fwd'', Str ''sedan'', Num (319/100), Num 102, Num 13950],
         [Str ''4wd'', Str ''sedan'', Num (319/100), Num 115, Num 17450],
         [Str ''fwd'', Str ''hatchback'', NaN, Num 70, Num 6295],
         [Str ''rwd'', Str ''sedan'', Num (362/100), Num 160, Num 16500],
         [Str ''fwd'', Str ''sedan'', Num (303/100), Num 69, Num 6575]]\<rparr>"

text \<open>The two columns of line 131 (drive wheels and price), on the rows of \<open>autos\<close>.\<close>

definition sample_prices :: frame where
  "sample_prices =
     \<lparr>columns = [''drive-wheels'', ''price''],
      rows = [[Str ''rwd'', Num 13495], [Str ''fwd'', Num 13950], [Str ''4wd'', Num 17450],
              [Str ''fwd'', Num 6295], [Str ''rwd'', Num 16500], [Str ''fwd'', Num 6575]]\<rparr>"

text \<open>Small frames for the pivot: one and two value columns besides the two keys.\<close>

definition pivot_sample :: frame where
  "pivot_sample =
     \<lparr>columns = [''a'', ''b'', ''v''],
      rows = [[Str ''x'', Str ''p'', Num 1], [Str ''y'', Str ''p'', Num 2], [Str ''x'', Str ''q'', Num 3]]\<rparr>"

definition pivot_sample2 :: frame where
  "pivot_sample2 =
     \<lparr>columns = [''a'', ''b'', ''v'', ''w''],
      rows = [[Str ''x'', Str ''p'', Num 1, Num 10], [Str ''y'', Str ''q'', Num 2, Num 20]]\<rparr>"

text \<open>
  Frames with every column the whole script reads: \<open>autos_full\<close> has all three drive-wheel
  values, \<open>autos_2wd\<close> lacks the \<^verbatim>\<open>4wd\<close> row, \<open>autos_no_price\<close> lacks the price.
\<close>

definition autos_full :: frame where
  "autos_full =
     \<lparr>columns = [''drive-wheels'', ''body-style'', ''bore'', ''stroke'', ''compression-ratio'', ''horsepower'',
                 ''price'', ''wheel-base'', ''length'', ''width'', ''curb-weight'', ''engine-size'',
                 ''city-mpg'', ''highway-mpg''],
      rows =
        [[Str ''rwd'', Str ''convertible'', Num 3, Num 2, Num 9, Num 111, Num 13495, Num 88, Num 168,
          Num 64, Num 2548, Num 130, Num 21, Num 27],
         [Str ''fwd'', Str ''sedan'', Num 3, Num 3, Num 10, Num 102, Num 13950, Num 99, Num 176,
          Num 66, Num 2337, Num 109, Num 24, Num 30],
         [Str ''4wd'', Str ''sedan'', Num 3, Num 3, Num 8, Num 115, Num 17450, Num 99, Num 176,
          Num 66, Num 2824, Num 136, Num 18, Num 22],
         [Str ''fwd'', Str ''hatchback'', NaN, Num 3, Num 9, Num 70, Num 6295, Num 94, Num 159,
          Num 63, Num 1874, Num 90, Num 38, Num 43]]\<rparr>"

definition autos_2wd :: frame where
  "autos_2wd = autos_full\<lparr>rows := filter (\<lambda>r. r ! 0 \<noteq> Str ''4wd'') (rows autos_full)\<rparr>"

definition autos_no_price :: frame where
  "autos_no_price =
     \<lparr>columns = [''bore'', ''stroke'', ''compression-ratio'', ''horsepower''],
      rows = [[Num 3, Num 2, Num 9, Num 111], [Num 3, Num 3, Num 10, Num 102], [NaN, Num 3, Num 9, Num 70]]\<rparr>"

definition autos_no_nan :: frame where
  "autos_no_nan = autos_full\<lparr>rows := take 3 (rows autos_full)\<rparr>"

definition autos_one_row :: frame where
  "autos_one_row = autos_full\<lparr>rows := take 1 (rows autos_full)\<rparr>"

end
