(* ===== verification/GroupBy.thy ===== *)
theory GroupBy
  imports Samples
begin

text \<open>
  The pandas group-by operations of the script and \<^verbatim>\<open>value_counts\<close>:
  \<^item> \<^verbatim>\<open>df.groupby(keys, as_index=False).mean()\<close> (lines 59 and 68): rows whose key has a NaN
    are dropped (\<open>dropna=True\<close>), the distinct keys are sorted (\<open>sort=True\<close>), and each
    non-key column is averaged over the group skipping NaN (NaN when the group has no
    value); an object (string) value column raises TypeError, as pandas 2 does;
  \<^item> \<^verbatim>\<open>grouped.get_group(v)\<close> (lines 135--150): the rows of group \<open>v\<close> in their
    original order, KeyError when \<open>v\<close> is not a group;
  \<^item> \<^verbatim>\<open>grouped.head()\<close> (line 132): the first \<open>n = 5\<close> rows of every group, in their
    original order;
  \<^item> \<^verbatim>\<open>Series.value_counts().to_frame()\<close> and the \<^verbatim>\<open>rename\<close> of line 49: the non-NaN
    values with their counts, by non-increasing count (ties in order of first
    occurrence); with pandas 2 the count column is named \<open>count\<close>.
  A group key is the list of the row's cells at the key columns, ordered
  lexicographically by the cell order of \<^theory_text>\<open>Frame\<close>.
\<close>

section \<open>Group keys and groups\<close>

definition row_key :: "nat list \<Rightarrow> cell list \<Rightarrow> cell list" where
  "row_key ks r = map (\<lambda>k. r ! k) ks"

definition key_ok :: "cell list \<Rightarrow> bool" where
  "key_ok k \<longleftrightarrow> NaN \<notin> set k"

definition group_keys :: "nat list \<Rightarrow> cell list list \<Rightarrow> cell list list" where
  "group_keys ks rs = sort (remdups (filter key_ok (map (row_key ks) rs)))"

definition group_rows :: "nat list \<Rightarrow> cell list list \<Rightarrow> cell list \<Rightarrow> cell list list" where
  "group_rows ks rs k = filter (\<lambda>r. row_key ks r = k) rs"

section \<open>Group means\<close>

text \<open>The mean of a group's column, skipping NaN; NaN when nothing is left.\<close>

definition nanmean :: "real option list \<Rightarrow> cell" where
  "nanmean vs = (case present vs of [] \<Rightarrow> NaN | xs \<Rightarrow> Num (mean xs))"

definition groupby_mean :: "frame \<Rightarrow> string list \<Rightarrow> frame result" where
  "groupby_mean df keys =
     bind_r (map_r (col_index df) keys)
       (\<lambda>ks. let vis = filter (\<lambda>i. i \<notin> set ks) [0..<length (columns df)]
             in if list_ex (\<lambda>i. list_ex is_str (column_at (rows df) i)) vis
                then Inl (TypeError ''agg function failed [how->mean,dtype->object]'')
                else Inr \<lparr>columns = keys @ map (\<lambda>i. columns df ! i) vis,
                          rows = map (\<lambda>k. k @ map (\<lambda>i. nanmean (map float_of
                                          (column_at (group_rows ks (rows df) k) i))) vis)
                                   (group_keys ks (rows df))\<rparr>)"

section \<open>Selecting a group and the first rows of each group\<close>

definition get_group :: "frame \<Rightarrow> string \<Rightarrow> string \<Rightarrow> frame result" where
  "get_group df key v =
     bind_r (col_index df key)
       (\<lambda>k. if [Str v] \<in> set (group_keys [k] (rows df))
            then Inr (df\<lparr>rows := group_rows [k] (rows df) [Str v]\<rparr>)
            else Inl (KeyError v))"

text \<open>
  \<^verbatim>\<open>GroupBy.head(n)\<close>: one pass over the rows with a count of the rows already taken
  from each group.
\<close>

fun head_scan :: "nat \<Rightarrow> nat list \<Rightarrow> (cell list \<Rightarrow> nat) \<Rightarrow> cell list list \<Rightarrow> cell list list" where
  "head_scan n ks taken [] = []"
| "head_scan n ks taken (r # rs) =
     (let k = row_key ks r
      in if key_ok k \<and> taken k < n then r # head_scan n ks (taken(k := Suc (taken k))) rs
         else head_scan n ks taken rs)"

definition groupby_head :: "nat \<Rightarrow> frame \<Rightarrow> string list \<Rightarrow> frame result" where
  "groupby_head n df keys =
     bind_r (map_r (col_index df) keys)
       (\<lambda>ks. Inr (df\<lparr>rows := head_scan n ks (\<lambda>_. 0) (rows df)\<rparr>))"

section \<open>Value counts\<close>

definition value_counts :: "cell list \<Rightarrow> (cell \<times> nat) list" where
  "value_counts col =
     sort_key (\<lambda>p. - int (snd p))
       (map (\<lambda>v. (v, count_list col v)) (unique (filter (\<lambda>c. c \<noteq> NaN) col)))"

record count_frame =
  index_name :: string
  count_columns :: "string list"
  count_rows :: "(cell \<times> nat) list"

text \<open>\<^verbatim>\<open>s.value_counts().to_frame()\<close>: the index is named after the series, the column \<open>count\<close>.\<close>

definition value_counts_frame :: "string \<Rightarrow> cell list \<Rightarrow> count_frame" where
  "value_counts_frame name col =
     \<lparr>index_name = name, count_columns = [''count''], count_rows = value_counts col\<rparr>"

text \<open>\<^verbatim>\<open>rename(columns=mapping)\<close>: a name not in the mapping is kept (\<open>errors='ignore'\<close>).\<close>

definition rename_columns :: "(string \<rightharpoonup> string) \<Rightarrow> string list \<Rightarrow> string list" where
  "rename_columns m cs = map (\<lambda>c. case m c of Some c' \<Rightarrow> c' | None \<Rightarrow> c) cs"

text \<open>Lines 48--50: count, rename the count column, name the index.\<close>

definition drive_wheel_counts :: "frame \<Rightarrow> count_frame result" where
  "drive_wheel_counts df =
     bind_r (get_column df ''drive-wheels'')
       (\<lambda>col. let counts = value_counts_frame ''drive-wheels'' col;
                  counts = counts\<lparr>count_columns :=
                    rename_columns [''drive-wheels'' \<mapsto> ''value_counts''] (count_columns counts)\<rparr>
              in Inr (counts\<lparr>index_name := ''drive-wheels''\<rparr>))"

section \<open>Lemmas on keys and groups\<close>

text \<open>The unfoldings that evaluate the group-by operations on a concrete frame.\<close>

lemmas groupby_eval =
  select_columns_def get_column_def col_index_def groupby_mean_def get_group_def
  groupby_head_def Let_def group_keys_def group_rows_def row_key_def column_at_def
  key_ok_def nanmean_def mean_def float_of_def

lemma set_group_keys:
  "set (group_keys ks rs) = {k \<in> row_key ks ` set rs. key_ok k}"
  by (auto simp: group_keys_def)

lemma sorted_group_keys: "sorted (group_keys ks rs)"
  and distinct_group_keys: "distinct (group_keys ks rs)"
  by (simp_all add: group_keys_def)

lemma group_rows_nonempty: "k \<in> set (group_keys ks rs) \<Longrightarrow> group_rows ks rs k \<noteq> []"
  by (auto simp: set_group_keys group_rows_def filter_empty_conv)

lemma mset_concat_map_if:
  "distinct K \<Longrightarrow>
   mset (concat (map (\<lambda>k. if a = k then r # f k else f k) K))
     = (if a \<in> set K then add_mset r (mset (concat (map f K))) else mset (concat (map f K)))"
  by (induction K) auto

lemma mset_concat_filter_keys:
  "distinct K \<Longrightarrow>
   mset (concat (map (\<lambda>k. filter (\<lambda>r. g r = k) rs) K)) = mset (filter (\<lambda>r. g r \<in> set K) rs)"
proof (induction rs)
  case Nil
  then show ?case by (induction K) simp_all
next
  case (Cons r rs)
  have "mset (concat (map (\<lambda>k. filter (\<lambda>r. g r = k) (r # rs)) K))
      = mset (concat (map (\<lambda>k. if g r = k then r # filter (\<lambda>r. g r = k) rs
                                  else filter (\<lambda>r. g r = k) rs) K))"
    by (simp add: if_distrib)
  also have "\<dots> = (if g r \<in> set K then add_mset r (mset (concat (map (\<lambda>k. filter (\<lambda>r. g r = k) rs) K)))
                  else mset (concat (map (\<lambda>k. filter (\<lambda>r. g r = k) rs) K)))"
    using Cons.prems by (rule mset_concat_map_if)
  finally show ?case using Cons by simp
qed

lemma mean_bounds:
  assumes "xs \<noteq> []"
  shows "Min (set xs) \<le> mean xs \<and> mean xs \<le> Max (set xs)"
proof -
  let ?n = "real (length xs)"
  have n: "0 < ?n" using assms by simp
  have lo: "?n * Min (set xs) \<le> sum_list xs"
    by (rule sum_list_ge_length_mult) simp
  have hi: "sum_list xs \<le> ?n * Max (set xs)"
    by (rule sum_list_le_length_mult) simp
  from lo hi n show ?thesis by (simp add: mean_def field_simps)
qed

lemma group_rows_partition_mset:
  "mset (concat (map (group_rows ks rs) (group_keys ks rs)))
     = mset (filter (\<lambda>r. key_ok (row_key ks r)) rs)"
proof -
  have "mset (concat (map (group_rows ks rs) (group_keys ks rs)))
      = mset (filter (\<lambda>r. row_key ks r \<in> set (group_keys ks rs)) rs)"
    unfolding group_rows_def by (rule mset_concat_filter_keys [OF distinct_group_keys])
  also have "filter (\<lambda>r. row_key ks r \<in> set (group_keys ks rs)) rs
      = filter (\<lambda>r. key_ok (row_key ks r)) rs"
    by (rule filter_cong) (auto simp: set_group_keys)
  finally show ?thesis .
qed

lemma length_row_key [simp]: "length (row_key ks r) = length ks"
  by (simp add: row_key_def)

lemma group_keys_length: "k \<in> set (group_keys ks rs) \<Longrightarrow> length k = length ks"
  by (auto simp: set_group_keys)

lemma select_columns_Inr:
  "map_r (col_index df) keys = Inr ks \<Longrightarrow>
   select_columns df keys = Inr \<lparr>columns = keys, rows = map (row_key ks) (rows df)\<rparr>"
  by (simp add: select_columns_def row_key_def)

lemma groupby_mean_Inr:
  assumes "groupby_mean df keys = Inr out"
  obtains ks where "map_r (col_index df) keys = Inr ks"
    and "rows out = map (\<lambda>k. k @ map (\<lambda>i. nanmean (map float_of
                         (column_at (group_rows ks (rows df) k) i)))
                     (filter (\<lambda>i. i \<notin> set ks) [0..<length (columns df)]))
                   (group_keys ks (rows df))"
  using assms by (auto simp: groupby_mean_def Let_def bind_r_Inr_iff split: if_splits)

subsection \<open>Properties of the group-by\<close>

text \<open>
  C8. The groups of a group-by partition the rows whose key has no NaN: concatenating
  the groups, in the order of their sorted keys, gives these rows and no others, each as
  often as it occurs.
\<close>

theorem groupby_partition:
  "mset (concat (map (group_rows ks rs) (group_keys ks rs)))
     = mset (filter (\<lambda>r. key_ok (row_key ks r)) rs)"
  by (rule group_rows_partition_mset)


text \<open>
  C10. A group mean skips NaN: it is NaN exactly when the group has no present value,
  and otherwise lies between the least and the greatest present value.
\<close>

theorem nanmean_bounds:
  "(nanmean vs = NaN \<longleftrightarrow> present vs = [])
   \<and> (nanmean vs = Num m \<longrightarrow> Min (set (present vs)) \<le> m \<and> m \<le> Max (set (present vs)))"
  using mean_bounds [of "present vs"]
  by (auto simp: nanmean_def split: list.splits)

lemma str_in_group_keys:
  "[Str v] \<in> set (group_keys [k] rs) \<longleftrightarrow> Str v \<in> set (column_at rs k)"
  by (auto simp: set_group_keys row_key_def key_ok_def column_at_def)

lemma head_scan_filter:
  "key_ok k \<Longrightarrow> filter (\<lambda>r. row_key ks r = k) (head_scan n ks taken rs)
     = take (n - taken k) (filter (\<lambda>r. row_key ks r = k) rs)"
proof (induction rs arbitrary: taken)
  case Nil
  then show ?case by simp
next
  case (Cons r rs)
  show ?case
  proof (cases "row_key ks r = k")
    case True
    with Cons show ?thesis by (cases "taken k < n") (simp_all add: take_Cons' Let_def)
  next
    case False
    with Cons show ?thesis by (simp add: Let_def)
  qed
qed

lemma head_scan_key_ok: "list_all (\<lambda>r. key_ok (row_key ks r)) (head_scan n ks taken rs)"
  by (induction rs arbitrary: taken) (simp_all add: Let_def)

lemma head_scan_subseq: "subseq (head_scan n ks taken rs) rs"
  by (induction rs arbitrary: taken) (auto simp: Let_def intro: list_emb_Cons)

lemma sum_list_indicator:
  "distinct V \<Longrightarrow> (\<Sum>v\<leftarrow>V. if x = v then 1 else 0) = (if x \<in> set V then 1 else (0::nat))"
  by (induction V) auto

lemma sum_count_list:
  "distinct V \<Longrightarrow> (\<Sum>v\<leftarrow>V. count_list xs v) = length (filter (\<lambda>x. x \<in> set V) xs)"
proof (induction xs)
  case Nil
  then show ?case by (simp add: sum_list_triv)
next
  case (Cons x xs)
  have "(\<Sum>v\<leftarrow>V. count_list (x # xs) v)
      = (\<Sum>v\<leftarrow>V. (if x = v then 1 else 0) + count_list xs v)"
    by (induction V) auto
  also have "\<dots> = (\<Sum>v\<leftarrow>V. if x = v then 1 else 0) + (\<Sum>v\<leftarrow>V. count_list xs v)"
    by (simp add: sum_list_addf)
  finally show ?case using Cons by (simp add: sum_list_indicator)
qed

subsection \<open>Properties of get_group, head and value_counts\<close>

lemma get_group_filter:
  "get_group df key v =
     (if key \<notin> set (columns df) then Inl (KeyError key)
      else let k = the (index_of key (columns df))
           in if Str v \<in> set (column_at (rows df) k)
              then Inr (df\<lparr>rows := filter (\<lambda>r. r ! k = Str v) (rows df)\<rparr>)
              else Inl (KeyError v))"
  by (simp add: get_group_def col_index_simps str_in_group_keys group_rows_def row_key_def Let_def)


text \<open>
  C12. \<^verbatim>\<open>grouped.head(n)\<close> keeps a subsequence of the rows in their original order: for
  every group exactly its first \<open>n\<close> rows, and no row whose key has a NaN.
\<close>

theorem groupby_head_groups:
  "subseq (head_scan n ks (\<lambda>_. 0) rs) rs
   \<and> list_all (\<lambda>r. key_ok (row_key ks r)) (head_scan n ks (\<lambda>_. 0) rs)
   \<and> (\<forall>k. key_ok k \<longrightarrow>
        filter (\<lambda>r. row_key ks r = k) (head_scan n ks (\<lambda>_. 0) rs) = take n (group_rows ks rs k))"
  using head_scan_subseq head_scan_key_ok head_scan_filter [where taken = "\<lambda>_. 0"]
  by (simp add: group_rows_def)

text \<open>
  C13. \<^verbatim>\<open>value_counts()\<close> lists every non-NaN value of the column once, with the number
  of its occurrences, by non-increasing count; the counts add up to the number of
  non-NaN cells.
\<close>

theorem value_counts_spec:
  "distinct (map fst (value_counts col))
   \<and> set (map fst (value_counts col)) = set col - {NaN}
   \<and> list_all (\<lambda>p. snd p = count_list col (fst p)) (value_counts col)
   \<and> sorted_wrt (\<lambda>p q. snd q \<le> snd p) (value_counts col)
   \<and> sum_list (map snd (value_counts col)) = length (filter (\<lambda>c. c \<noteq> NaN) col)"
proof -
  let ?ps = "map (\<lambda>v. (v, count_list col v)) (unique (filter (\<lambda>c. c \<noteq> NaN) col))"
  have m: "mset (value_counts col) = mset ?ps" by (simp add: value_counts_def)
  have d0: "distinct (map fst ?ps)" by (simp add: o_def)
  have eq: "mset (map fst (value_counts col)) = mset (map fst ?ps)"
    using m by (simp only: mset_map)
  have d: "distinct (map fst (value_counts col))"
    using d0 by (simp only: mset_eq_imp_distinct_iff [OF eq])
  have st: "set (value_counts col) = set ?ps" using m by (rule mset_eq_setD)
  have s: "sorted (map (\<lambda>p. - int (snd p)) (value_counts col))"
    by (simp add: value_counts_def)
  then have srt: "sorted_wrt (\<lambda>p q. snd q \<le> snd p) (value_counts col)"
    by (simp add: sorted_map)
  have sm: "sum_list (map snd (value_counts col)) = sum_list (map snd ?ps)"
  proof -
    have "mset (map snd (value_counts col)) = mset (map snd ?ps)"
      using m by (simp only: mset_map)
    then have "sum_mset (mset (map snd (value_counts col))) = sum_mset (mset (map snd ?ps))"
      by (rule arg_cong)
    then show ?thesis by (simp only: sum_mset_sum_list)
  qed
  also have "\<dots> = length (filter (\<lambda>x. x \<in> set col \<and> x \<noteq> NaN) col)"
    by (simp add: o_def sum_count_list)
  also have "filter (\<lambda>x. x \<in> set col \<and> x \<noteq> NaN) col = filter (\<lambda>c. c \<noteq> NaN) col"
    by (rule filter_cong) auto
  finally have sum: "sum_list (map snd (value_counts col)) = length (filter (\<lambda>c. c \<noteq> NaN) col)" .
  have cnt: "list_all (\<lambda>p. snd p = count_list col (fst p)) (value_counts col)"
    by (simp only: list_all_iff st) auto
  have "set (map fst (value_counts col)) = fst ` set ?ps" by (simp only: set_map st)
  also have "\<dots> = set col - {NaN}" by force
  finally have fs: "set (map fst (value_counts col)) = set col - {NaN}" .
  from d fs cnt srt sum show ?thesis by blast
qed

text \<open>Equal counts keep the order of first occurrence, as pandas' hash table does.\<close>

lemma value_counts_ties:
  "value_counts [Str ''b'', Str ''a'', NaN, Str ''a'', Str ''b''] = [(Str ''b'', 2), (Str ''a'', 2)]"
  by (simp add: value_counts_def unique_def)


subsection \<open>Witnesses\<close>


theorem nanmean_bounds_witness:
  "nanmean [Some 6295, None, Some 13950] = Num (20245 / 2)
   \<and> Min (set (present [Some 6295, None, Some (13950::real)])) \<le> 20245 / 2
   \<and> 20245 / 2 \<le> Max (set (present [Some 6295, None, Some (13950::real)]))"
proof -
  have m: "nanmean [Some 6295, None, Some 13950] = Num (20245 / 2)"
    by (simp add: nanmean_def mean_def)
  with nanmean_bounds [of "[Some 6295, None, Some 13950]" "20245 / 2"] show ?thesis by simp
qed


theorem groupby_head_groups_witness:
  "filter (\<lambda>r. row_key [0] r = [Str ''fwd'']) (head_scan 1 [0] (\<lambda>_. 0) (rows autos))
     = [[Str ''fwd'', Str ''sedan'', Num (319/100), Num 102, Num 13950]]"
proof -
  have ok: "key_ok [Str ''fwd'']" by (simp add: key_ok_def)
  have g: "take 1 (group_rows [0] (rows autos) [Str ''fwd''])
      = [[Str ''fwd'', Str ''sedan'', Num (319/100), Num 102, Num 13950]]"
    by (simp add: autos_def group_rows_def row_key_def)
  from groupby_head_groups [of 1 "[0]" "rows autos"] ok
  have "filter (\<lambda>r. row_key [0] r = [Str ''fwd'']) (head_scan 1 [0] (\<lambda>_. 0) (rows autos))
      = take 1 (group_rows [0] (rows autos) [Str ''fwd''])" by blast
  with g show ?thesis by simp
qed


subsection \<open>Well-formed frames stay well-formed\<close>

lemma wf_select_columns:
  assumes "select_columns df cs = Inr s" and "distinct cs"
  shows "wf_frame s"
  using assms by (auto simp: select_columns_Inr_iff wf_frame_def list_all_iff list_all2_lengthD)

lemma wf_get_group:
  assumes "wf_frame df" and "get_group df key v = Inr g"
  shows "wf_frame g"
  using assms by (auto simp: get_group_filter wf_frame_def list_all_iff Let_def split: if_splits)

lemma groupby_value_names_fresh:
  assumes "distinct (columns df)" and "list_all2 (\<lambda>c i. col_index df c = Inr i) keys ks"
    and "i < length (columns df)" and "i \<notin> set ks"
  shows "columns df ! i \<notin> set keys"
proof
  assume "columns df ! i \<in> set keys"
  then obtain m where m: "m < length keys" "keys ! m = columns df ! i" by (auto simp: in_set_conv_nth)
  have "col_index df (keys ! m) = Inr (ks ! m)" using list_all2_nthD [OF assms(2) m(1)] by simp
  then have "ks ! m < length (columns df)" "columns df ! (ks ! m) = columns df ! i"
    using m(2) col_index_Inr_nth by auto
  with assms(1,3) have "ks ! m = i" by (simp add: nth_eq_iff_index_eq)
  moreover have "m < length ks" using m(1) assms(2) by (simp add: list_all2_lengthD)
  ultimately show False using assms(4) by auto
qed

lemma wf_groupby_mean:
  assumes "wf_frame df" and "groupby_mean df keys = Inr out" and "distinct keys"
  shows "wf_frame out"
proof -
  from assms(2) obtain ks where ks: "map_r (col_index df) keys = Inr ks"
    and rs: "rows out = map (\<lambda>k. k @ map (\<lambda>i. nanmean (map float_of
                         (column_at (group_rows ks (rows df) k) i)))
                     (filter (\<lambda>i. i \<notin> set ks) [0..<length (columns df)]))
                   (group_keys ks (rows df))"
    by (rule groupby_mean_Inr)
  let ?vis = "filter (\<lambda>i. i \<notin> set ks) [0..<length (columns df)]"
  have cs: "columns out = keys @ map (\<lambda>i. columns df ! i) ?vis"
    using assms(2) ks by (auto simp: groupby_mean_def Let_def split: if_splits)
  have ks2: "list_all2 (\<lambda>c i. col_index df c = Inr i) keys ks" using ks by (simp add: map_r_Inr_iff)
  have dcols: "distinct (columns df)" using assms(1) by (simp add: wf_frame_def)
  have "distinct (map (\<lambda>i. columns df ! i) ?vis)"
    using dcols by (auto simp: distinct_map inj_on_def nth_eq_iff_index_eq)
  moreover have "set keys \<inter> set (map (\<lambda>i. columns df ! i) ?vis) = {}"
    using groupby_value_names_fresh [OF dcols ks2] by auto
  ultimately have "distinct (columns out)" using assms(3) by (simp add: cs)
  moreover have "length ks = length keys" using ks2 by (simp add: list_all2_lengthD)
  then have "list_all (\<lambda>r. length r = length (columns out)) (rows out)"
    by (auto simp: rs cs list_all_iff group_keys_length)
  ultimately show ?thesis by (simp add: wf_frame_def)
qed

text \<open>
  C29. The frame operations the script chains keep frames well formed: distinct column
  names and every row as long as the header. Selecting distinct columns (lines 20, 26,
  58, 68, 131), selecting a group (\<^verbatim>\<open>get_group\<close>, line 135) and averaging by
  distinct keys (lines 59, 68) turn a well-formed frame into a well-formed frame.
\<close>

theorem frame_ops_wf:
  assumes "wf_frame df"
  shows "(select_columns df cs = Inr s \<longrightarrow> distinct cs \<longrightarrow> wf_frame s)
         \<and> (get_group df key v = Inr g \<longrightarrow> wf_frame g)
         \<and> (groupby_mean df keys = Inr out \<longrightarrow> distinct keys \<longrightarrow> wf_frame out)"
  using wf_select_columns wf_get_group [OF assms] wf_groupby_mean [OF assms] by blast

theorem frame_ops_wf_witness:
  "wf_frame (projr (select_columns sample_prices [''price'']))
   \<and> wf_frame (projr (get_group sample_prices ''drive-wheels'' ''fwd''))
   \<and> wf_frame (projr (groupby_mean sample_prices [''drive-wheels'']))"
proof -
  have wf: "wf_frame sample_prices" by (simp add: wf_frame_def sample_prices_def)
  have s: "select_columns sample_prices [''price''] = Inr (projr (select_columns sample_prices [''price'']))"
    by (simp add: select_columns_def col_index_def sample_prices_def)
  have g: "get_group sample_prices ''drive-wheels'' ''fwd'' = Inr (projr (get_group sample_prices ''drive-wheels'' ''fwd''))"
    by (simp add: get_group_filter sample_prices_def column_at_def)
  have m: "groupby_mean sample_prices [''drive-wheels''] = Inr (projr (groupby_mean sample_prices [''drive-wheels'']))"
    by (simp add: groupby_eval sample_prices_def)
  have "(select_columns sample_prices [''price''] = Inr (projr (select_columns sample_prices [''price'']))
           \<longrightarrow> distinct [''price''] \<longrightarrow> wf_frame (projr (select_columns sample_prices [''price''])))
        \<and> (get_group sample_prices ''drive-wheels'' ''fwd'' = Inr (projr (get_group sample_prices ''drive-wheels'' ''fwd''))
           \<longrightarrow> wf_frame (projr (get_group sample_prices ''drive-wheels'' ''fwd'')))
        \<and> (groupby_mean sample_prices [''drive-wheels''] = Inr (projr (groupby_mean sample_prices [''drive-wheels'']))
           \<longrightarrow> distinct [''drive-wheels''] \<longrightarrow> wf_frame (projr (groupby_mean sample_prices [''drive-wheels''])))"
    by (rule frame_ops_wf [OF wf])
  with s g m show ?thesis by simp
qed

end
