(* ===== verification/Anova.thy ===== *)
theory Anova
  imports GroupBy
begin

text \<open>
  scipy's one-way analysis of variance \<^verbatim>\<open>stats.f_oneway(*samples)\<close>, called at lines 135,
  142, 146 and 150 of \<^verbatim>\<open>main.py\<close> on the \<^verbatim>\<open>price\<close> columns of the drive-wheel groups.
  The model follows scipy (1.11 and later): TypeError for fewer than two samples; NaN for
  an empty sample or a NaN value (\<open>nan_policy='propagate'\<close>); otherwise the data are
  centred on their overall mean (\<open>offset\<close>), the between-group sum of squares is
  \<open>\<Sum> (\<Sum> (a - offset))\<^sup>2 / len(a) - normalized_ss\<close> and the within-group sum is the total
  minus it; finally the fix-ups for constant input: NaN when all values are equal,
  infinity when every group is constant but not all equal. The F statistic is an
  extended real (\<open>fstat\<close>); the p-value (F distribution) is not modelled.
\<close>

section \<open>scipy.stats.f_oneway\<close>

datatype fstat = FVal real | FInf | FNaN

definition square_of_sums :: "real list \<Rightarrow> real" where
  "square_of_sums xs = (sum_list xs)\<^sup>2"

definition sum_of_squares :: "real list \<Rightarrow> real" where
  "sum_of_squares xs = (\<Sum>x\<leftarrow>xs. x\<^sup>2)"

text \<open>The two sums of squares as scipy computes them, centred on the overall mean.\<close>

definition anova_ss :: "real list list \<Rightarrow> real \<times> real" where
  "anova_ss samples =
     (let alldata = concat samples;
          bign = length alldata;
          offset = mean alldata;
          adata = map (\<lambda>v. v - offset) alldata;
          normalized_ss = square_of_sums adata / real bign;
          sstot = sum_of_squares adata - normalized_ss;
          ssbn = (\<Sum>a\<leftarrow>samples. square_of_sums (map (\<lambda>v. v - offset) a) / real (length a))
                 - normalized_ss;
          sswn = sstot - ssbn
      in (ssbn, sswn))"

definition is_const :: "real list \<Rightarrow> bool" where
  "is_const a \<longleftrightarrow> list_all (\<lambda>v. v = a ! 0) a"

definition f_oneway_core :: "real list list \<Rightarrow> fstat" where
  "f_oneway_core samples =
     (let alldata = concat samples;
          all_const = list_all is_const samples;
          all_same_const = is_const alldata;
          (ssbn, sswn) = anova_ss samples;
          dfbn = real (length samples) - 1;
          dfwn = real (length alldata) - real (length samples);
          msb = ssbn / dfbn;
          msw = sswn / dfwn
      in if all_same_const then FNaN else if all_const then FInf else FVal (msb / msw))"

definition f_oneway :: "real option list list \<Rightarrow> fstat result" where
  "f_oneway samples =
     (if length samples < 2 then Inl (TypeError ''at least two inputs are required'')
      else if list_ex (\<lambda>a. a = []) samples then Inr FNaN
      else if list_ex (\<lambda>a. None \<in> set a) samples then Inr FNaN
      else Inr (f_oneway_core (map (map the) samples)))"

section \<open>The reference: textbook sums of squares\<close>

definition ss_between :: "real list list \<Rightarrow> real" where
  "ss_between samples =
     (\<Sum>a\<leftarrow>samples. real (length a) * (mean a - mean (concat samples))\<^sup>2)"

definition ss_within :: "real list list \<Rightarrow> real" where
  "ss_within samples = (\<Sum>a\<leftarrow>samples. sumsq_dev a)"

section \<open>The ANOVA tests of the script (lines 131-152)\<close>

text \<open>
  Line 131 selects the two columns and groups by drive wheels; each test passes the
  \<^verbatim>\<open>price\<close> column of some groups, fetched with \<^verbatim>\<open>get_group(v)['price']\<close>, to
  \<^verbatim>\<open>f_oneway\<close>, which converts each sample to a float array. Python evaluates the
  arguments left to right, so the first failing \<^verbatim>\<open>get_group\<close> raises.
\<close>

definition grouped_test_two :: "frame \<Rightarrow> frame result" where
  "grouped_test_two df = select_columns df [''drive-wheels'', ''price'']"

definition group_price :: "frame \<Rightarrow> string \<Rightarrow> real option list result" where
  "group_price grouped v =
     bind_r (get_group grouped ''drive-wheels'' v)
       (\<lambda>g. bind_r (get_column g ''price'') series_floats)"

definition anova_test :: "frame \<Rightarrow> string list \<Rightarrow> fstat result" where
  "anova_test grouped vs = bind_r (map_r (group_price grouped) vs) f_oneway"

definition drive_wheel_anova :: "frame \<Rightarrow> string list \<Rightarrow> fstat result" where
  "drive_wheel_anova df vs = bind_r (grouped_test_two df) (\<lambda>g. anova_test g vs)"

section \<open>Lemmas\<close>

lemma sum_centred_zero: "(\<Sum>x\<leftarrow>xs. x - mean xs) = 0"
  by (cases "xs = []") (simp_all add: mean_def)

lemma sum_list_concat_map:
  fixes f :: "'a \<Rightarrow> real"
  shows "(\<Sum>x\<leftarrow>concat xss. f x) = (\<Sum>xs\<leftarrow>xss. \<Sum>x\<leftarrow>xs. f x)"
  by (induction xss) simp_all

lemma square_of_sums_group:
  assumes "a \<noteq> []"
  shows "square_of_sums (map (\<lambda>v. v - c) a) / real (length a) = real (length a) * (mean a - c)\<^sup>2"
proof -
  have n: "real (length a) \<noteq> 0" using assms by simp
  have "sum_list (map (\<lambda>v. v - c) a) = real (length a) * (mean a - c)"
    using n by (simp add: mean_def algebra_simps)
  then show ?thesis using n by (simp add: square_of_sums_def power2_eq_square)
qed

text \<open>
  The decomposition of the total sum of squares about the overall mean into the
  between-group and the within-group parts.
\<close>

lemma ss_decomposition:
  assumes "list_all (\<lambda>a. a \<noteq> []) samples"
  shows "(\<Sum>x\<leftarrow>concat samples. (x - mean (concat samples))\<^sup>2)
         = ss_between samples + ss_within samples"
proof -
  let ?M = "mean (concat samples)"
  have "(\<Sum>x\<leftarrow>concat samples. (x - ?M)\<^sup>2) = (\<Sum>a\<leftarrow>samples. \<Sum>x\<leftarrow>a. (x - ?M)\<^sup>2)"
    by (rule sum_list_concat_map)
  also have "\<dots> = (\<Sum>a\<leftarrow>samples. sumsq_dev a + real (length a) * (mean a - ?M)\<^sup>2)"
    using assms by (intro arg_cong [where f = sum_list] map_cong refl)
      (simp add: sum_sq_shift list_all_iff)
  also have "\<dots> = ss_between samples + ss_within samples"
    by (simp add: sum_list_addf ss_between_def ss_within_def)
  finally show ?thesis .
qed

lemma anova_ss_eq:
  assumes "list_all (\<lambda>a. a \<noteq> []) samples"
  shows "anova_ss samples = (ss_between samples, ss_within samples)"
proof -
  let ?all = "concat samples"
  let ?M = "mean ?all"
  have z: "square_of_sums (map (\<lambda>v. v - ?M) ?all) = 0"
    unfolding square_of_sums_def sum_centred_zero by simp
  have tot: "sum_of_squares (map (\<lambda>v. v - ?M) ?all) = ss_between samples + ss_within samples"
    using ss_decomposition [OF assms] by (simp add: sum_of_squares_def o_def)
  have "(\<Sum>a\<leftarrow>samples. square_of_sums (map (\<lambda>v. v - ?M) a) / real (length a))
      = (\<Sum>a\<leftarrow>samples. real (length a) * (mean a - ?M)\<^sup>2)"
    using assms by (intro arg_cong [where f = sum_list] map_cong refl)
      (simp add: square_of_sums_group list_all_iff)
  then have b: "(\<Sum>a\<leftarrow>samples. square_of_sums (map (\<lambda>v. v - ?M) a) / real (length a))
      = ss_between samples"
    by (simp add: ss_between_def)
  show ?thesis by (simp add: anova_ss_def Let_def z tot b)
qed

lemma ss_between_nonneg: "0 \<le> ss_between samples"
  by (auto simp: ss_between_def intro!: sum_list_nonneg)

lemma ss_within_nonneg: "0 \<le> ss_within samples"
  by (auto simp: ss_within_def intro!: sum_list_nonneg)

lemma sumsq_dev_0_iff_const: "a \<noteq> [] \<Longrightarrow> sumsq_dev a = 0 \<longleftrightarrow> is_const a"
proof -
  assume ne: "a \<noteq> []"
  then have a0: "a ! 0 \<in> set a" by (cases a) auto
  show ?thesis
  proof
    assume "sumsq_dev a = 0"
    then have all: "\<forall>x\<in>set a. x = mean a" by (simp add: sumsq_dev_eq_0_iff)
    with a0 have "a ! 0 = mean a" by blast
    with all show "is_const a" by (auto simp: is_const_def list_all_iff)
  next
    assume "is_const a"
    then have "\<forall>x\<in>set a. x = a ! 0" by (simp add: is_const_def list_all_iff)
    then show "sumsq_dev a = 0" by (rule const_elems_sumsq_dev_0)
  qed
qed

lemma ss_within_0_iff:
  "list_all (\<lambda>a. a \<noteq> []) samples \<Longrightarrow> ss_within samples = 0 \<longleftrightarrow> list_all is_const samples"
proof (induction samples)
  case Nil
  then show ?case by (simp add: ss_within_def)
next
  case (Cons a samples)
  have "0 \<le> sumsq_dev a" and "0 \<le> ss_within samples" by (simp_all add: ss_within_nonneg)
  then have "sumsq_dev a + ss_within samples = 0 \<longleftrightarrow> sumsq_dev a = 0 \<and> ss_within samples = 0"
    by linarith
  with Cons show ?case by (simp add: ss_within_def sumsq_dev_0_iff_const)
qed

lemma all_same_iff:
  assumes "list_all (\<lambda>a. a \<noteq> []) samples" and "samples \<noteq> []"
  shows "is_const (concat samples) \<longleftrightarrow> ss_between samples = 0 \<and> ss_within samples = 0"
proof -
  have ne: "concat samples \<noteq> []" using assms by (cases samples) auto
  have "is_const (concat samples) \<longleftrightarrow> sumsq_dev (concat samples) = 0"
    using sumsq_dev_0_iff_const [OF ne] by simp
  also have "sumsq_dev (concat samples) = ss_between samples + ss_within samples"
    using ss_decomposition [OF assms(1)] by (simp add: sumsq_dev_def)
  finally show ?thesis using ss_between_nonneg [of samples] ss_within_nonneg [of samples] by linarith
qed

lemma not_const_length: "\<not> is_const a \<Longrightarrow> 2 \<le> length a"
  by (cases a rule: remdups_adj.cases) (auto simp: is_const_def)

lemma length_concat_ge:
  "list_all (\<lambda>a. a \<noteq> []) samples \<Longrightarrow> length samples \<le> length (concat samples)"
proof (induction samples)
  case Nil
  then show ?case by simp
next
  case (Cons a samples)
  then have "1 \<le> length a" by (cases a) auto
  with Cons show ?case by simp
qed

lemma length_concat_gt:
  assumes "list_all (\<lambda>a. a \<noteq> []) samples" and "\<not> list_all is_const samples"
  shows "length samples < length (concat samples)"
  using assms
proof (induction samples)
  case Nil
  then show ?case by simp
next
  case (Cons a samples)
  show ?case
  proof (cases "is_const a")
    case True
    with Cons show ?thesis by (cases a) auto
  next
    case False
    then have "2 \<le> length a" by (rule not_const_length)
    moreover have "length samples \<le> length (concat samples)"
      using Cons.prems(1) by (simp add: length_concat_ge)
    ultimately show ?thesis by simp
  qed
qed

lemma f_oneway_Inr_core:
  assumes "f_oneway samples = Inr r" and "r \<noteq> FNaN"
  shows "2 \<le> length samples \<and> list_all (\<lambda>a. a \<noteq> []) (map (map the) samples)
         \<and> r = f_oneway_core (map (map the) samples)"
  using assms by (auto simp: f_oneway_def list_ex_iff list_all_iff split: if_splits)

lemma f_oneway_core_FVal:
  assumes "f_oneway_core g = FVal f" and "list_all (\<lambda>a. a \<noteq> []) g"
  shows "\<not> list_all is_const g
         \<and> f = (ss_between g / (real (length g) - 1)) / (ss_within g / (real (length (concat g)) - real (length g)))"
  using assms by (auto simp: f_oneway_core_def Let_def anova_ss_eq split: if_splits)

lemma grouped_test_two_Inr:
  assumes "col_index df ''drive-wheels'' = Inr k" and "col_index df ''price'' = Inr p"
  shows "grouped_test_two df
           = Inr \<lparr>columns = [''drive-wheels'', ''price''], rows = map (\<lambda>r. [r ! k, r ! p]) (rows df)\<rparr>"
  using assms by (simp add: grouped_test_two_def select_columns_def)

lemma group_price_present:
  assumes "Str v \<in> set (column_at rs k)" and "\<not> list_ex (\<lambda>r. is_str (r ! p)) rs"
  shows "group_price \<lparr>columns = [''drive-wheels'', ''price''], rows = map (\<lambda>r. [r ! k, r ! p]) rs\<rparr> v
           = Inr (map (\<lambda>r. float_of (r ! p)) (filter (\<lambda>r. r ! k = Str v) rs))"
proof -
  have col: "column_at (map (\<lambda>r. [r ! k, r ! p]) rs) 0 = column_at rs k"
    by (simp add: column_at_def)
  have "\<not> list_ex is_str (map (\<lambda>r. r ! p) (filter (\<lambda>r. r ! k = Str v) rs))"
    using assms(2) by (auto simp: list_ex_iff)
  then show ?thesis
    using assms(1)
    by (simp add: group_price_def get_group_filter col get_column_def col_index_def
          column_at_def filter_map o_def series_floats_ok)
qed

lemma group_price_missing:
  assumes "Str v \<notin> set (column_at rs k)"
  shows "group_price \<lparr>columns = [''drive-wheels'', ''price''], rows = map (\<lambda>r. [r ! k, r ! p]) rs\<rparr> v
           = Inl (KeyError v)"
proof -
  have col: "column_at (map (\<lambda>r. [r ! k, r ! p]) rs) 0 = column_at rs k"
    by (simp add: column_at_def)
  show ?thesis using assms by (simp add: group_price_def get_group_filter col)
qed

subsection \<open>Properties of f_oneway\<close>

text \<open>
  C15. scipy's offset-centred computation yields the textbook sums of squares: its
  \<open>ssbn\<close> is the between-group sum \<open>\<Sum> n_g (mean_g - mean)\<^sup>2\<close>, its \<open>sswn\<close> the
  within-group sum \<open>\<Sum>\<^sub>g \<Sum> (x - mean_g)\<^sup>2\<close>, and the two add up to the total sum of
  squares about the overall mean.
\<close>

theorem anova_ss_textbook:
  assumes "list_all (\<lambda>a. a \<noteq> []) samples"
  shows "anova_ss samples = (ss_between samples, ss_within samples)
         \<and> ss_between samples + ss_within samples = sumsq_dev (concat samples)"
  using anova_ss_eq [OF assms] ss_decomposition [OF assms] by (simp add: sumsq_dev_def)

text \<open>
  C16. Whenever \<^verbatim>\<open>f_oneway\<close> returns a finite F statistic, it is non-negative.
\<close>

theorem f_oneway_nonneg:
  assumes "f_oneway samples = Inr (FVal f)"
  shows "0 \<le> f"
proof -
  let ?g = "map (map the) samples"
  from f_oneway_Inr_core [OF assms] have two: "2 \<le> length ?g"
    and ne: "list_all (\<lambda>a. a \<noteq> []) ?g" and core: "f_oneway_core ?g = FVal f" by auto
  from f_oneway_core_FVal [OF core ne] have nc: "\<not> list_all is_const ?g"
    and f: "f = (ss_between ?g / (real (length ?g) - 1))
                / (ss_within ?g / (real (length (concat ?g)) - real (length ?g)))" by auto
  have "length ?g < length (concat ?g)" using length_concat_gt [OF ne nc] .
  then have dfw: "0 < real (length (concat ?g)) - real (length ?g)" by simp
  have dfb: "0 < real (length ?g) - 1" using two by simp
  have "0 \<le> ss_between ?g / (real (length ?g) - 1)"
    using ss_between_nonneg [of ?g] dfb by simp
  moreover have "0 \<le> ss_within ?g / (real (length (concat ?g)) - real (length ?g))"
    using ss_within_nonneg [of ?g] dfw by simp
  ultimately show ?thesis unfolding f by (rule divide_nonneg_nonneg)
qed

text \<open>
  C17. A finite F statistic is the textbook one, \<open>(SSB / (k - 1)) / (SSW / (N - k))\<close>
  for \<open>k\<close> groups of \<open>N\<close> values in all, and both of its divisions are by positive
  numbers: the within-group sum is positive and \<open>N > k\<close>.
\<close>

theorem f_oneway_textbook:
  assumes "f_oneway samples = Inr (FVal f)"
  shows "f = (ss_between (map (map the) samples) / (real (length samples) - 1))
             / (ss_within (map (map the) samples)
                / (real (length (concat (map (map the) samples))) - real (length samples)))
         \<and> 0 < ss_within (map (map the) samples)
         \<and> length samples < length (concat (map (map the) samples))"
proof -
  let ?g = "map (map the) samples"
  from f_oneway_Inr_core [OF assms] have ne: "list_all (\<lambda>a. a \<noteq> []) ?g"
    and core: "f_oneway_core ?g = FVal f" by auto
  from f_oneway_core_FVal [OF core ne] have nc: "\<not> list_all is_const ?g"
    and f: "f = (ss_between ?g / (real (length ?g) - 1))
                / (ss_within ?g / (real (length (concat ?g)) - real (length ?g)))" by auto
  have "ss_within ?g \<noteq> 0" using ss_within_0_iff [OF ne] nc by simp
  then have "0 < ss_within ?g" using ss_within_nonneg [of ?g] by linarith
  moreover have "length ?g < length (concat ?g)" using length_concat_gt [OF ne nc] .
  ultimately show ?thesis using f by simp
qed


text \<open>
  C19. The ANOVA calls of lines 135-152 test exactly the groups' prices: when both
  columns exist, every requested drive-wheel value occurs and no price is a string,
  the script's \<^verbatim>\<open>f_oneway(get_group(v1)['price'], ...)\<close> is \<^verbatim>\<open>f_oneway\<close> on the
  prices of the rows with that drive-wheel value, in row order, NaN kept.
\<close>

theorem drive_wheel_anova_spec:
  assumes "col_index df ''drive-wheels'' = Inr k" and "col_index df ''price'' = Inr p"
    and "\<forall>v\<in>set vs. Str v \<in> set (column_at (rows df) k)"
    and "\<not> list_ex (\<lambda>r. is_str (r ! p)) (rows df)"
  shows "drive_wheel_anova df vs
           = f_oneway (map (\<lambda>v. map (\<lambda>r. float_of (r ! p)) (filter (\<lambda>r. r ! k = Str v) (rows df))) vs)"
proof -
  have "map_r (group_price \<lparr>columns = [''drive-wheels'', ''price''], rows = map (\<lambda>r. [r ! k, r ! p]) (rows df)\<rparr>) vs
          = Inr (map (\<lambda>v. map (\<lambda>r. float_of (r ! p)) (filter (\<lambda>r. r ! k = Str v) (rows df))) vs)"
    using assms(3,4) by (intro map_r_map) (simp add: group_price_present)
  then show ?thesis
    by (simp add: drive_wheel_anova_def anova_test_def grouped_test_two_Inr [OF assms(1,2)])
qed

text \<open>
  C20. The first requested drive-wheel value that does not occur in the data makes the
  test raise \<^verbatim>\<open>KeyError\<close> with that value, before \<^verbatim>\<open>f_oneway\<close> is called, whatever
  the later arguments are.
\<close>

theorem drive_wheel_anova_missing:
  assumes "col_index df ''drive-wheels'' = Inr k" and "col_index df ''price'' = Inr p"
    and "\<forall>u\<in>set us. Str u \<in> set (column_at (rows df) k)"
    and "\<not> list_ex (\<lambda>r. is_str (r ! p)) (rows df)"
    and "Str v \<notin> set (column_at (rows df) k)"
  shows "drive_wheel_anova df (us @ v # ws) = Inl (KeyError v)"
proof -
  have "map_r (group_price \<lparr>columns = [''drive-wheels'', ''price''], rows = map (\<lambda>r. [r ! k, r ! p]) (rows df)\<rparr>) (us @ v # ws)
          = Inl (KeyError v)"
    using assms(3-5) by (intro map_r_first_Inl) (auto simp: group_price_present group_price_missing)
  then show ?thesis
    by (simp add: drive_wheel_anova_def anova_test_def grouped_test_two_Inr [OF assms(1,2)])
qed

subsection \<open>Witnesses\<close>

lemmas anova_eval = f_oneway_def f_oneway_core_def anova_ss_def square_of_sums_def
  sum_of_squares_def is_const_def Let_def mean_def power2_eq_square

lemma f_oneway_example:
  "f_oneway [[Some 1, Some 2, Some 3], [Some 4, Some 5, Some 7], [Some 2, Some (2::real)]]
     = Inr (FVal (125/16))"
  by (simp add: anova_eval)

lemma f_oneway_example_const:
  "f_oneway [[Some 1, Some 1], [Some 2, Some (2::real)]] = Inr FInf"
  by (simp add: anova_eval)

theorem anova_ss_textbook_witness:
  "anova_ss [[1, 2, 3], [4, 5, 7], [2, 2]] = (125/6, 20/3)
   \<and> ss_between [[1, 2, 3], [4, 5, 7], [2, 2]] + ss_within [[1, 2, 3], [4, 5, 7], [2, 2]]
       = sumsq_dev [1, 2, 3, 4, 5, 7, 2, 2]"
proof -
  have "ss_between [[1, 2, 3], [4, 5, 7], [2, 2]] = 125/6
        \<and> ss_within [[1, 2, 3], [4, 5, 7], [2, 2]] = 20/3"
    by (simp add: ss_between_def ss_within_def sumsq_dev_def mean_def power2_eq_square)
  then show ?thesis using anova_ss_textbook [of "[[1, 2, 3], [4, 5, 7], [2, 2]]"] by simp
qed

theorem f_oneway_nonneg_witness:
  "f_oneway [[Some 1, Some 2, Some 3], [Some 4, Some 5, Some 7], [Some 2, Some 2]]
     = Inr (FVal (125/16)) \<and> 0 \<le> (125/16::real)"
  using f_oneway_nonneg [OF f_oneway_example] f_oneway_example by simp

theorem f_oneway_textbook_witness:
  "f_oneway [[Some 1, Some 2, Some 3], [Some 4, Some 5, Some 7], [Some 2, Some 2]]
     = Inr (FVal (125/16))
   \<and> 0 < ss_within [[1, 2, 3], [4, 5, 7], [2, 2]]
   \<and> 125/16 = (ss_between [[1, 2, 3], [4, 5, 7], [2, 2]] / 2)
                / (ss_within [[1, 2, 3], [4, 5, 7], [2, 2]] / 5)"
  using f_oneway_textbook [OF f_oneway_example] f_oneway_example by simp


theorem drive_wheel_anova_spec_witness:
  "drive_wheel_anova autos [''fwd'', ''rwd'', ''4wd'']
     = f_oneway [[Some 13950, Some 6295, Some 6575], [Some 13495, Some 16500], [Some 17450]]"
  using drive_wheel_anova_spec [of autos 0 4 "[''fwd'', ''rwd'', ''4wd'']"]
  by (simp add: autos_def col_index_def column_at_def float_of_def)

theorem drive_wheel_anova_missing_witness:
  "drive_wheel_anova autos [''fwd'', ''awd'', ''4wd''] = Inl (KeyError ''awd'')"
  using drive_wheel_anova_missing [of autos 0 4 "[''fwd'']" "''awd''" "[''4wd'']"]
  by (simp add: autos_def col_index_def column_at_def)

end
