(* ===== verification/Pivot.thy ===== *)
theory Pivot
  imports GroupBy
begin

text \<open>
  \<^verbatim>\<open>DataFrame.pivot(index=a, columns=b)\<close> of line 61, applied to the group means of
  line 59. pandas 2 computes it as \<^verbatim>\<open>set_index([a, b]).unstack(b)\<close>:
  \<^item> \<^verbatim>\<open>set_index\<close> raises \<^verbatim>\<open>KeyError("None of [...] are in the columns")\<close> listing the
    names that are not columns, and otherwise moves the two columns into the index;
  \<^item> \<^verbatim>\<open>unstack\<close> raises \<^verbatim>\<open>ValueError("Index contains duplicate entries, cannot
    reshape")\<close> when two rows share the pair of labels; otherwise the result has one row
    per distinct \<open>a\<close> label and one column per pair (value column, distinct \<open>b\<close> label),
    labels in ascending order, value columns in their original order, and NaN where no
    row has the pair.
  The result is the record \<open>pivot_table\<close>: the row labels \<open>pindex\<close>, the column labels
  \<open>pcolumns\<close> (the two levels of the column MultiIndex) and the values \<open>pvalues\<close>, one list
  per row label. Labels are compared with the order of \<^typ>\<open>cell\<close> (numbers, then
  strings, then NaN); the script's labels are NaN-free strings.
\<close>

section \<open>Definitions\<close>

record pivot_table =
  pindex :: "cell list"
  pcolumns :: "(string \<times> cell) list"
  pvalues :: "cell list list"

text \<open>Python's \<^verbatim>\<open>repr\<close> of a list of strings, as in the KeyError message.\<close>

definition py_quote :: "string \<Rightarrow> string" where
  "py_quote s = CHR 0x27 # s @ [CHR 0x27]"

fun py_list_items :: "string list \<Rightarrow> string" where
  "py_list_items [] = []"
| "py_list_items [s] = py_quote s"
| "py_list_items (s # t) = py_quote s @ '', '' @ py_list_items t"

text \<open>The value the unstacked frame holds at row label \<open>x\<close> and column \<open>(v, y)\<close>.\<close>

definition pivot_lookup :: "cell list list \<Rightarrow> nat \<Rightarrow> nat \<Rightarrow> nat \<Rightarrow> cell \<Rightarrow> cell \<Rightarrow> cell" where
  "pivot_lookup rs i j v x y =
     (case find (\<lambda>r. r ! i = x \<and> r ! j = y) rs of Some r \<Rightarrow> r ! v | None \<Rightarrow> NaN)"

definition pivot :: "frame \<Rightarrow> string \<Rightarrow> string \<Rightarrow> pivot_table result" where
  "pivot df index cols =
     (let missing = filter (\<lambda>c. c \<notin> set (columns df)) [index, cols]
      in if missing \<noteq> []
         then Inl (KeyError (''None of ['' @ py_list_items missing @ ''] are in the columns''))
         else
           let i = the (index_of index (columns df));
               j = the (index_of cols (columns df));
               pairs = map (\<lambda>r. (r ! i, r ! j)) (rows df);
               vis = filter (\<lambda>v. v \<noteq> i \<and> v \<noteq> j) [0..<length (columns df)];
               rl = sort (remdups (map fst pairs));
               cl = sort (remdups (map snd pairs))
           in if \<not> distinct pairs
              then Inl (ValueError ''Index contains duplicate entries, cannot reshape'')
              else Inr \<lparr>pindex = rl,
                        pcolumns = concat (map (\<lambda>v. map (\<lambda>y. (columns df ! v, y)) cl) vis),
                        pvalues = map (\<lambda>x. concat (map (\<lambda>v. map (\<lambda>y.
                                    pivot_lookup (rows df) i j v x y) cl) vis)) rl\<rparr>)"

text \<open>
  The table read as a set of entries: row label, column label and the value there. This
  is the abstract view of a pivot table the properties below are stated in.
\<close>

definition pivot_entries :: "pivot_table \<Rightarrow> (cell \<times> (string \<times> cell) \<times> cell) list" where
  "pivot_entries p =
     concat (map2 (\<lambda>x row. map2 (\<lambda>c val. (x, c, val)) (pcolumns p) row) (pindex p) (pvalues p))"

section \<open>The script's group means and pivot (lines 58--69)\<close>

definition df_test_one :: "frame \<Rightarrow> frame result" where
  "df_test_one df =
     bind_r (select_columns df [''drive-wheels'', ''body-style'', ''price''])
       (\<lambda>df_group_one. groupby_mean df_group_one [''drive-wheels'', ''body-style''])"

definition df_test_one_pivot :: "frame \<Rightarrow> pivot_table result" where
  "df_test_one_pivot df = bind_r (df_test_one df) (\<lambda>t. pivot t ''drive-wheels'' ''body-style'')"

definition df_group_two :: "frame \<Rightarrow> frame result" where
  "df_group_two df =
     bind_r (select_columns df [''body-style'', ''price'']) (\<lambda>g. groupby_mean g [''body-style''])"

text \<open>
  What the pivot of line 61 should show: the mean price of the rows with drive wheels
  \<open>x\<close> and body style \<open>y\<close>, NaN values skipped, and NaN when there is no such row.
\<close>

definition cell_mean_price :: "cell list list \<Rightarrow> nat \<Rightarrow> nat \<Rightarrow> nat \<Rightarrow> cell \<Rightarrow> cell \<Rightarrow> cell" where
  "cell_mean_price rs k1 k2 kp x y =
     (if list_ex (\<lambda>r. r ! k1 = x \<and> r ! k2 = y) rs
      then nanmean (map (\<lambda>r. float_of (r ! kp)) (filter (\<lambda>r. r ! k1 = x \<and> r ! k2 = y) rs))
      else NaN)"

section \<open>Lemmas\<close>

lemma pivot_Inr:
  assumes "col_index df a = Inr i" and "col_index df b = Inr j"
    and "distinct (map (\<lambda>r. (r ! i, r ! j)) (rows df))"
  shows "pivot df a b = Inr
    \<lparr>pindex = sort (remdups (column_at (rows df) i)),
     pcolumns = concat (map (\<lambda>v. map (\<lambda>y. (columns df ! v, y)) (sort (remdups (column_at (rows df) j))))
                          (filter (\<lambda>v. v \<noteq> i \<and> v \<noteq> j) [0..<length (columns df)])),
     pvalues = map (\<lambda>x. concat (map (\<lambda>v. map (\<lambda>y. pivot_lookup (rows df) i j v x y)
                          (sort (remdups (column_at (rows df) j))))
                          (filter (\<lambda>v. v \<noteq> i \<and> v \<noteq> j) [0..<length (columns df)])))
                 (sort (remdups (column_at (rows df) i)))\<rparr>"
proof -
  have "a \<in> set (columns df)" "b \<in> set (columns df)"
    using assms(1,2) by (auto simp: col_index_def dest: index_of_Some split: option.splits)
  moreover have "the (index_of a (columns df)) = i" "the (index_of b (columns df)) = j"
    using assms(1,2) by (auto simp: col_index_def split: option.splits)
  ultimately show ?thesis
    using assms(3) by (simp add: pivot_def Let_def column_at_def o_def)
qed

lemma pivot_Inr_cases:
  assumes "pivot df a b = Inr p"
  obtains i j where "col_index df a = Inr i" and "col_index df b = Inr j"
    and "distinct (map (\<lambda>r. (r ! i, r ! j)) (rows df))"
proof -
  have "a \<in> set (columns df)" "b \<in> set (columns df)"
    using assms by (auto simp: pivot_def Let_def split: if_splits)
  then obtain i j where "col_index df a = Inr i" "col_index df b = Inr j"
    by (auto simp: col_index_ok)
  moreover from this have "distinct (map (\<lambda>r. (r ! i, r ! j)) (rows df))"
    using assms by (auto simp: pivot_def Let_def col_index_def split: if_splits option.splits)
  ultimately show ?thesis by (rule that)
qed

lemma set_zip_concat_map:
  assumes "\<forall>v\<in>set vs. length (f v) = length (g v)"
  shows "set (zip (concat (map f vs)) (concat (map g vs))) = (\<Union>v\<in>set vs. set (zip (f v) (g v)))"
  using assms by (induction vs) (auto simp: zip_append)

lemma set_pivot_row:
  "set (zip (concat (map (\<lambda>v. map (\<lambda>y. (n v, y)) cl) vis)) (concat (map (\<lambda>v. map (\<lambda>y. L v y) cl) vis)))
     = {((n v, y), L v y) | v y. v \<in> set vis \<and> y \<in> set cl}"
  by (auto simp: set_zip_concat_map zip_map_map zip_same_conv_map)

lemma set_pivot_entries:
  assumes "pivot df a b = Inr p" and "col_index df a = Inr i" and "col_index df b = Inr j"
  shows "set (pivot_entries p) =
    {(x, (columns df ! v, y), pivot_lookup (rows df) i j v x y) | x v y.
       x \<in> set (column_at (rows df) i) \<and> v \<in> set (filter (\<lambda>v. v \<noteq> i \<and> v \<noteq> j) [0..<length (columns df)])
       \<and> y \<in> set (column_at (rows df) j)}"
proof -
  from assms(1) obtain i' j' where "col_index df a = Inr i'" "col_index df b = Inr j'"
    and d: "distinct (map (\<lambda>r. (r ! i', r ! j')) (rows df))" by (rule pivot_Inr_cases)
  with assms(2,3) have d: "distinct (map (\<lambda>r. (r ! i, r ! j)) (rows df))" by simp
  show ?thesis
    using assms(1) unfolding pivot_Inr [OF assms(2,3) d]
    by (auto simp: pivot_entries_def zip_map2 zip_same_conv_map set_pivot_row) blast
qed

lemma find_Some_mem: "find P xs = Some x \<Longrightarrow> P x \<and> x \<in> set xs"
  by (induction xs) (auto split: if_splits)

lemma pivot_lookup_row:
  assumes "distinct (map (\<lambda>r. (r ! i, r ! j)) rs)" and "r \<in> set rs"
  shows "pivot_lookup rs i j v (r ! i) (r ! j) = r ! v"
proof -
  have "find (\<lambda>s. s ! i = r ! i \<and> s ! j = r ! j) rs \<noteq> None"
    using assms(2) by (auto simp: find_None_iff)
  then obtain s where s: "find (\<lambda>s. s ! i = r ! i \<and> s ! j = r ! j) rs = Some s" by blast
  then have "s \<in> set rs" "(s ! i, s ! j) = (r ! i, r ! j)" by (auto dest: find_Some_mem)
  with assms have "s = r" by (auto simp: distinct_map dest: inj_onD)
  with s show ?thesis by (simp add: pivot_lookup_def)
qed

lemma pivot_lookup_cases:
  "(\<not> (\<exists>r\<in>set rs. r ! i = x \<and> r ! j = y) \<and> pivot_lookup rs i j v x y = NaN)
   \<or> (\<exists>r\<in>set rs. r ! i = x \<and> r ! j = y \<and> pivot_lookup rs i j v x y = r ! v)"
  unfolding pivot_lookup_def
  by (auto simp: find_None_iff dest: find_Some_mem split: option.split)

lemma group_keys_pairs_distinct:
  assumes "length ks = 2"
  shows "distinct (map (\<lambda>k. (k ! 0, k ! 1)) (group_keys ks rs))"
proof -
  have "inj_on (\<lambda>k. (k ! 0, k ! 1)) (set (group_keys ks rs))"
  proof (rule inj_onI)
    fix k l assume "k \<in> set (group_keys ks rs)" "l \<in> set (group_keys ks rs)"
      and eq: "(k ! 0, k ! 1) = (l ! 0, l ! 1)"
    then have "length k = 2" "length l = 2" using group_keys_length assms by auto
    with eq show "k = l" by (simp add: list_eq_iff_nth_eq less_2_cases_iff)
  qed
  then show ?thesis by (simp add: distinct_map distinct_group_keys)
qed

lemma map_snd_pivot_columns:
  "map snd (concat (map (\<lambda>v. map (\<lambda>y. (f v, y)) cl) vs)) = concat (replicate (length vs) cl)"
  by (induction vs) (simp_all add: o_def)

subsection \<open>Properties of the pivot\<close>

text \<open>
  C21. Pivoting the table of group means of line 59 by its two keys (line 61) never
  raises: the keys are columns of the table and each pair of keys occurs in one row only.
\<close>

theorem pivot_groupby_ok:
  assumes "groupby_mean df [a, b] = Inr out" and "a \<noteq> b"
  shows "\<exists>p. pivot out a b = Inr p"
proof -
  from assms(1) obtain ks where ks: "map_r (col_index df) [a, b] = Inr ks"
    and rs: "rows out = map (\<lambda>k. k @ map (\<lambda>i. nanmean (map float_of
                         (column_at (group_rows ks (rows df) k) i)))
                     (filter (\<lambda>i. i \<notin> set ks) [0..<length (columns df)]))
                   (group_keys ks (rows df))"
    by (rule groupby_mean_Inr)
  have len: "length ks = 2" using list_all2_lengthD [OF ks [unfolded map_r_Inr_iff]] by simp
  have cols: "take 2 (columns out) = [a, b]"
    using assms(1) by (auto simp: groupby_mean_def Let_def bind_r_Inr_iff split: if_splits)
  then obtain rest where "columns out = a # b # rest"
    by (metis append_take_drop_id append_Cons append_Nil)
  then have ca: "col_index out a = Inr 0" and cb: "col_index out b = Inr 1"
    using assms(2) by (simp_all add: col_index_def)
  have "map (\<lambda>r. (r ! 0, r ! 1)) (rows out) = map (\<lambda>k. (k ! 0, k ! 1)) (group_keys ks (rows df))"
    using group_keys_length len by (auto simp: rs nth_append)
  then have "distinct (map (\<lambda>r. (r ! 0, r ! 1)) (rows out))"
    using group_keys_pairs_distinct [OF len] by simp
  with ca cb show ?thesis using pivot_Inr by blast
qed

lemma pivot_Inr_distinct:
  assumes "pivot df a b = Inr p" and "col_index df a = Inr i" and "col_index df b = Inr j"
  shows "distinct (map (\<lambda>r. (r ! i, r ! j)) (rows df))"
proof -
  from assms(1) obtain i' j' where "col_index df a = Inr i'" "col_index df b = Inr j'"
    and "distinct (map (\<lambda>r. (r ! i', r ! j')) (rows df))" by (rule pivot_Inr_cases)
  with assms(2,3) show ?thesis by simp
qed

text \<open>
  C22. No value is lost by the pivot: for every row and every column other than the two
  keys, the table holds the row's value at the row's index label and at the column
  label made of the column's name and the row's column label.
\<close>

theorem pivot_places_rows:
  assumes "pivot df a b = Inr p" and "col_index df a = Inr i" and "col_index df b = Inr j"
    and "r \<in> set (rows df)" and "v < length (columns df)" and "v \<noteq> i" and "v \<noteq> j"
  shows "(r ! i, (columns df ! v, r ! j), r ! v) \<in> set (pivot_entries p)"
proof -
  have "pivot_lookup (rows df) i j v (r ! i) (r ! j) = r ! v"
    using pivot_lookup_row [OF pivot_Inr_distinct [OF assms(1-3)] assms(4)] .
  moreover have "r ! i \<in> set (column_at (rows df) i)" "r ! j \<in> set (column_at (rows df) j)"
    using assms(4) by (auto simp: column_at_def)
  ultimately show ?thesis
    using assms(5-7) by (auto simp: set_pivot_entries [OF assms(1-3)])
qed

text \<open>
  C23. Every entry of the pivot is accounted for: its column label names a column other
  than the keys, and its value is that column's value in the row with the entry's two
  labels, or NaN when no row has this pair of labels.
\<close>

theorem pivot_entries_sound:
  assumes "pivot df a b = Inr p" and "col_index df a = Inr i" and "col_index df b = Inr j"
    and "(x, (c, y), val) \<in> set (pivot_entries p)"
  shows "\<exists>v<length (columns df). v \<noteq> i \<and> v \<noteq> j \<and> c = columns df ! v
           \<and> ((\<exists>r\<in>set (rows df). r ! i = x \<and> r ! j = y \<and> val = r ! v)
              \<or> (\<not> (\<exists>r\<in>set (rows df). r ! i = x \<and> r ! j = y) \<and> val = NaN))"
proof -
  from assms(4) obtain v where v: "v < length (columns df)" "v \<noteq> i" "v \<noteq> j"
    and c: "c = columns df ! v" and val: "val = pivot_lookup (rows df) i j v x y"
    by (auto simp: set_pivot_entries [OF assms(1-3)])
  show ?thesis
    using pivot_lookup_cases [of "rows df" i x j y v] v c val by metis
qed

text \<open>
  C24. The shape of the pivot: the row labels are the distinct index values in
  ascending order, there is one row of values per label, every row has one value per
  column label, and the column labels repeat the ascending distinct column values once
  for each remaining column.
\<close>

theorem pivot_shape:
  assumes "pivot df a b = Inr p" and "col_index df a = Inr i" and "col_index df b = Inr j"
  shows "sorted (pindex p) \<and> distinct (pindex p) \<and> set (pindex p) = set (column_at (rows df) i)
         \<and> length (pvalues p) = length (pindex p)
         \<and> list_all (\<lambda>row. length row = length (pcolumns p)) (pvalues p)
         \<and> map snd (pcolumns p)
             = concat (replicate (length (filter (\<lambda>v. v \<noteq> i \<and> v \<noteq> j) [0..<length (columns df)]))
                         (sort (remdups (column_at (rows df) j))))"
  using assms(1) unfolding pivot_Inr [OF assms(2,3) pivot_Inr_distinct [OF assms]]
  by (auto simp: list_all_iff length_concat o_def map_snd_pivot_columns)

lemma df_test_one_Inr:
  assumes "col_index df ''drive-wheels'' = Inr k1" and "col_index df ''body-style'' = Inr k2"
    and "col_index df ''price'' = Inr kp" and "\<not> list_ex (\<lambda>r. is_str (r ! kp)) (rows df)"
  shows "df_test_one df = Inr
    \<lparr>columns = [''drive-wheels'', ''body-style'', ''price''],
     rows = map (\<lambda>k. k @ [nanmean (map (\<lambda>r. float_of (r ! kp)) (filter (\<lambda>r. row_key [k1, k2] r = k) (rows df)))])
              (group_keys [k1, k2] (rows df))\<rparr>"
proof -
  have sel: "select_columns df [''drive-wheels'', ''body-style'', ''price'']
      = Inr \<lparr>columns = [''drive-wheels'', ''body-style'', ''price''], rows = map (row_key [k1, k2, kp]) (rows df)\<rparr>"
    using assms(1-3) by (intro select_columns_Inr) simp
  have vis: "filter (\<lambda>i. i \<notin> set [0, 1]) [0..<3] = [2::nat]" by (simp add: upt_rec)
  have keys: "map (row_key [0, 1]) (map (row_key [k1, k2, kp]) (rows df)) = map (row_key [k1, k2]) (rows df)"
    by (simp add: row_key_def)
  have col: "column_at (map (row_key [k1, k2, kp]) rs) (Suc (Suc 0)) = map (\<lambda>r. r ! kp) rs" for rs
    by (simp add: column_at_def row_key_def)
  have grp: "group_rows [0, Suc 0] (map (row_key [k1, k2, kp]) (rows df)) k
      = map (row_key [k1, k2, kp]) (filter (\<lambda>r. row_key [k1, k2] r = k) (rows df))" for k
    by (simp add: group_rows_def filter_map o_def row_key_def)
  have "group_keys [0, 1] (map (row_key [k1, k2, kp]) (rows df)) = group_keys [k1, k2] (rows df)"
    unfolding group_keys_def keys [symmetric] by (simp only: map_map o_def)
  moreover have "\<not> list_ex is_str (map (\<lambda>r. r ! kp) (rows df))"
    using assms(4) by (simp add: list_ex_iff)
  ultimately show ?thesis
    by (simp add: df_test_one_def sel groupby_mean_def col_index_def vis col grp o_def Let_def)
qed

lemma key_ok_pair [simp]: "key_ok [x, y] \<longleftrightarrow> x \<noteq> NaN \<and> y \<noteq> NaN"
  by (auto simp: key_ok_def)

lemma row_key_pair [simp]: "row_key [k1, k2] r = [x, y] \<longleftrightarrow> r ! k1 = x \<and> r ! k2 = y"
  by (auto simp: row_key_def)

lemma group_keys_pair_nth:
  "k \<in> set (group_keys [k1, k2] rs) \<longleftrightarrow>
     (\<exists>r\<in>set rs. k = [r ! k1, r ! k2] \<and> r ! k1 \<noteq> NaN \<and> r ! k2 \<noteq> NaN)"
  by (auto simp: set_group_keys row_key_def)

lemma keyed_rows_distinct:
  assumes "rs' = map (\<lambda>k. k @ [m k]) (group_keys [k1, k2] rs)"
  shows "distinct (map (\<lambda>r. (r ! 0, r ! 1)) rs')"
proof -
  have "\<forall>k\<in>set (group_keys [k1, k2] rs). length k = 2"
    using group_keys_length by fastforce
  then have "map (\<lambda>r. (r ! 0, r ! 1)) rs' = map (\<lambda>k. (k ! 0, k ! 1)) (group_keys [k1, k2] rs)"
    by (simp add: assms nth_append)
  then show ?thesis using group_keys_pairs_distinct [of "[k1, k2]"] by simp
qed

text \<open>The pivot of the script's group means, as a frame with the keys in columns 0 and 1.\<close>

lemma df_test_one_pivot_Inr:
  assumes "df_test_one df = Inr t"
    and "columns t = [''drive-wheels'', ''body-style'', ''price'']"
    and "rows t = map (\<lambda>k. k @ [m k]) (group_keys [k1, k2] rs)"
  shows "\<exists>p. df_test_one_pivot df = Inr p
           \<and> set (pivot_entries p) = {(x, (''price'', y), pivot_lookup (rows t) 0 1 2 x y) | x y.
                x \<in> set (column_at (rows t) 0) \<and> y \<in> set (column_at (rows t) 1)}"
proof -
  have ca: "col_index t ''drive-wheels'' = Inr 0" and cb: "col_index t ''body-style'' = Inr 1"
    using assms(2) by (simp_all add: col_index_def)
  have "distinct (map (\<lambda>r. (r ! 0, r ! 1)) (rows t))" by (rule keyed_rows_distinct [OF assms(3)])
  then obtain p where p: "pivot t ''drive-wheels'' ''body-style'' = Inr p"
    using pivot_Inr [OF ca cb] by blast
  have vis: "filter (\<lambda>v. v \<noteq> 0 \<and> v \<noteq> 1) [0..<3] = [2::nat]" by (simp add: upt_rec)
  show ?thesis
    using p set_pivot_entries [OF p ca cb] assms(1,2)
    by (simp add: df_test_one_pivot_def vis numeral_2_eq_2)
qed

lemma df_test_one_lookup:
  assumes t: "rows t = map (\<lambda>k. k @ [nanmean (map (\<lambda>r. float_of (r ! kp)) (filter (\<lambda>r. row_key [k1, k2] r = k) rs))])
                      (group_keys [k1, k2] rs)"
    and "x \<noteq> NaN" and "y \<noteq> NaN"
  shows "pivot_lookup (rows t) 0 1 2 x y = cell_mean_price rs k1 k2 kp x y"
proof (cases "list_ex (\<lambda>r. r ! k1 = x \<and> r ! k2 = y) rs")
  case True
  then have "[x, y] \<in> set (group_keys [k1, k2] rs)"
    using assms(2,3) by (auto simp: group_keys_pair_nth list_ex_iff)
  then have R: "[x, y, nanmean (map (\<lambda>r. float_of (r ! kp)) (filter (\<lambda>r. r ! k1 = x \<and> r ! k2 = y) rs))]
                  \<in> set (rows t)"
    by (force simp: t)
  show ?thesis
    using pivot_lookup_row [OF keyed_rows_distinct [OF t] R, of 2] True
    by (simp add: cell_mean_price_def numeral_2_eq_2)
next
  case False
  have "\<not> (\<exists>r\<in>set (rows t). r ! 0 = x \<and> r ! 1 = y)"
  proof
    assume "\<exists>r\<in>set (rows t). r ! 0 = x \<and> r ! 1 = y"
    then obtain k c where k: "k \<in> set (group_keys [k1, k2] rs)"
      and xy: "(k @ [c]) ! 0 = x" "(k @ [c]) ! 1 = y"
      by (auto simp: t)
    moreover have "length k = 2" using group_keys_length [OF k] by simp
    ultimately have "k ! 0 = x" "k ! 1 = y" by (simp_all add: nth_append)
    with k False show False by (auto simp: group_keys_pair_nth list_ex_iff)
  qed
  then show ?thesis
    using pivot_lookup_cases [of "rows t" 0 x 1 y 2] False unfolding cell_mean_price_def by auto
qed

lemma keyed_rows_labels:
  assumes "rs' = map (\<lambda>k. k @ [m k]) (group_keys [k1, k2] rs)"
  shows "set (column_at rs' 0) = {x. \<exists>r\<in>set rs. r ! k1 = x \<and> x \<noteq> NaN \<and> r ! k2 \<noteq> NaN}"
    and "set (column_at rs' 1) = {y. \<exists>r\<in>set rs. r ! k2 = y \<and> y \<noteq> NaN \<and> r ! k1 \<noteq> NaN}"
proof -
  have c: "column_at rs' i = map (\<lambda>k. k ! i) (group_keys [k1, k2] rs)" if "i < 2" for i
    using that group_keys_length [of _ "[k1, k2]" rs] by (simp add: assms column_at_def nth_append)
  have G: "set (group_keys [k1, k2] rs)
      = (\<lambda>r. [r ! k1, r ! k2]) ` {r \<in> set rs. r ! k1 \<noteq> NaN \<and> r ! k2 \<noteq> NaN}"
    by (auto simp: group_keys_pair_nth)
  show "set (column_at rs' 0) = {x. \<exists>r\<in>set rs. r ! k1 = x \<and> x \<noteq> NaN \<and> r ! k2 \<noteq> NaN}"
    by (auto simp: c G image_image)
  show "set (column_at rs' 1) = {y. \<exists>r\<in>set rs. r ! k2 = y \<and> y \<noteq> NaN \<and> r ! k1 \<noteq> NaN}"
    by (auto simp: c G image_image)
qed

subsection \<open>The pivot printed by the script\<close>

text \<open>
  C25. The table printed at line 62 is the mean price per drive-wheel and body-style
  pair: when the three columns exist and no price is a string, grouping (lines 58--59)
  and pivoting (line 61) succeed, the row labels are the NaN-free drive-wheel values of
  rows whose body style is not NaN, the column labels pair \<open>price\<close> with the
  corresponding body styles, and every entry is the NaN-skipping mean price of the rows
  with that drive wheel and body style, NaN when no row has both.
\<close>

theorem df_test_one_pivot_means:
  assumes "col_index df ''drive-wheels'' = Inr k1" and "col_index df ''body-style'' = Inr k2"
    and "col_index df ''price'' = Inr kp" and "\<not> list_ex (\<lambda>r. is_str (r ! kp)) (rows df)"
  shows "\<exists>p. df_test_one_pivot df = Inr p
           \<and> set (pivot_entries p)
               = {(x, (''price'', y), cell_mean_price (rows df) k1 k2 kp x y) | x y.
                    (\<exists>r\<in>set (rows df). r ! k1 = x \<and> x \<noteq> NaN \<and> r ! k2 \<noteq> NaN)
                    \<and> (\<exists>r\<in>set (rows df). r ! k2 = y \<and> y \<noteq> NaN \<and> r ! k1 \<noteq> NaN)}"
proof -
  define t where "t = \<lparr>columns = [''drive-wheels'', ''body-style'', ''price''],
     rows = map (\<lambda>k. k @ [nanmean (map (\<lambda>r. float_of (r ! kp)) (filter (\<lambda>r. row_key [k1, k2] r = k) (rows df)))])
              (group_keys [k1, k2] (rows df))\<rparr>"
  have rt: "rows t = map (\<lambda>k. k @ [nanmean (map (\<lambda>r. float_of (r ! kp))
                      (filter (\<lambda>r. row_key [k1, k2] r = k) (rows df)))]) (group_keys [k1, k2] (rows df))"
    by (simp add: t_def)
  have "df_test_one df = Inr t" unfolding t_def by (rule df_test_one_Inr [OF assms])
  from df_test_one_pivot_Inr [OF this _ rt] obtain p where p: "df_test_one_pivot df = Inr p"
    and E: "set (pivot_entries p) = {(x, (''price'', y), pivot_lookup (rows t) 0 1 2 x y) | x y.
                x \<in> set (column_at (rows t) 0) \<and> y \<in> set (column_at (rows t) 1)}"
    by (auto simp: t_def)
  define A where "A = set (column_at (rows t) 0)"
  define B where "B = set (column_at (rows t) 1)"
  have A: "A = {x. \<exists>r\<in>set (rows df). r ! k1 = x \<and> x \<noteq> NaN \<and> r ! k2 \<noteq> NaN}"
    unfolding A_def by (rule keyed_rows_labels(1) [OF rt])
  have B: "B = {y. \<exists>r\<in>set (rows df). r ! k2 = y \<and> y \<noteq> NaN \<and> r ! k1 \<noteq> NaN}"
    unfolding B_def by (rule keyed_rows_labels(2) [OF rt])
  have L: "pivot_lookup (rows t) 0 1 2 x y = cell_mean_price (rows df) k1 k2 kp x y"
    if "x \<in> A" and "y \<in> B" for x y
    using that df_test_one_lookup [OF rt] by (auto simp: A B)
  have "set (pivot_entries p)
          = {(x, (''price'', y), cell_mean_price (rows df) k1 k2 kp x y) | x y. x \<in> A \<and> y \<in> B}"
    unfolding E A_def [symmetric] B_def [symmetric] by (auto simp: L [unfolded One_nat_def])
  then have "set (pivot_entries p)
               = {(x, (''price'', y), cell_mean_price (rows df) k1 k2 kp x y) | x y.
                    (\<exists>r\<in>set (rows df). r ! k1 = x \<and> x \<noteq> NaN \<and> r ! k2 \<noteq> NaN)
                    \<and> (\<exists>r\<in>set (rows df). r ! k2 = y \<and> y \<noteq> NaN \<and> r ! k1 \<noteq> NaN)}"
    by (simp only: A B mem_Collect_eq)
  with p show ?thesis by (intro exI conjI)
qed

subsection \<open>Witnesses\<close>

lemma pivot_sample_Inr:
  "pivot pivot_sample ''a'' ''b'' =
     Inr \<lparr>pindex = [Str ''x'', Str ''y''],
          pcolumns = [(''v'', Str ''p''), (''v'', Str ''q'')],
          pvalues = [[Num 1, Num 3], [Num 2, NaN]]\<rparr>"
  by (simp add: pivot_def pivot_sample_def pivot_lookup_def upt_rec)

lemma pivot_sample_cols:
  "col_index pivot_sample ''a'' = Inr 0 \<and> col_index pivot_sample ''b'' = Inr 1"
  by (simp add: col_index_def pivot_sample_def)

theorem pivot_groupby_ok_witness:
  "\<exists>p. pivot (projr (groupby_mean (projr (select_columns autos [''drive-wheels'', ''body-style'', ''price''])) [''drive-wheels'', ''body-style''])) ''drive-wheels'' ''body-style'' = Inr p"
proof -
  have "groupby_mean (projr (select_columns autos [''drive-wheels'', ''body-style'', ''price''])) [''drive-wheels'', ''body-style'']
      = Inr (projr (groupby_mean (projr (select_columns autos [''drive-wheels'', ''body-style'', ''price''])) [''drive-wheels'', ''body-style'']))"
    by (simp add: groupby_eval autos_def)
  then show ?thesis by (rule pivot_groupby_ok) simp
qed

theorem pivot_places_rows_witness:
  "(Str ''x'', (''v'', Str ''q''), Num 3)
     \<in> set (pivot_entries \<lparr>pindex = [Str ''x'', Str ''y''], pcolumns = [(''v'', Str ''p''), (''v'', Str ''q'')],
                              pvalues = [[Num 1, Num 3], [Num 2, NaN]]\<rparr>)"
  using pivot_places_rows [OF pivot_sample_Inr, of 0 1 "[Str ''x'', Str ''q'', Num 3]" 2] pivot_sample_cols
  by (simp add: pivot_sample_def)

theorem pivot_entries_sound_witness:
  "(Str ''y'', (''v'', Str ''q''), NaN)
     \<in> set (pivot_entries \<lparr>pindex = [Str ''x'', Str ''y''], pcolumns = [(''v'', Str ''p''), (''v'', Str ''q'')],
                              pvalues = [[Num 1, Num 3], [Num 2, NaN]]\<rparr>)
   \<and> \<not> (\<exists>r\<in>set (rows pivot_sample). r ! 0 = Str ''y'' \<and> r ! 1 = Str ''q'')"
proof -
  have m: "(Str ''y'', (''v'', Str ''q''), NaN)
     \<in> set (pivot_entries \<lparr>pindex = [Str ''x'', Str ''y''], pcolumns = [(''v'', Str ''p''), (''v'', Str ''q'')],
                              pvalues = [[Num 1, Num 3], [Num 2, NaN]]\<rparr>)"
    by (simp add: pivot_entries_def)
  have "\<exists>v<length (columns pivot_sample). v \<noteq> 0 \<and> v \<noteq> 1 \<and> ''v'' = columns pivot_sample ! v
           \<and> ((\<exists>r\<in>set (rows pivot_sample). r ! 0 = Str ''y'' \<and> r ! 1 = Str ''q'' \<and> NaN = r ! v)
              \<or> (\<not> (\<exists>r\<in>set (rows pivot_sample). r ! 0 = Str ''y'' \<and> r ! 1 = Str ''q'') \<and> NaN = NaN))"
    using pivot_entries_sound [OF pivot_sample_Inr _ _ m] pivot_sample_cols by blast
  with m show ?thesis by (auto simp: pivot_sample_def)
qed

theorem pivot_shape_witness:
  "sorted [Str ''x'', Str ''y''] \<and> map snd [(''v'', Str ''p''), (''v'', Str ''q'')] = [Str ''p'', Str ''q'']"
  using pivot_shape [OF pivot_sample_Inr] pivot_sample_cols
  by (simp add: pivot_sample_def column_at_def upt_rec)

theorem df_test_one_pivot_means_witness:
  "\<exists>p. df_test_one_pivot autos = Inr p
      \<and> set (pivot_entries p)
          = {(x, (''price'', y), cell_mean_price (rows autos) 0 1 4 x y) | x y.
               (\<exists>r\<in>set (rows autos). r ! 0 = x \<and> x \<noteq> NaN \<and> r ! 1 \<noteq> NaN)
               \<and> (\<exists>r\<in>set (rows autos). r ! 1 = y \<and> y \<noteq> NaN \<and> r ! 0 \<noteq> NaN)}"
  by (rule df_test_one_pivot_means) (simp_all add: autos_def col_index_def)

end
