(* ===== verification/Heatmap.thy ===== *)
theory Heatmap
  imports Pivot
begin

text \<open>
  The labelled heatmap of lines 77--92. \<^verbatim>\<open>axis.pcolor(df_test_one_pivot)\<close> draws the
  value in row \<open>x\<close> and column \<open>y\<close> of the table as the unit square
  \<open>[y, y + 1] \<times> [x, x + 1]\<close>. The script sets the tick labels (lines 81--82) before the
  tick positions (lines 85--86). At that moment the axis still has its automatic
  locator, so matplotlib's \<^verbatim>\<open>set_ticklabels\<close> installs a \<^verbatim>\<open>FixedFormatter(labels)\<close>.
  \<^verbatim>\<open>set_ticks\<close> then replaces only the locator, with
  \<^verbatim>\<open>FixedLocator(np.arange(n) + 0.5)\<close>. When drawing, the formatter gives the \<open>k\<close>-th
  tick the \<open>k\<close>-th label, and no label when there are fewer labels than ticks. The axis
  state is the record \<open>heat_axis\<close>: the tick positions and the formatter's label list
  of both axes. The rotation of line 89 and the colour bar only change how ticks are
  drawn, not where or with which label.
\<close>

section \<open>Definitions\<close>

record heat_axis =
  ax_xticks :: "real list"
  ax_yticks :: "real list"
  ax_xformat :: "cell list"
  ax_yformat :: "cell list"

definition axis_init :: heat_axis where
  "axis_init = \<lparr>ax_xticks = [], ax_yticks = [], ax_xformat = [], ax_yformat = []\<rparr>"

definition set_xticklabels :: "cell list \<Rightarrow> heat_axis \<Rightarrow> heat_axis" where
  "set_xticklabels labels ax = ax\<lparr>ax_xformat := labels\<rparr>"

definition set_yticklabels :: "cell list \<Rightarrow> heat_axis \<Rightarrow> heat_axis" where
  "set_yticklabels labels ax = ax\<lparr>ax_yformat := labels\<rparr>"

definition set_xticks :: "real list \<Rightarrow> heat_axis \<Rightarrow> heat_axis" where
  "set_xticks ticks ax = ax\<lparr>ax_xticks := ticks\<rparr>"

definition set_yticks :: "real list \<Rightarrow> heat_axis \<Rightarrow> heat_axis" where
  "set_yticks ticks ax = ax\<lparr>ax_yticks := ticks\<rparr>"

text \<open>\<^verbatim>\<open>np.arange(n) + 0.5\<close>.\<close>

definition arange_plus_half :: "nat \<Rightarrow> real list" where
  "arange_plus_half n = map (\<lambda>k. real k + 1 / 2) [0..<n]"

text \<open>\<^verbatim>\<open>FixedFormatter.__call__(x, pos)\<close>: the \<open>pos\<close>-th label, none past the end.\<close>

definition fixed_formatter :: "cell list \<Rightarrow> nat \<Rightarrow> cell option" where
  "fixed_formatter seq pos = (if pos < length seq then Some (seq ! pos) else None)"

text \<open>The ticks as drawn: each position with the label the formatter gives it.\<close>

definition tick_labels :: "real list \<Rightarrow> cell list \<Rightarrow> (real \<times> cell option) list" where
  "tick_labels ticks seq = map (\<lambda>k. (ticks ! k, fixed_formatter seq k)) [0..<length ticks]"

text \<open>\<^verbatim>\<open>df_test_one_pivot.columns.levels[1]\<close>: the sorted distinct second-level labels.\<close>

definition column_levels1 :: "pivot_table \<Rightarrow> cell list" where
  "column_levels1 p = sort (remdups (map snd (pcolumns p)))"

text \<open>Lines 81--86 in the script's order; \<^verbatim>\<open>shape\<close> is (rows, columns) of the table.\<close>

definition heatmap_axis :: "pivot_table \<Rightarrow> heat_axis" where
  "heatmap_axis p =
     (let ax1 = set_xticklabels (column_levels1 p) axis_init;
          ax2 = set_yticklabels (pindex p) ax1;
          ax3 = set_xticks (arange_plus_half (length (pcolumns p))) ax2
      in set_yticks (arange_plus_half (length (pvalues p))) ax3)"

text \<open>The labelled ticks of the two axes, as the figure shows them.\<close>

definition xtick_labels :: "heat_axis \<Rightarrow> (real \<times> cell option) list" where
  "xtick_labels ax = tick_labels (ax_xticks ax) (ax_xformat ax)"

definition ytick_labels :: "heat_axis \<Rightarrow> (real \<times> cell option) list" where
  "ytick_labels ax = tick_labels (ax_yticks ax) (ax_yformat ax)"

section \<open>Lemmas\<close>

lemma heatmap_axis_fields [simp]:
  "ax_xticks (heatmap_axis p) = arange_plus_half (length (pcolumns p))"
  "ax_yticks (heatmap_axis p) = arange_plus_half (length (pvalues p))"
  "ax_xformat (heatmap_axis p) = column_levels1 p"
  "ax_yformat (heatmap_axis p) = pindex p"
  by (simp_all add: heatmap_axis_def set_xticklabels_def set_yticklabels_def set_xticks_def
        set_yticks_def axis_init_def)

lemma tick_labels_arange:
  "tick_labels (arange_plus_half n) seq = map (\<lambda>k. (real k + 1 / 2, fixed_formatter seq k)) [0..<n]"
  by (simp add: tick_labels_def arange_plus_half_def)

lemma tick_labels_all_Some:
  assumes "n \<le> length seq"
  shows "tick_labels (arange_plus_half n) seq = map (\<lambda>k. (real k + 1 / 2, Some (seq ! k))) [0..<n]"
  using assms by (simp add: tick_labels_arange fixed_formatter_def)

lemma pivot_rows_aligned:
  assumes "pivot df a b = Inr p"
  shows "length (pvalues p) = length (pindex p)"
proof -
  from assms obtain i j where ij: "col_index df a = Inr i" "col_index df b = Inr j"
    and "distinct (map (\<lambda>r. (r ! i, r ! j)) (rows df))" by (rule pivot_Inr_cases)
  from pivot_Inr [OF this] assms show ?thesis by simp
qed

lemma pivot_Inr_sel:
  assumes "pivot df a b = Inr p" and "col_index df a = Inr i" and "col_index df b = Inr j"
  shows "pcolumns p = concat (map (\<lambda>v. map (\<lambda>y. (columns df ! v, y)) (sort (remdups (column_at (rows df) j))))
                          (filter (\<lambda>v. v \<noteq> i \<and> v \<noteq> j) [0..<length (columns df)]))"
proof -
  have "Inr p = pivot df a b" using assms(1) by (rule sym)
  also have "\<dots> = Inr \<lparr>pindex = sort (remdups (column_at (rows df) i)),
     pcolumns = concat (map (\<lambda>v. map (\<lambda>y. (columns df ! v, y)) (sort (remdups (column_at (rows df) j))))
                          (filter (\<lambda>v. v \<noteq> i \<and> v \<noteq> j) [0..<length (columns df)])),
     pvalues = map (\<lambda>x. concat (map (\<lambda>v. map (\<lambda>y. pivot_lookup (rows df) i j v x y)
                          (sort (remdups (column_at (rows df) j))))
                          (filter (\<lambda>v. v \<noteq> i \<and> v \<noteq> j) [0..<length (columns df)])))
                 (sort (remdups (column_at (rows df) i)))\<rparr>"
    by (rule pivot_Inr [OF assms(2,3) pivot_Inr_distinct [OF assms]])
  finally show ?thesis by (simp only: sum.inject pivot_table.select_convs)
qed

lemma pivot_column_levels:
  assumes "pivot df a b = Inr p" and "col_index df a = Inr i" and "col_index df b = Inr j"
  defines "nv \<equiv> length (filter (\<lambda>v. v \<noteq> i \<and> v \<noteq> j) [0..<length (columns df)])"
    and "cl \<equiv> sort (remdups (column_at (rows df) j))"
  shows "map snd (pcolumns p) = concat (replicate nv cl)"
    and "column_levels1 p = (if nv = 0 then [] else cl)"
proof -
  show snd: "map snd (pcolumns p) = concat (replicate nv cl)"
    unfolding pivot_Inr_sel [OF assms(1-3)] nv_def cl_def by (rule map_snd_pivot_columns)
  have A: "sort (remdups (concat (replicate nv cl))) = sorted_list_of_set (set (concat (replicate nv cl)))"
    by (simp only: sorted_list_of_set_sort_remdups)
  have B: "cl = sorted_list_of_set (set (column_at (rows df) j))"
    by (simp only: cl_def sorted_list_of_set_sort_remdups)
  have C: "set (concat (replicate nv cl)) = (if nv = 0 then {} else set (column_at (rows df) j))"
    by (induction nv) (auto simp: cl_def)
  show "column_levels1 p = (if nv = 0 then [] else cl)"
    unfolding column_levels1_def snd A C by (subst B) simp
qed

lemma groupby_mean_columns:
  assumes "groupby_mean df keys = Inr out" and "map_r (col_index df) keys = Inr ks"
  shows "columns out = keys @ map (\<lambda>i. columns df ! i) (filter (\<lambda>i. i \<notin> set ks) [0..<length (columns df)])"
  using assms by (auto simp: groupby_mean_def Let_def split: if_splits)

lemma df_test_one_columns:
  assumes "df_test_one df = Inr t"
  shows "columns t = [''drive-wheels'', ''body-style'', ''price'']"
proof -
  from assms obtain s where s: "select_columns df [''drive-wheels'', ''body-style'', ''price''] = Inr s"
    and g: "groupby_mean s [''drive-wheels'', ''body-style''] = Inr t"
    by (auto simp: df_test_one_def bind_r_Inr_iff)
  have cs: "columns s = [''drive-wheels'', ''body-style'', ''price'']"
    using s by (auto simp: select_columns_def bind_r_Inr_iff)
  have ks: "map_r (col_index s) [''drive-wheels'', ''body-style''] = Inr [0, 1]"
    by (simp add: cs col_index_def)
  have "filter (\<lambda>i. i \<notin> set [0, 1]) [0..<length (columns s)] = [2::nat]"
    by (simp add: cs upt_rec)
  then show ?thesis using groupby_mean_columns [OF g ks] by (simp add: cs)
qed

subsection \<open>Properties of the heatmap\<close>

text \<open>
  C26. On the heatmap of any pivot table, the \<open>k\<close>-th row's label is drawn at height
  \<open>k + 1/2\<close>, the centre of the row of squares that shows that row's values; every row
  gets a label.
\<close>

theorem heatmap_ylabels:
  assumes "pivot df a b = Inr p"
  shows "ytick_labels (heatmap_axis p)
           = map (\<lambda>k. (real k + 1 / 2, Some (pindex p ! k))) [0..<length (pindex p)]"
  using tick_labels_all_Some [of "length (pindex p)" "pindex p"]
  by (simp add: ytick_labels_def pivot_rows_aligned [OF assms])

text \<open>
  C27. The x labels of lines 81 and 85 match the columns only when the pivot has a single
  value column: \<^verbatim>\<open>columns.levels[1]\<close> lists each column label once, while the
  table repeats them for every value column, so with two or more value columns and at
  least one row some column's tick is drawn without a label.
\<close>

theorem heatmap_xlabels_missing:
  assumes "pivot df a b = Inr p" and "col_index df a = Inr i" and "col_index df b = Inr j"
    and "2 \<le> length (filter (\<lambda>v. v \<noteq> i \<and> v \<noteq> j) [0..<length (columns df)])"
    and "rows df \<noteq> []"
  shows "\<exists>k<length (pcolumns p). snd (xtick_labels (heatmap_axis p) ! k) = None"
proof -
  define nv where "nv = length (filter (\<lambda>v. v \<noteq> i \<and> v \<noteq> j) [0..<length (columns df)])"
  define cl where "cl = sort (remdups (column_at (rows df) j))"
  have snd: "map snd (pcolumns p) = concat (replicate nv cl)" and lev: "column_levels1 p = cl"
    using pivot_column_levels [OF assms(1-3)] assms(4) unfolding nv_def cl_def by auto
  have "column_at (rows df) j \<noteq> []" using assms(5) by (simp add: column_at_def)
  moreover have "length cl = length (remdups (column_at (rows df) j))"
    unfolding cl_def by (rule length_sort)
  ultimately have "0 < length cl" by simp
  then have "length cl < 2 * length cl" by simp
  also have "\<dots> \<le> nv * length cl"
    using assms(4) unfolding nv_def by (rule mult_le_mono1)
  also have "\<dots> = length (pcolumns p)"
    using arg_cong [OF snd, of length] by (simp add: length_concat sum_list_replicate)
  finally have lt: "length cl < length (pcolumns p)" .
  have "snd (xtick_labels (heatmap_axis p) ! length cl) = None"
    using lt by (simp add: xtick_labels_def tick_labels_arange lev fixed_formatter_def)
  with lt show ?thesis by blast
qed

text \<open>
  C28. On the heatmap the script draws (lines 77--86), every tick is labelled correctly:
  the \<open>k\<close>-th column's body style at \<open>k + 1/2\<close> on the x axis and the \<open>k\<close>-th row's
  drive wheels at \<open>k + 1/2\<close> on the y axis, the centres of the squares that show them.
  The pivot of line 61 has the single value column \<open>price\<close>, so the fragility of C27
  does not arise.
\<close>

theorem df_test_one_heatmap_labels:
  assumes "df_test_one_pivot df = Inr p"
  shows "xtick_labels (heatmap_axis p)
           = map (\<lambda>k. (real k + 1 / 2, Some (snd (pcolumns p ! k)))) [0..<length (pcolumns p)]
         \<and> ytick_labels (heatmap_axis p)
           = map (\<lambda>k. (real k + 1 / 2, Some (pindex p ! k))) [0..<length (pindex p)]"
proof -
  from assms obtain t where t: "df_test_one df = Inr t"
    and pv: "pivot t ''drive-wheels'' ''body-style'' = Inr p"
    by (auto simp: df_test_one_pivot_def bind_r_Inr_iff)
  have cs: "columns t = [''drive-wheels'', ''body-style'', ''price'']" by (rule df_test_one_columns [OF t])
  have ca: "col_index t ''drive-wheels'' = Inr 0" and cb: "col_index t ''body-style'' = Inr 1"
    by (simp_all add: cs col_index_def)
  have nv: "length (filter (\<lambda>v. v \<noteq> 0 \<and> v \<noteq> 1) [0..<length (columns t)]) = 1"
    by (simp add: cs upt_rec)
  have "column_levels1 p = map snd (pcolumns p)"
    using pivot_column_levels [OF pv ca cb] unfolding nv by simp
  then have x: "xtick_labels (heatmap_axis p)
           = map (\<lambda>k. (real k + 1 / 2, Some (snd (pcolumns p ! k)))) [0..<length (pcolumns p)]"
    using tick_labels_all_Some [of "length (pcolumns p)" "map snd (pcolumns p)"]
    by (simp add: xtick_labels_def)
  have y: "ytick_labels (heatmap_axis p)
           = map (\<lambda>k. (real k + 1 / 2, Some (pindex p ! k))) [0..<length (pindex p)]"
    using tick_labels_all_Some [of "length (pindex p)" "pindex p"]
    by (simp add: ytick_labels_def pivot_rows_aligned [OF pv])
  from x y show ?thesis ..
qed

subsection \<open>Witnesses\<close>

lemma pivot_sample2_Inr:
  "pivot pivot_sample2 ''a'' ''b'' =
     Inr \<lparr>pindex = [Str ''x'', Str ''y''],
          pcolumns = [(''v'', Str ''p''), (''v'', Str ''q''), (''w'', Str ''p''), (''w'', Str ''q'')],
          pvalues = [[Num 1, NaN, Num 10, NaN], [NaN, Num 2, NaN, Num 20]]\<rparr>"
  by (simp add: pivot_def pivot_sample2_def pivot_lookup_def upt_rec)

lemma df_test_one_autos:
  "df_test_one autos =
     Inr \<lparr>columns = [''drive-wheels'', ''body-style'', ''price''],
          rows = [[Str ''4wd'', Str ''sedan'', Num 17450], [Str ''fwd'', Str ''hatchback'', Num 6295],
                  [Str ''fwd'', Str ''sedan'', Num (20525 / 2)], [Str ''rwd'', Str ''convertible'', Num 13495],
                  [Str ''rwd'', Str ''sedan'', Num 16500]]\<rparr>"
  by (simp add: df_test_one_def groupby_eval autos_def)
lemma df_test_one_pivot_autos:
  "df_test_one_pivot autos =
     Inr \<lparr>pindex = [Str ''4wd'', Str ''fwd'', Str ''rwd''],
          pcolumns = [(''price'', Str ''convertible''), (''price'', Str ''hatchback''), (''price'', Str ''sedan'')],
          pvalues = [[NaN, NaN, Num 17450], [NaN, Num 6295, Num (20525 / 2)], [Num 13495, NaN, Num 16500]]\<rparr>"
  by (simp add: df_test_one_pivot_def df_test_one_autos pivot_def pivot_lookup_def upt_rec)
theorem heatmap_ylabels_witness:
  "ytick_labels (heatmap_axis \<lparr>pindex = [Str ''x'', Str ''y''], pcolumns = [(''v'', Str ''p''), (''v'', Str ''q'')],
                              pvalues = [[Num 1, Num 3], [Num 2, NaN]]\<rparr>)
     = [(1 / 2, Some (Str ''x'')), (3 / 2, Some (Str ''y''))]"
  using heatmap_ylabels [OF pivot_sample_Inr] by (simp add: upt_rec)

theorem heatmap_xlabels_missing_witness:
  "\<exists>k<length (pcolumns (projr (pivot pivot_sample2 ''a'' ''b''))).
     snd (xtick_labels (heatmap_axis (projr (pivot pivot_sample2 ''a'' ''b''))) ! k) = None"
  by (rule heatmap_xlabels_missing [of pivot_sample2 "''a''" "''b''" _ 0 1])
     (simp_all add: pivot_sample2_Inr, simp_all add: pivot_sample2_def col_index_def upt_rec)

theorem df_test_one_heatmap_labels_witness:
  "xtick_labels (heatmap_axis (projr (df_test_one_pivot autos)))
     = [(1 / 2, Some (Str ''convertible'')), (3 / 2, Some (Str ''hatchback'')), (5 / 2, Some (Str ''sedan''))]
   \<and> ytick_labels (heatmap_axis (projr (df_test_one_pivot autos)))
     = [(1 / 2, Some (Str ''4wd'')), (3 / 2, Some (Str ''fwd'')), (5 / 2, Some (Str ''rwd''))]"
  using df_test_one_heatmap_labels [OF df_test_one_pivot_autos] by (simp add: df_test_one_pivot_autos upt_rec)

end
