(* ===== verification/Script.thy ===== *)
theory Script
  imports Pearson Anova Heatmap
begin

text \<open>
  The whole of \<^verbatim>\<open>main.py\<close> as one run. Every statement that prints (or shows the
  labelled heatmap) is a value of \<open>printed result\<close>, computed from the loaded frame by the
  component models. The statements are listed in source order in \<open>script_steps\<close>.
  \<open>run\<close> executes them as Python does: it prints each output in turn and stops at the
  first exception, which ends the script. The result is the transcript and the
  exception, if any. The plots of lines 29--37 and 72--74 and \<^verbatim>\<open>print(df.dtypes)\<close>
  (line 15) print nothing the model keeps and raise nothing on a frame with the script's
  columns, so they are not statements of the run.
\<close>

section \<open>Outputs and statements\<close>

datatype printed =
    OFrame frame
  | OCorr "string list" "real option list list"
  | OCounts count_frame
  | OPivot pivot_table
  | OFigure heat_axis
  | OPearson "real option"
  | OAnova fstat

text \<open>\<^verbatim>\<open>print(df[cs].corr())\<close> (lines 20--26).\<close>

definition corr_step :: "string list \<Rightarrow> frame \<Rightarrow> printed result" where
  "corr_step cs df =
     bind_r (select_columns df cs) (\<lambda>s. bind_r (frame_corr s) (\<lambda>(names, m). Inr (OCorr names m)))"

text \<open>
  \<^verbatim>\<open>stats.pearsonr(df[c], df['price'])\<close> and its print (lines 99--125): both columns
  are fetched, then converted to floats, then correlated.
\<close>

definition pearson_step :: "string \<Rightarrow> frame \<Rightarrow> printed result" where
  "pearson_step c df =
     bind_r (get_column df c) (\<lambda>x. bind_r (get_column df ''price'') (\<lambda>y.
       bind_r (series_floats x) (\<lambda>xs. bind_r (series_floats y) (\<lambda>ys.
         bind_r (pearsonr xs ys) (\<lambda>r. Inr (OPearson r))))))"

definition pearson_columns :: "string list" where
  "pearson_columns = [''wheel-base'', ''horsepower'', ''length'', ''width'', ''curb-weight'',
                      ''engine-size'', ''bore'', ''city-mpg'', ''highway-mpg'']"

definition anova_step :: "string list \<Rightarrow> frame \<Rightarrow> printed result" where
  "anova_step vs df = bind_r (drive_wheel_anova df vs) (\<lambda>f. Inr (OAnova f))"

text \<open>The printing statements of lines 12--92 of \<^verbatim>\<open>main.py\<close>, in source order.\<close>

definition eda_steps :: "frame \<Rightarrow> printed result list" where
  "eda_steps df =
     [Inr (OFrame (head 5 df)),
      corr_step [''bore'', ''stroke'', ''compression-ratio'', ''horsepower''] df,
      corr_step [''bore'', ''price''] df,
      bind_r (drive_wheel_counts df) (\<lambda>c. Inr (OCounts c)),
      bind_r (df_test_one df) (\<lambda>t. Inr (OFrame t)),
      bind_r (df_test_one_pivot df) (\<lambda>p. Inr (OPivot p)),
      bind_r (df_group_two df) (\<lambda>t. Inr (OFrame t)),
      bind_r (df_test_one_pivot df) (\<lambda>p. Inr (OFigure (heatmap_axis p)))]"

text \<open>The printing statements of lines 131--152: the grouped head and the four ANOVA tests.\<close>

definition anova_steps :: "frame \<Rightarrow> printed result list" where
  "anova_steps df =
     [bind_r (grouped_test_two df) (\<lambda>g. bind_r (groupby_head 5 g [''drive-wheels'']) (\<lambda>h. Inr (OFrame h))),
      anova_step [''fwd'', ''rwd'', ''4wd''] df,
      anova_step [''fwd'', ''rwd''] df,
      anova_step [''4wd'', ''rwd''] df,
      anova_step [''fwd'', ''4wd''] df]"

text \<open>The whole script: lines 12--92, the Pearson tests of lines 99--125, lines 131--152.\<close>

definition script_steps :: "frame \<Rightarrow> printed result list" where
  "script_steps df = eda_steps df @ map (\<lambda>c. pearson_step c df) pearson_columns @ anova_steps df"

text \<open>Running the statements: print until the first exception, which ends the script.\<close>

fun run :: "printed result list \<Rightarrow> printed list \<times> py_error option" where
  "run [] = ([], None)"
| "run (Inl e # ss) = ([], Some e)"
| "run (Inr out # ss) = (let (outs, err) = run ss in (out # outs, err))"

section \<open>The frames the script works on\<close>

text \<open>
  The columns the script reads, and what it needs of them to run to the end: every column
  exists, the numeric ones hold no string, there are at least two rows (for
  \<^verbatim>\<open>pearsonr\<close>), and each drive-wheel value the ANOVA tests name occurs.
\<close>

definition numeric_columns :: "string list" where
  "numeric_columns = [''bore'', ''stroke'', ''compression-ratio'', ''horsepower'', ''price'',
                      ''wheel-base'', ''length'', ''width'', ''curb-weight'', ''engine-size'',
                      ''city-mpg'', ''highway-mpg'']"

definition column_cells :: "frame \<Rightarrow> string \<Rightarrow> cell list" where
  "column_cells df c = column_at (rows df) (the (index_of c (columns df)))"

definition script_frame_ok :: "frame \<Rightarrow> bool" where
  "script_frame_ok df \<longleftrightarrow>
     list_all (\<lambda>c. c \<in> set (columns df)) (''drive-wheels'' # ''body-style'' # numeric_columns)
     \<and> list_all (\<lambda>c. \<not> list_ex is_str (column_cells df c)) numeric_columns"

definition script_columns_ok :: "frame \<Rightarrow> bool" where
  "script_columns_ok df \<longleftrightarrow> script_frame_ok df \<and> 2 \<le> length (rows df)"

definition script_pre :: "frame \<Rightarrow> bool" where
  "script_pre df \<longleftrightarrow>
     script_columns_ok df
     \<and> list_all (\<lambda>v. Str v \<in> set (column_cells df ''drive-wheels'')) [''fwd'', ''rwd'', ''4wd'']"

section \<open>Lemmas\<close>

subsection \<open>Running statements\<close>

lemma run_all_Inr: "\<forall>s\<in>set ss. \<exists>out. s = Inr out \<Longrightarrow> run ss = (map projr ss, None)"
  by (induction ss) auto

lemma run_Inr_prefix: "run (map Inr outs @ ss) = (outs @ fst (run ss), snd (run ss))"
  by (induction outs) (auto split: prod.split)

lemma run_first_Inl: "run (map Inr outs @ Inl e # ss) = (outs, Some e)"
  by (simp add: run_Inr_prefix)

subsection \<open>When each statement succeeds\<close>

lemma get_column_cells:
  "c \<in> set (columns df) \<Longrightarrow> get_column df c = Inr (column_cells df c)"
  by (simp add: get_column_def col_index_ok column_cells_def)

lemma length_column_cells [simp]: "length (column_cells df c) = length (rows df)"
  by (simp add: column_cells_def column_at_def)

lemma corr_step_ok:
  assumes "set cs \<subseteq> set (columns df)" and "\<forall>c\<in>set cs. \<not> list_ex is_str (column_cells df c)"
  shows "\<exists>out. corr_step cs df = Inr out"
proof -
  have ci: "list_all2 (\<lambda>c i. col_index df c = Inr i) cs (map (\<lambda>c. the (index_of c (columns df))) cs)"
    using assms(1) by (auto simp: list_all2_conv_all_nth intro!: col_index_ok)
  let ?s = "\<lparr>columns = cs, rows = map (\<lambda>r. map (\<lambda>i. r ! i) (map (\<lambda>c. the (index_of c (columns df))) cs)) (rows df)\<rparr>"
  have s: "select_columns df cs = Inr ?s" using ci by (auto simp: select_columns_Inr_iff)
  have "column_at (rows ?s) q = column_cells df (cs ! q)" if "q < length cs" for q
    using that by (simp add: column_at_def column_cells_def)
  then have "\<forall>q\<in>set [0..<length (columns ?s)]. series_floats (column_at (rows ?s) q)
               = Inr (map float_of (column_at (rows ?s) q))"
    using assms(2) by (auto intro: series_floats_ok)
  then have "map_r (\<lambda>q. series_floats (column_at (rows ?s) q)) [0..<length (columns ?s)]
               = Inr (map (\<lambda>q. map float_of (column_at (rows ?s) q)) [0..<length (columns ?s)])"
    by (rule map_r_map)
  then show ?thesis by (simp add: corr_step_def s frame_corr_def)
qed

lemma pearsonr_ok:
  "length xs = length ys \<Longrightarrow> 2 \<le> length xs \<Longrightarrow> \<exists>r. pearsonr xs ys = Inr r"
  by (simp add: pearsonr_def Let_def)

lemma pearson_step_ok:
  assumes "c \<in> set (columns df)" and "''price'' \<in> set (columns df)"
    and "\<not> list_ex is_str (column_cells df c)" and "\<not> list_ex is_str (column_cells df ''price'')"
    and "2 \<le> length (rows df)"
  shows "\<exists>out. pearson_step c df = Inr out"
proof -
  obtain r where "pearsonr (map float_of (column_cells df c)) (map float_of (column_cells df ''price'')) = Inr r"
    using pearsonr_ok assms(5) by fastforce
  then show ?thesis
    using assms(3,4) by (simp add: pearson_step_def get_column_cells [OF assms(1)]
          get_column_cells [OF assms(2)] series_floats_ok)
qed

lemma f_oneway_ok: "2 \<le> length samples \<Longrightarrow> \<exists>f. f_oneway samples = Inr f"
  by (simp add: f_oneway_def)

lemma col_index_cells:
  "c \<in> set (columns df) \<Longrightarrow> col_index df c = Inr (the (index_of c (columns df)))"
  by (rule col_index_ok)

lemma column_cells_at:
  "column_at (rows df) (the (index_of c (columns df))) = column_cells df c"
  by (simp add: column_cells_def)

lemma anova_step_ok:
  assumes "''drive-wheels'' \<in> set (columns df)" and "''price'' \<in> set (columns df)"
    and "\<not> list_ex is_str (column_cells df ''price'')" and "2 \<le> length vs"
    and "\<forall>v\<in>set vs. Str v \<in> set (column_cells df ''drive-wheels'')"
  shows "\<exists>out. anova_step vs df = Inr out"
proof -
  let ?k = "the (index_of ''drive-wheels'' (columns df))" and ?p = "the (index_of ''price'' (columns df))"
  have g: "grouped_test_two df
      = Inr \<lparr>columns = [''drive-wheels'', ''price''], rows = map (\<lambda>r. [r ! ?k, r ! ?p]) (rows df)\<rparr>"
    by (rule grouped_test_two_Inr [OF col_index_ok [OF assms(1)] col_index_ok [OF assms(2)]])
  have np: "\<not> list_ex (\<lambda>r. is_str (r ! ?p)) (rows df)"
    using assms(3) by (simp add: column_cells_def column_at_def list_ex_iff)
  have "map_r (group_price \<lparr>columns = [''drive-wheels'', ''price''], rows = map (\<lambda>r. [r ! ?k, r ! ?p]) (rows df)\<rparr>) vs
          = Inr (map (\<lambda>v. map (\<lambda>r. float_of (r ! ?p)) (filter (\<lambda>r. r ! ?k = Str v) (rows df))) vs)"
    using assms(5) np by (intro map_r_map) (simp add: group_price_present column_cells_def)
  moreover obtain f where "f_oneway (map (\<lambda>v. map (\<lambda>r. float_of (r ! ?p)) (filter (\<lambda>r. r ! ?k = Str v) (rows df))) vs) = Inr f"
    using f_oneway_ok assms(4) by fastforce
  ultimately show ?thesis
    by (simp add: anova_step_def drive_wheel_anova_def anova_test_def g)
qed

lemma drive_wheel_counts_ok:
  "''drive-wheels'' \<in> set (columns df) \<Longrightarrow> \<exists>c. drive_wheel_counts df = Inr c"
  by (simp add: drive_wheel_counts_def get_column_cells Let_def)

lemma no_str_rows:
  "\<not> list_ex is_str (column_cells df c) \<Longrightarrow>
   \<not> list_ex (\<lambda>r. is_str (r ! the (index_of c (columns df)))) (rows df)"
  by (simp add: column_cells_def column_at_def list_ex_iff)

lemma df_test_one_ok:
  assumes "''drive-wheels'' \<in> set (columns df)" and "''body-style'' \<in> set (columns df)"
    and "''price'' \<in> set (columns df)" and "\<not> list_ex is_str (column_cells df ''price'')"
  shows "\<exists>t. df_test_one df = Inr t"
  using df_test_one_Inr [OF col_index_ok [OF assms(1)] col_index_ok [OF assms(2)]
      col_index_ok [OF assms(3)] no_str_rows [OF assms(4)]] by blast

lemma df_test_one_pivot_ok:
  assumes "''drive-wheels'' \<in> set (columns df)" and "''body-style'' \<in> set (columns df)"
    and "''price'' \<in> set (columns df)" and "\<not> list_ex is_str (column_cells df ''price'')"
  shows "\<exists>p. df_test_one_pivot df = Inr p"
proof -
  let ?k1 = "the (index_of ''drive-wheels'' (columns df))" and ?k2 = "the (index_of ''body-style'' (columns df))"
    and ?kp = "the (index_of ''price'' (columns df))"
  define t where "t = \<lparr>columns = [''drive-wheels'', ''body-style'', ''price''],
     rows = map (\<lambda>k. k @ [nanmean (map (\<lambda>r. float_of (r ! ?kp)) (filter (\<lambda>r. row_key [?k1, ?k2] r = k) (rows df)))])
              (group_keys [?k1, ?k2] (rows df))\<rparr>"
  have t: "df_test_one df = Inr t"
    unfolding t_def by (rule df_test_one_Inr [OF col_index_ok [OF assms(1)] col_index_ok [OF assms(2)]
      col_index_ok [OF assms(3)] no_str_rows [OF assms(4)]])
  have c: "columns t = [''drive-wheels'', ''body-style'', ''price'']" by (simp add: t_def)
  have r: "rows t = map (\<lambda>k. k @ [nanmean (map (\<lambda>r. float_of (r ! ?kp))
                    (filter (\<lambda>r. row_key [?k1, ?k2] r = k) (rows df)))]) (group_keys [?k1, ?k2] (rows df))"
    by (simp add: t_def)
  from df_test_one_pivot_Inr [OF t c r] show ?thesis by blast
qed

lemma groupby_mean_ok:
  assumes "map_r (col_index df) keys = Inr ks"
    and "\<not> list_ex (\<lambda>i. list_ex is_str (column_at (rows df) i)) (filter (\<lambda>i. i \<notin> set ks) [0..<length (columns df)])"
  shows "\<exists>out. groupby_mean df keys = Inr out"
  using assms by (simp add: groupby_mean_def Let_def)

lemma df_group_two_ok:
  assumes "''body-style'' \<in> set (columns df)" and "''price'' \<in> set (columns df)"
    and "\<not> list_ex is_str (column_cells df ''price'')"
  shows "\<exists>t. df_group_two df = Inr t"
proof -
  let ?b = "the (index_of ''body-style'' (columns df))" and ?p = "the (index_of ''price'' (columns df))"
  define g where "g = \<lparr>columns = [''body-style'', ''price''], rows = map (row_key [?b, ?p]) (rows df)\<rparr>"
  have s: "select_columns df [''body-style'', ''price''] = Inr g"
    unfolding g_def by (rule select_columns_Inr) (simp add: col_index_ok assms(1,2))
  have ks: "map_r (col_index g) [''body-style''] = Inr [0]" by (simp add: g_def col_index_def)
  have vis: "filter (\<lambda>i. i \<notin> set [0]) [0..<length (columns g)] = [1::nat]" by (simp add: g_def upt_rec)
  have "column_at (rows g) 1 = column_cells df ''price''"
    by (simp add: g_def column_at_def row_key_def column_cells_def)
  then have "\<not> list_ex (\<lambda>i. list_ex is_str (column_at (rows g) i)) (filter (\<lambda>i. i \<notin> set [0]) [0..<length (columns g)])"
    unfolding vis using assms(3) by simp
  from groupby_mean_ok [OF ks this] show ?thesis by (simp add: df_group_two_def s)
qed

lemma group_head_ok:
  assumes "''drive-wheels'' \<in> set (columns df)" and "''price'' \<in> set (columns df)"
  shows "\<exists>out. bind_r (grouped_test_two df) (\<lambda>g. bind_r (groupby_head 5 g [''drive-wheels''])
                                                    (\<lambda>h. Inr (OFrame h))) = Inr out"
  by (simp add: grouped_test_two_Inr [OF col_index_ok [OF assms(1)] col_index_ok [OF assms(2)]]
        groupby_head_def col_index_def)

lemma script_frame_okD:
  assumes "script_frame_ok df"
  shows "c \<in> set numeric_columns \<Longrightarrow> c \<in> set (columns df)"
    and "c \<in> set numeric_columns \<Longrightarrow> \<not> list_ex is_str (column_cells df c)"
    and "''drive-wheels'' \<in> set (columns df)" and "''body-style'' \<in> set (columns df)"
    and "''price'' \<in> set (columns df)" and "\<not> list_ex is_str (column_cells df ''price'')"
  using assms by (auto simp: script_frame_ok_def list_all_iff numeric_columns_def)

lemma script_columns_okD:
  assumes "script_columns_ok df"
  shows "c \<in> set numeric_columns \<Longrightarrow> c \<in> set (columns df)"
    and "c \<in> set numeric_columns \<Longrightarrow> \<not> list_ex is_str (column_cells df c)"
    and "''drive-wheels'' \<in> set (columns df)" and "''body-style'' \<in> set (columns df)"
    and "''price'' \<in> set (columns df)" and "\<not> list_ex is_str (column_cells df ''price'')"
    and "2 \<le> length (rows df)"
  using assms script_frame_okD [of df] by (auto simp: script_columns_ok_def)

lemma length_script_parts [simp]:
  "length (eda_steps df) = 8" "length pearson_columns = 9" "length (anova_steps df) = 5"
  by (simp_all add: eda_steps_def anova_steps_def pearson_columns_def)

lemma length_script_steps: "length (script_steps df) = 22"
  by (simp add: script_steps_def)

lemma all_Inr_map_projr: "\<forall>s\<in>set ss. \<exists>out. s = Inr out \<Longrightarrow> ss = map Inr (map projr ss)"
  by (induction ss) auto

lemma eda_steps_ok:
  assumes "script_frame_ok df"
  shows "\<forall>s\<in>set (eda_steps df). \<exists>out. s = Inr out"
proof -
  note k = script_frame_okD [OF assms]
  obtain o1 where o1: "corr_step [''bore'', ''stroke'', ''compression-ratio'', ''horsepower''] df = Inr o1"
    using k(1,2) corr_step_ok [of "[''bore'', ''stroke'', ''compression-ratio'', ''horsepower'']" df]
    by (auto simp: numeric_columns_def)
  obtain o2 where o2: "corr_step [''bore'', ''price''] df = Inr o2"
    using k(1,2) corr_step_ok [of "[''bore'', ''price'']" df] by (auto simp: numeric_columns_def)
  obtain c where c: "drive_wheel_counts df = Inr c" using drive_wheel_counts_ok [OF k(3)] by blast
  obtain t where t: "df_test_one df = Inr t" using df_test_one_ok [OF k(3-6)] by blast
  obtain p where p: "df_test_one_pivot df = Inr p" using df_test_one_pivot_ok [OF k(3-6)] by blast
  obtain t2 where t2: "df_group_two df = Inr t2" using df_group_two_ok [OF k(4-6)] by blast
  show ?thesis by (simp add: eda_steps_def o1 o2 c t p t2)
qed

lemma pearson_step_eq:
  assumes "script_columns_ok df" and "c \<in> set pearson_columns"
  shows "pearson_step c df
           = Inr (OPearson (projr (pearsonr (map float_of (column_cells df c)) (map float_of (column_cells df ''price'')))))"
proof -
  note k = script_columns_okD [OF assms(1)]
  have c: "c \<in> set numeric_columns" using assms(2) by (auto simp: pearson_columns_def numeric_columns_def)
  obtain r where r: "pearsonr (map float_of (column_cells df c)) (map float_of (column_cells df ''price'')) = Inr r"
    using pearsonr_ok k(7) by fastforce
  show ?thesis
    using k(2) [OF c] k(6) r
    by (simp add: pearson_step_def get_column_cells [OF k(1) [OF c]] get_column_cells [OF k(5)] series_floats_ok)
qed

lemma pearson_steps_ok:
  assumes "script_columns_ok df"
  shows "\<forall>s\<in>set (map (\<lambda>c. pearson_step c df) pearson_columns). \<exists>out. s = Inr out"
  using pearson_step_eq [OF assms] by auto

lemma group_head_step:
  assumes "script_columns_ok df"
  shows "\<exists>h. bind_r (grouped_test_two df) (\<lambda>g. bind_r (groupby_head 5 g [''drive-wheels''])
                                                    (\<lambda>h. Inr (OFrame h))) = Inr h"
  using group_head_ok [OF script_columns_okD(3,5) [OF assms]] .

lemma anova_steps_ok:
  assumes "script_pre df"
  shows "\<forall>s\<in>set (anova_steps df). \<exists>out. s = Inr out"
proof -
  have ok: "script_columns_ok df" using assms by (simp add: script_pre_def)
  note k = script_columns_okD [OF ok]
  have g: "\<forall>v\<in>set [''fwd'', ''rwd'', ''4wd'']. Str v \<in> set (column_cells df ''drive-wheels'')"
    using assms by (simp add: script_pre_def)
  have an: "\<exists>out. anova_step vs df = Inr out"
    if "2 \<le> length vs" "set vs \<subseteq> {''fwd'', ''rwd'', ''4wd''}" for vs
    using that k(3,5,6) g by (intro anova_step_ok) auto
  obtain h where h: "bind_r (grouped_test_two df) (\<lambda>g. bind_r (groupby_head 5 g [''drive-wheels''])
                                                    (\<lambda>h. Inr (OFrame h))) = Inr h"
    using group_head_step [OF ok] by blast
  obtain a1 where a1: "anova_step [''fwd'', ''rwd'', ''4wd''] df = Inr a1" using an [of "[''fwd'', ''rwd'', ''4wd'']"] by auto
  obtain a2 where a2: "anova_step [''fwd'', ''rwd''] df = Inr a2" using an [of "[''fwd'', ''rwd'']"] by auto
  obtain a3 where a3: "anova_step [''4wd'', ''rwd''] df = Inr a3" using an [of "[''4wd'', ''rwd'']"] by auto
  obtain a4 where a4: "anova_step [''fwd'', ''4wd''] df = Inr a4" using an [of "[''fwd'', ''4wd'']"] by auto
  show ?thesis by (simp add: anova_steps_def h a1 a2 a3 a4)
qed

lemma anova_step_missing:
  assumes "''drive-wheels'' \<in> set (columns df)" and "''price'' \<in> set (columns df)"
    and "\<not> list_ex is_str (column_cells df ''price'')"
    and "\<forall>u\<in>set us. Str u \<in> set (column_cells df ''drive-wheels'')"
    and "Str v \<notin> set (column_cells df ''drive-wheels'')"
  shows "anova_step (us @ v # ws) df = Inl (KeyError v)"
proof -
  let ?k = "the (index_of ''drive-wheels'' (columns df))" and ?p = "the (index_of ''price'' (columns df))"
  have g: "grouped_test_two df
      = Inr \<lparr>columns = [''drive-wheels'', ''price''], rows = map (\<lambda>r. [r ! ?k, r ! ?p]) (rows df)\<rparr>"
    by (rule grouped_test_two_Inr [OF col_index_ok [OF assms(1)] col_index_ok [OF assms(2)]])
  have "map_r (group_price \<lparr>columns = [''drive-wheels'', ''price''], rows = map (\<lambda>r. [r ! ?k, r ! ?p]) (rows df)\<rparr>)
          (us @ v # ws) = Inl (KeyError v)"
    using assms(4,5) no_str_rows [OF assms(3)]
    by (intro map_r_first_Inl) (auto simp: group_price_present group_price_missing column_cells_def)
  then show ?thesis by (simp add: anova_step_def drive_wheel_anova_def anova_test_def g)
qed

lemma script_steps_ok:
  assumes "script_pre df"
  shows "\<forall>s\<in>set (script_steps df). \<exists>out. s = Inr out"
proof -
  have ok: "script_columns_ok df" using assms by (simp add: script_pre_def)
  show ?thesis unfolding script_steps_def set_append ball_Un
    using eda_steps_ok [OF ok [unfolded script_columns_ok_def, THEN conjunct1]] pearson_steps_ok [OF ok]
      anova_steps_ok [OF assms] by blast
qed

subsection \<open>Properties of the run\<close>

text \<open>
  C31. On a frame with the script's columns, numeric columns free of strings, at least
  two rows and all three drive-wheel values, the script runs to the end: no statement
  raises, and it prints all 22 of its outputs (\<^verbatim>\<open>head\<close>, two correlation
  matrices, the counts, the group means, the pivot, the body-style means, the labelled
  heatmap, nine Pearson coefficients, the grouped head and four F statistics).
\<close>

theorem script_runs_to_end:
  assumes "script_pre df"
  shows "\<exists>outs. run (script_steps df) = (outs, None) \<and> length outs = 22"
  using run_all_Inr [OF script_steps_ok [OF assms]] length_script_steps by simp


text \<open>
  C33. The order of the statements decides what is printed before a failure: on a frame
  the script can otherwise run, but with no \<^verbatim>\<open>4wd\<close> row, all 18 outputs up to the
  grouped head of line 132 are printed, and the three-group ANOVA of line 135 raises
  \<^verbatim>\<open>KeyError('4wd')\<close>, so the pairwise test of line 142, which does not need
  \<^verbatim>\<open>4wd\<close>, never runs.
\<close>

theorem script_missing_group:
  assumes "script_columns_ok df"
    and "Str ''fwd'' \<in> set (column_cells df ''drive-wheels'')" and "Str ''rwd'' \<in> set (column_cells df ''drive-wheels'')"
    and "Str ''4wd'' \<notin> set (column_cells df ''drive-wheels'')"
  shows "\<exists>outs. run (script_steps df) = (outs, Some (KeyError ''4wd'')) \<and> length outs = 18"
proof -
  note k = script_columns_okD [OF assms(1)]
  obtain h where h: "bind_r (grouped_test_two df) (\<lambda>g. bind_r (groupby_head 5 g [''drive-wheels''])
                                                    (\<lambda>h. Inr (OFrame h))) = Inr h"
    using group_head_step [OF assms(1)] by blast
  have a1: "anova_step [''fwd'', ''rwd'', ''4wd''] df = Inl (KeyError ''4wd'')"
    using anova_step_missing [OF k(3,5,6), of "[''fwd'', ''rwd'']" "''4wd''" "[]"] assms(2-4) by simp
  let ?pre = "eda_steps df @ map (\<lambda>c. pearson_step c df) pearson_columns"
  have pre: "?pre = map Inr (map projr ?pre)"
    using eda_steps_ok [OF assms(1) [unfolded script_columns_ok_def, THEN conjunct1]] pearson_steps_ok [OF assms(1)]
    by (intro all_Inr_map_projr) auto
  obtain ys where ys: "?pre = map Inr ys" using pre by blast
  have len: "length ys = 17" using arg_cong [OF ys, of length] by simp
  have "script_steps df = map Inr (ys @ [h]) @ Inl (KeyError ''4wd'') # drop 2 (anova_steps df)"
    by (simp add: script_steps_def ys [symmetric] anova_steps_def h a1)
  then have "run (script_steps df) = (ys @ [h], Some (KeyError ''4wd''))"
    using run_first_Inl [of "ys @ [h]" "KeyError ''4wd''" "drop 2 (anova_steps df)"] by (simp del: map_append)
  with len show ?thesis by simp
qed


text \<open>
  C37. On a frame with fewer than two rows (the empty table included) the script still
  prints its first 8 outputs, up to the labelled heatmap of line 92, and then the first
  \<^verbatim>\<open>pearsonr\<close> call (line 99) raises
  \<^verbatim>\<open>ValueError('x and y must have length at least 2.')\<close>.
\<close>

theorem script_too_few_rows:
  assumes "script_frame_ok df" and "length (rows df) < 2"
  shows "\<exists>outs. run (script_steps df) = (outs, Some (ValueError ''x and y must have length at least 2.''))
                \<and> length outs = 8"
proof -
  note k = script_frame_okD [OF assms(1)]
  have wb: "''wheel-base'' \<in> set numeric_columns" by (simp add: numeric_columns_def)
  have "pearson_step ''wheel-base'' df = Inl (ValueError ''x and y must have length at least 2.'')"
    using k(2) [OF wb] k(6) assms(2)
    by (simp add: pearson_step_def get_column_cells [OF k(1) [OF wb]] get_column_cells [OF k(5)]
          series_floats_ok pearsonr_def)
  moreover obtain ys where ys: "eda_steps df = map Inr ys"
    using all_Inr_map_projr [OF eda_steps_ok [OF assms(1)]] by blast
  moreover have "length ys = 8" using arg_cong [OF ys, of length] by simp
  ultimately show ?thesis
    by (simp add: script_steps_def pearson_columns_def run_first_Inl)
qed

subsection \<open>Witnesses\<close>

lemmas script_pre_eval = script_pre_def script_columns_ok_def script_frame_ok_def numeric_columns_def
  column_cells_def column_at_def

theorem script_runs_to_end_witness:
  "\<exists>outs. run (script_steps autos_full) = (outs, None) \<and> length outs = 22"
  by (rule script_runs_to_end) (simp add: script_pre_eval autos_full_def)


theorem script_missing_group_witness:
  "\<exists>outs. run (script_steps autos_2wd) = (outs, Some (KeyError ''4wd'')) \<and> length outs = 18"
  by (rule script_missing_group) (simp_all add: script_pre_eval autos_2wd_def autos_full_def)


theorem script_too_few_rows_witness:
  "\<exists>outs. run (script_steps autos_one_row)
            = (outs, Some (ValueError ''x and y must have length at least 2.'')) \<and> length outs = 8"
  by (rule script_too_few_rows) (simp_all add: script_pre_eval autos_one_row_def autos_full_def)

end
