(* ===== verification/Plots.thy ===== *)
theory Plots
  imports Correlation
begin

text \<open>
  The two seaborn plots of the script whose content is computed from the data:
  \<^item> \<^verbatim>\<open>sns.regplot(x="bore", y="price", data=df)\<close> (line 29): the rows where both
    columns are present (\<^verbatim>\<open>dropna\<close>), scattered, and the least-squares line
    \<^verbatim>\<open>np.linalg.pinv(X).dot(y)\<close> with \<^verbatim>\<open>X = [1, x]\<close>, drawn over
    \<^verbatim>\<open>np.linspace(x.min(), x.max(), 100)\<close>; no line for one point or none;
  \<^item> \<^verbatim>\<open>sns.boxplot(x="drive-wheels", y="price", data=df)\<close> (line 36): one box per
    category of the x column, in seaborn's categorical order, each summarised by
    matplotlib's \<^verbatim>\<open>cbook.boxplot_stats\<close> (quartiles by \<^verbatim>\<open>np.percentile\<close>, whiskers at
    1.5 IQR, fliers beyond them).
  The bootstrap confidence band of regplot (random resampling), colours and the axis
  limits of line 30 are not modelled.
\<close>

section \<open>numpy: percentiles by linear interpolation\<close>

text \<open>
  \<^verbatim>\<open>np.percentile(x, q)\<close> with the default method \<^verbatim>\<open>linear\<close>: on the sorted sample
  \<open>s\<close> of length \<open>n\<close>, the virtual index \<open>h = (n - 1) * q / 100\<close>, the value
  \<open>s[lo] + g * (s[lo + 1] - s[lo])\<close> for \<open>lo = floor h\<close> and \<open>g = h - lo\<close>, with
  \<open>lo + 1\<close> clipped to \<open>n - 1\<close>. The script asks for the whole percentages 25, 50
  and 75, so \<open>q\<close> is a natural number and \<open>lo\<close>, \<open>g\<close> come from \<open>div\<close> and
  \<open>mod\<close>.
\<close>

definition percentile :: "real list \<Rightarrow> nat \<Rightarrow> real" where
  "percentile xs q =
     (let s = sort xs; h = (length xs - 1) * q; lo = h div 100;
          g = real (h mod 100) / 100
      in if Suc lo < length s then s ! lo + g * (s ! Suc lo - s ! lo) else s ! lo)"

section \<open>matplotlib: boxplot_stats\<close>

text \<open>
  One box of \<^verbatim>\<open>matplotlib.cbook.boxplot_stats(X, whis=1.5)\<close> for a non-empty sample
  \<open>x\<close>: mean, quartiles, the notch interval \<open>med \<plusminus> 1.57 * iqr / sqrt(N)\<close>, the
  whiskers (the most extreme values within \<open>1.5 * iqr\<close> of the box, or the quartile
  when there is none beyond it) and the fliers, the values below the low whisker then
  those above the high one, each in sample order. An empty sample gives a box of NaN,
  here \<open>None\<close>.
\<close>

record box_stats =
  bx_mean :: real
  bx_iqr :: real
  bx_cilo :: real
  bx_cihi :: real
  bx_whislo :: real
  bx_whishi :: real
  bx_fliers :: "real list"
  bx_q1 :: real
  bx_med :: real
  bx_q3 :: real

definition whis :: real where
  "whis = 3 / 2"

definition boxplot_stats :: "real list \<Rightarrow> box_stats option" where
  "boxplot_stats x =
     (if x = [] then None
      else
        let q1 = percentile x 25; med = percentile x 50; q3 = percentile x 75;
            iqr = q3 - q1;
            cilo = med - 157 / 100 * iqr / sqrt (real (length x));
            cihi = med + 157 / 100 * iqr / sqrt (real (length x));
            loval = q1 - whis * iqr; hival = q3 + whis * iqr;
            wiskhi = filter (\<lambda>v. v \<le> hival) x;
            whishi = (if wiskhi = [] \<or> Max (set wiskhi) < q3 then q3 else Max (set wiskhi));
            wisklo = filter (\<lambda>v. loval \<le> v) x;
            whislo = (if wisklo = [] \<or> q1 < Min (set wisklo) then q1 else Min (set wisklo));
            fliers = filter (\<lambda>v. v < whislo) x @ filter (\<lambda>v. whishi < v) x
        in Some \<lparr>bx_mean = mean x, bx_iqr = iqr, bx_cilo = cilo, bx_cihi = cihi,
                 bx_whislo = whislo, bx_whishi = whishi, bx_fliers = fliers,
                 bx_q1 = q1, bx_med = med, bx_q3 = q3\<rparr>)"

section \<open>seaborn: boxplot\<close>

text \<open>
  seaborn's \<^verbatim>\<open>categorical_order\<close>: the distinct non-null values of the category
  column in order of first appearance, sorted when the column is numeric. The boxes
  follow this order (their position is the index in it); rows with a null category or
  a null value are dropped, each category keeps its values in row order, and a
  category left without values draws no box.
\<close>

definition categorical_order :: "cell list \<Rightarrow> cell list" where
  "categorical_order col =
     (let vs = unique (filter (\<lambda>c. c \<noteq> NaN) col)
      in if list_all (\<lambda>c. float_of c \<noteq> None) vs
         then sort_key (\<lambda>c. case float_of c of Some r \<Rightarrow> r | None \<Rightarrow> 0) vs else vs)"

definition group_values :: "cell list \<Rightarrow> real option list \<Rightarrow> cell \<Rightarrow> real list" where
  "group_values xs ys c = present (map2 (\<lambda>x y. if x = c then y else None) xs ys)"

definition boxplot_boxes :: "cell list \<Rightarrow> real option list \<Rightarrow> (nat \<times> cell \<times> box_stats) list" where
  "boxplot_boxes xs ys =
     concat (map (\<lambda>(k, c). case boxplot_stats (group_values xs ys c) of
                              None \<Rightarrow> []
                            | Some b \<Rightarrow> [(k, c, b)])
                 (enumerate 0 (categorical_order xs)))"

text \<open>
  A column name that is not in \<open>data\<close> is rejected by seaborn's \<^verbatim>\<open>PlotData\<close> with a
  ValueError naming the variable, \<open>x\<close> before \<open>y\<close>.
\<close>

definition sns_column :: "frame \<Rightarrow> string \<Rightarrow> string \<Rightarrow> cell list result" where
  "sns_column df var v =
     (case get_column df v of
        Inl _ \<Rightarrow> Inl (ValueError (''Could not interpret value `'' @ v @ ''` for `'' @ var @
                 ''`. An entry with this name does not appear in `data`.''))
      | Inr col \<Rightarrow> Inr col)"

definition boxplot :: "frame \<Rightarrow> string \<Rightarrow> string \<Rightarrow> (nat \<times> cell \<times> box_stats) list result" where
  "boxplot df x y =
     bind_r (sns_column df ''x'' x) (\<lambda>xs.
     bind_r (sns_column df ''y'' y) (\<lambda>ys.
     bind_r (series_floats ys) (\<lambda>vs. Inr (boxplot_boxes xs vs))))"

section \<open>seaborn: regplot\<close>

text \<open>
  \<^verbatim>\<open>_RegressionPlotter.fit_fast\<close>: the coefficients \<open>(b0, b1)\<close> of
  \<^verbatim>\<open>np.linalg.pinv(X).dot(y)\<close> for \<open>X = [1, x]\<close>. With at least two points and a
  non-constant \<open>x\<close>, \<open>X\<close> has full column rank and the pseudo-inverse gives the
  least-squares line \<open>b1 = Sxy / Sxx\<close>, \<open>b0 = mean y - b1 * mean x\<close>; for a constant
  \<open>x = c\<close> it gives the least-squares solution of least norm,
  \<open>mean y / (1 + c\<^sup>2) * (1, c)\<close>. With one point or none seaborn sets
  \<open>fit_reg = False\<close> and draws no line (\<open>None\<close>).
\<close>

definition regplot_fit :: "(real \<times> real) list \<Rightarrow> (real \<times> real) option" where
  "regplot_fit ps =
     (if length ps \<le> 1 then None
      else
        let xs = map fst ps; ys = map snd ps; sxx = sumsq_dev xs
        in if sxx = 0
           then (let c = hd xs in Some (mean ys / (1 + c\<^sup>2), c * mean ys / (1 + c\<^sup>2)))
           else (let b1 = comoment ps / sxx in Some (mean ys - b1 * mean xs, b1)))"

text \<open>\<^verbatim>\<open>np.linspace(a, b, n)\<close>: \<open>n\<close> evenly spaced points, the last one exactly \<open>b\<close>.\<close>

definition linspace :: "real \<Rightarrow> real \<Rightarrow> nat \<Rightarrow> real list" where
  "linspace a b n =
     map (\<lambda>k. if Suc k = n then b else a + real k * ((b - a) / real (n - 1))) [0..<n]"

definition regplot_line :: "(real \<times> real) list \<Rightarrow> (real \<times> real) list" where
  "regplot_line ps =
     (case regplot_fit ps of
        None \<Rightarrow> []
      | Some (b0, b1) \<Rightarrow>
          map (\<lambda>g. (g, b0 + b1 * g))
            (linspace (Min (set (map fst ps))) (Max (set (map fst ps))) 100))"

text \<open>
  The whole call: the columns are read with \<^verbatim>\<open>data[x]\<close> (KeyError for a missing one),
  the rows with a NaN in either are dropped, and the plot is the scatter of the
  remaining points and the fitted line.
\<close>

definition regplot :: "frame \<Rightarrow> string \<Rightarrow> string \<Rightarrow> ((real \<times> real) list \<times> (real \<times> real) list) result" where
  "regplot df x y =
     bind_r (get_column df x) (\<lambda>cx.
     bind_r (get_column df y) (\<lambda>cy.
     bind_r (series_floats cx) (\<lambda>xs.
     bind_r (series_floats cy) (\<lambda>ys.
       (let ps = complete_pairs xs ys in Inr (ps, regplot_line ps))))))"

section \<open>Percentiles lie between neighbouring order statistics\<close>

lemma percentile_bracket:
  assumes "xs \<noteq> []" and "q \<le> 100"
  defines "lo \<equiv> (length xs - 1) * q div 100"
  shows "lo < length xs"
    and "sort xs ! lo \<le> percentile xs q"
    and "Suc lo < length xs \<Longrightarrow> percentile xs q \<le> sort xs ! Suc lo"
    and "\<not> Suc lo < length xs \<Longrightarrow> percentile xs q = sort xs ! lo"
proof -
  have "lo \<le> (length xs - 1) * 100 div 100"
    unfolding lo_def using assms(2) by (intro div_le_mono mult_le_mono2)
  moreover have "0 < length xs" using assms(1) by simp
  ultimately show lt: "lo < length xs" by linarith
  define g where "g = real ((length xs - 1) * q mod 100) / 100"
  have g: "0 \<le> g" "g \<le> 1" by (simp_all add: g_def)
  have p: "percentile xs q
      = (if Suc lo < length xs then sort xs ! lo + g * (sort xs ! Suc lo - sort xs ! lo)
         else sort xs ! lo)"
    by (simp add: percentile_def Let_def lo_def g_def)
  show "sort xs ! lo \<le> percentile xs q"
  proof (cases "Suc lo < length xs")
    case True
    then have "sort xs ! lo \<le> sort xs ! Suc lo" by (simp add: sorted_nth_mono)
    with True g show ?thesis by (simp add: p)
  qed (simp add: p)
  show "Suc lo < length xs \<Longrightarrow> percentile xs q \<le> sort xs ! Suc lo"
  proof -
    assume s: "Suc lo < length xs"
    then have "sort xs ! lo \<le> sort xs ! Suc lo" by (simp add: sorted_nth_mono)
    then have "g * (sort xs ! Suc lo - sort xs ! lo) \<le> 1 * (sort xs ! Suc lo - sort xs ! lo)"
      using g by (intro mult_right_mono) simp_all
    with s show ?thesis by (simp add: p)
  qed
  show "\<not> Suc lo < length xs \<Longrightarrow> percentile xs q = sort xs ! lo" by (simp add: p)
qed

lemma percentile_mono:
  assumes "xs \<noteq> []" and "q \<le> q'" and "q' \<le> 100"
  shows "percentile xs q \<le> percentile xs q'"
proof -
  let ?n = "length xs - 1"
  define lo where "lo = ?n * q div 100"
  define lo' where "lo' = ?n * q' div 100"
  have q: "q \<le> 100" using assms by simp
  note b = percentile_bracket [OF assms(1) q, folded lo_def]
  note b' = percentile_bracket [OF assms(1) assms(3), folded lo'_def]
  have h: "?n * q \<le> ?n * q'" using assms(2) by (rule mult_le_mono2)
  then have "lo \<le> lo'" unfolding lo_def lo'_def by (rule div_le_mono)
  then consider "lo < lo'" | "lo = lo'" by linarith
  then show ?thesis
  proof cases
    case 1
    then have s: "Suc lo < length xs" using b'(1) by simp
    have "percentile xs q \<le> sort xs ! Suc lo" by (rule b(3) [OF s])
    also have "\<dots> \<le> sort xs ! lo'" using 1 b'(1) by (simp add: sorted_nth_mono)
    also have "\<dots> \<le> percentile xs q'" by (rule b'(2))
    finally show ?thesis .
  next
    case 2
    show ?thesis
    proof (cases "Suc lo < length xs")
      case True
      have "?n * q mod 100 \<le> ?n * q' mod 100"
        using h 2 unfolding lo_def lo'_def
        by (metis add_le_cancel_left div_mult_mod_eq)
      then have "real (?n * q mod 100) / 100 \<le> real (?n * q' mod 100) / 100" by simp
      moreover have "sort xs ! lo \<le> sort xs ! Suc lo" using True by (simp add: sorted_nth_mono)
      ultimately show ?thesis
        using True 2 unfolding percentile_def Let_def lo_def lo'_def
        by (simp add: mult_right_mono)
    next
      case False
      with 2 show ?thesis using b(4) b'(4) by simp
    qed
  qed
qed

lemma percentile_range:
  assumes "xs \<noteq> []" and "q \<le> 100"
  shows "Min (set xs) \<le> percentile xs q" and "percentile xs q \<le> Max (set xs)"
proof -
  define lo where "lo = (length xs - 1) * q div 100"
  note b = percentile_bracket [OF assms, folded lo_def]
  have mem: "i < length xs \<Longrightarrow> sort xs ! i \<in> set xs" for i
    by (metis length_sort nth_mem set_sort)
  have "Min (set xs) \<le> sort xs ! lo" using mem [OF b(1)] by simp
  then show "Min (set xs) \<le> percentile xs q" using b(2) by linarith
  show "percentile xs q \<le> Max (set xs)"
  proof (cases "Suc lo < length xs")
    case True
    have "sort xs ! Suc lo \<le> Max (set xs)" using mem [OF True] by simp
    with b(3) [OF True] show ?thesis by linarith
  next
    case False
    have "sort xs ! lo \<le> Max (set xs)" using mem [OF b(1)] by simp
    with b(4) [OF False] show ?thesis by simp
  qed
qed

section \<open>The whiskers\<close>

text \<open>
  The high whisker is the largest value within the upper fence \<open>hival\<close>, or \<open>q3\<close> when
  that is smaller; a value lies above the whisker exactly when it lies above the fence.
  The low whisker is the mirror image.
\<close>

lemma whisker_hi:
  fixes x :: "real list"
  assumes "q3 \<le> hival" and "q3 \<le> Max (set x)" and "x \<noteq> []"
  defines "W \<equiv> filter (\<lambda>v. v \<le> hival) x"
  defines "wh \<equiv> (if W = [] \<or> Max (set W) < q3 then q3 else Max (set W))"
  shows "q3 \<le> wh" and "wh \<le> Max (set x)" and "\<And>v. v \<in> set x \<Longrightarrow> wh < v \<longleftrightarrow> hival < v"
proof -
  have sub: "set W \<subseteq> set x" by (auto simp: W_def)
  show "q3 \<le> wh" by (auto simp: wh_def)
  show "wh \<le> Max (set x)"
    using assms(2) Max_mono [OF sub] by (auto simp: wh_def)
  have le: "wh \<le> hival"
  proof (cases "W = [] \<or> Max (set W) < q3")
    case False
    then have "Max (set W) \<in> set W" by simp
    then show ?thesis using False by (simp add: wh_def W_def)
  qed (use assms(1) in \<open>simp add: wh_def\<close>)
  fix v assume v: "v \<in> set x"
  show "wh < v \<longleftrightarrow> hival < v"
  proof
    assume a: "wh < v"
    show "hival < v"
    proof (rule ccontr)
      assume "\<not> hival < v"
      then have vW: "v \<in> set W" using v by (simp add: W_def)
      then have m: "v \<le> Max (set W)" by simp
      show False
      proof (cases "W = [] \<or> Max (set W) < q3")
        case True
        with vW have "Max (set W) < q3" by auto
        moreover have "wh = q3" using True by (simp add: wh_def)
        ultimately show False using m a by linarith
      next
        case False
        then have "wh = Max (set W)" by (simp add: wh_def)
        with m a show False by linarith
      qed
    qed
  next
    assume "hival < v"
    with le show "wh < v" by linarith
  qed
qed

lemma whisker_lo:
  fixes x :: "real list"
  assumes "loval \<le> q1" and "Min (set x) \<le> q1" and "x \<noteq> []"
  defines "W \<equiv> filter (\<lambda>v. loval \<le> v) x"
  defines "wl \<equiv> (if W = [] \<or> q1 < Min (set W) then q1 else Min (set W))"
  shows "wl \<le> q1" and "Min (set x) \<le> wl" and "\<And>v. v \<in> set x \<Longrightarrow> v < wl \<longleftrightarrow> v < loval"
proof -
  have sub: "set W \<subseteq> set x" by (auto simp: W_def)
  show "wl \<le> q1" by (auto simp: wl_def)
  show "Min (set x) \<le> wl"
    using assms(2) Min_antimono [OF sub] by (auto simp: wl_def)
  have ge: "loval \<le> wl"
  proof (cases "W = [] \<or> q1 < Min (set W)")
    case False
    then have "Min (set W) \<in> set W" by simp
    then show ?thesis using False by (simp add: wl_def W_def)
  qed (use assms(1) in \<open>simp add: wl_def\<close>)
  fix v assume v: "v \<in> set x"
  show "v < wl \<longleftrightarrow> v < loval"
  proof
    assume a: "v < wl"
    show "v < loval"
    proof (rule ccontr)
      assume "\<not> v < loval"
      then have vW: "v \<in> set W" using v by (simp add: W_def)
      then have m: "Min (set W) \<le> v" by simp
      show False
      proof (cases "W = [] \<or> q1 < Min (set W)")
        case True
        with vW have "q1 < Min (set W)" by auto
        moreover have "wl = q1" using True by (simp add: wl_def)
        ultimately show False using m a by linarith
      next
        case False
        then have "wl = Min (set W)" by (simp add: wl_def)
        with m a show False by linarith
      qed
    qed
  next
    assume "v < loval"
    with ge show "v < wl" by linarith
  qed
qed

section \<open>Properties of the box statistics\<close>

lemma boxplot_stats_order_ref:
  assumes "x \<noteq> []"
  shows "\<exists>b. boxplot_stats x = Some b
           \<and> Min (set x) \<le> bx_whislo b \<and> bx_whislo b \<le> bx_q1 b \<and> bx_q1 b \<le> bx_med b
           \<and> bx_med b \<le> bx_q3 b \<and> bx_q3 b \<le> bx_whishi b \<and> bx_whishi b \<le> Max (set x)
           \<and> bx_fliers b = filter (\<lambda>v. v < bx_q1 b - whis * bx_iqr b) x
                           @ filter (\<lambda>v. bx_q3 b + whis * bx_iqr b < v) x"
proof -
  define q1 where "q1 = percentile x 25"
  define med where "med = percentile x 50"
  define q3 where "q3 = percentile x 75"
  define loval where "loval = q1 - whis * (q3 - q1)"
  define hival where "hival = q3 + whis * (q3 - q1)"
  define Wh where "Wh = filter (\<lambda>v. v \<le> hival) x"
  define Wl where "Wl = filter (\<lambda>v. loval \<le> v) x"
  define wh where "wh = (if Wh = [] \<or> Max (set Wh) < q3 then q3 else Max (set Wh))"
  define wl where "wl = (if Wl = [] \<or> q1 < Min (set Wl) then q1 else Min (set Wl))"
  define b where "b = \<lparr>bx_mean = mean x, bx_iqr = q3 - q1,
      bx_cilo = med - 157 / 100 * (q3 - q1) / sqrt (real (length x)),
      bx_cihi = med + 157 / 100 * (q3 - q1) / sqrt (real (length x)),
      bx_whislo = wl, bx_whishi = wh,
      bx_fliers = filter (\<lambda>v. v < wl) x @ filter (\<lambda>v. wh < v) x,
      bx_q1 = q1, bx_med = med, bx_q3 = q3\<rparr>"
  have eq: "boxplot_stats x = Some b"
    using assms unfolding boxplot_stats_def Let_def b_def wl_def wh_def Wl_def Wh_def
      loval_def hival_def q1_def med_def q3_def by simp
  have m1: "q1 \<le> med" unfolding q1_def med_def by (rule percentile_mono [OF assms]) simp_all
  have m2: "med \<le> q3" unfolding med_def q3_def by (rule percentile_mono [OF assms]) simp_all
  have w: "0 \<le> whis * (q3 - q1)" using m1 m2 by (simp add: whis_def)
  have lq: "loval \<le> q1" and hq: "q3 \<le> hival" using w by (simp_all add: loval_def hival_def)
  have r1: "Min (set x) \<le> q1" unfolding q1_def by (rule percentile_range(1) [OF assms]) simp
  have r3: "q3 \<le> Max (set x)" unfolding q3_def by (rule percentile_range(2) [OF assms]) simp
  note hi = whisker_hi [OF hq r3 assms, folded Wh_def, folded wh_def]
  note lo = whisker_lo [OF lq r1 assms, folded Wl_def, folded wl_def]
  have "filter (\<lambda>v. v < wl) x = filter (\<lambda>v. v < loval) x"
    by (rule filter_cong) (simp_all add: lo(3))
  moreover have "filter (\<lambda>v. wh < v) x = filter (\<lambda>v. hival < v) x"
    by (rule filter_cong) (simp_all add: hi(3))
  ultimately have fl: "bx_fliers b = filter (\<lambda>v. v < bx_q1 b - whis * bx_iqr b) x
                           @ filter (\<lambda>v. bx_q3 b + whis * bx_iqr b < v) x"
    by (simp add: b_def loval_def hival_def)
  show ?thesis
    using eq fl lo(1,2) hi(1,2) m1 m2 by (auto simp: b_def)
qed

text \<open>
  C38. Every box matplotlib computes for a non-empty sample (line 36) is ordered,
  from the data's minimum up through low whisker, first quartile, median, third
  quartile and high whisker to the data's maximum, and its fliers are exactly the
  values outside the Tukey fences \<open>q1 - 1.5 iqr\<close> and \<open>q3 + 1.5 iqr\<close>: the low ones,
  then the high ones, each in sample order.
\<close>

theorem boxplot_stats_order:
  assumes "x \<noteq> []"
  shows "\<exists>b. boxplot_stats x = Some b
           \<and> Min (set x) \<le> bx_whislo b \<and> bx_whislo b \<le> bx_q1 b \<and> bx_q1 b \<le> bx_med b
           \<and> bx_med b \<le> bx_q3 b \<and> bx_q3 b \<le> bx_whishi b \<and> bx_whishi b \<le> Max (set x)
           \<and> bx_fliers b = filter (\<lambda>v. v < bx_q1 b - whis * bx_iqr b) x
                           @ filter (\<lambda>v. bx_q3 b + whis * bx_iqr b < v) x"
  using assms by (rule boxplot_stats_order_ref)

section \<open>The regression line and the correlation coefficient\<close>

lemma sumsq_dev_short: "length xs \<le> 1 \<Longrightarrow> sumsq_dev xs = 0"
  by (cases xs) (auto simp: sumsq_dev_def mean_def)

lemma regplot_fit_ls:
  assumes "sumsq_dev (map fst ps) \<noteq> 0"
  shows "regplot_fit ps = Some (mean (map snd ps) - comoment ps / sumsq_dev (map fst ps) * mean (map fst ps),
                                comoment ps / sumsq_dev (map fst ps))"
proof -
  have "\<not> length ps \<le> 1" using assms sumsq_dev_short [of "map fst ps"] by auto
  with assms show ?thesis by (simp add: regplot_fit_def Let_def)
qed

text \<open>
  C40. Where pandas prints a correlation coefficient \<open>r\<close> for bore and price
  (line 26), the regression line seaborn draws over the same complete rows (line 29)
  has slope \<open>r * sqrt (Syy / Sxx)\<close>, so it rises exactly when \<open>r > 0\<close>, and it
  passes through the point of means.
\<close>

theorem regplot_slope_corr:
  assumes fit: "regplot_fit (complete_pairs xs ys) = Some (b0, b1)"
      and r: "nancorr_pair xs ys = Some r"
  shows "b1 = r * sqrt (sumsq_dev (map snd (complete_pairs xs ys))
                        / sumsq_dev (map fst (complete_pairs xs ys)))
         \<and> b0 + b1 * mean (map fst (complete_pairs xs ys)) = mean (map snd (complete_pairs xs ys))"
proof -
  define ps where "ps = complete_pairs xs ys"
  define sxx where "sxx = sumsq_dev (map fst ps)"
  define syy where "syy = sumsq_dev (map snd ps)"
  have pr: "pearson_ref ps = Some r" using r by (simp add: ps_def nancorr_pair_pearson_ref)
  then have d: "sqrt (sxx * syy) \<noteq> 0" and rv: "r = comoment ps / sqrt (sxx * syy)"
    by (auto simp: pearson_ref_def Let_def sxx_def syy_def split: if_splits)
  then have pos: "0 < sxx" "0 < syy"
    using sumsq_dev_nonneg [of "map fst ps"] sumsq_dev_nonneg [of "map snd ps"]
    by (auto simp: sxx_def syy_def order_le_less)
  have "regplot_fit ps = Some (mean (map snd ps) - comoment ps / sxx * mean (map fst ps),
                               comoment ps / sxx)"
    using pos by (simp add: regplot_fit_ls sxx_def)
  with fit have b: "b1 = comoment ps / sxx" "b0 = mean (map snd ps) - b1 * mean (map fst ps)"
    by (simp_all add: ps_def)
  have "r * sqrt (syy / sxx) = comoment ps / (sqrt sxx * sqrt syy) * (sqrt syy / sqrt sxx)"
    by (simp add: rv real_sqrt_mult real_sqrt_divide)
  also have "\<dots> = comoment ps / (sqrt sxx)\<^sup>2"
    using pos by (simp add: power2_eq_square field_simps)
  also have "\<dots> = b1" using pos by (simp add: b)
  finally show ?thesis using b by (simp add: ps_def sxx_def syy_def)
qed

section \<open>The plots of a frame\<close>

lemma get_column_absent: "c \<notin> set (columns df) \<Longrightarrow> get_column df c = Inl (KeyError c)"
  by (simp add: get_column_def col_index_missing)

lemma boxplot_missing_x:
  "x \<notin> set (columns df) \<Longrightarrow>
   boxplot df x y = Inl (ValueError (''Could not interpret value `'' @ x @
     ''` for `x`. An entry with this name does not appear in `data`.''))"
  by (simp add: boxplot_def sns_column_def get_column_absent)

lemma boxplot_ok:
  assumes "get_column df x = Inr cx" and "get_column df y = Inr cy" and "\<not> list_ex is_str cy"
  shows "boxplot df x y = Inr (boxplot_boxes cx (map float_of cy))"
  using assms by (simp add: boxplot_def sns_column_def series_floats_ok)

lemma regplot_ok:
  assumes "get_column df x = Inr cx" and "get_column df y = Inr cy"
      and "\<not> list_ex is_str cx" and "\<not> list_ex is_str cy"
  shows "regplot df x y
           = Inr (complete_pairs (map float_of cx) (map float_of cy),
                  regplot_line (complete_pairs (map float_of cx) (map float_of cy)))"
  using assms by (simp add: regplot_def series_floats_ok Let_def)

text \<open>Every box drawn summarises the non-empty sample of its category.\<close>

lemma boxplot_boxes_stats:
  assumes "(k, c, b) \<in> set (boxplot_boxes xs ys)"
  shows "group_values xs ys c \<noteq> [] \<and> boxplot_stats (group_values xs ys c) = Some b
         \<and> c \<in> set (categorical_order xs)"
proof -
  obtain k' c' where kc: "(k', c') \<in> set (enumerate 0 (categorical_order xs))"
    and b: "(k, c, b) \<in> set (case boxplot_stats (group_values xs ys c') of None \<Rightarrow> [] | Some b \<Rightarrow> [(k', c', b)])"
    using assms by (auto simp: boxplot_boxes_def)
  then have "c' = c" and st: "boxplot_stats (group_values xs ys c) = Some b"
    by (auto split: option.splits)
  moreover have "c' \<in> set (categorical_order xs)" using kc by (auto simp: in_set_enumerate_eq)
  moreover have "group_values xs ys c \<noteq> []" using st by (auto simp: boxplot_stats_def)
  ultimately show ?thesis by simp
qed

section \<open>Witnesses\<close>

theorem boxplot_stats_order_witness:
  "\<exists>b. boxplot_stats [13950, 6295, 13495] = Some b
     \<and> Min (set [13950, 6295, 13495]) \<le> bx_whislo b \<and> bx_whislo b \<le> bx_q1 b \<and> bx_q1 b \<le> bx_med b
     \<and> bx_med b \<le> bx_q3 b \<and> bx_q3 b \<le> bx_whishi b \<and> bx_whishi b \<le> Max (set [13950, 6295, 13495])
     \<and> bx_fliers b = filter (\<lambda>v. v < bx_q1 b - whis * bx_iqr b) [13950, 6295, 13495]
                     @ filter (\<lambda>v. bx_q3 b + whis * bx_iqr b < v) [13950, 6295, 13495]"
  by (rule boxplot_stats_order) simp

theorem regplot_slope_corr_witness:
  "regplot_fit (complete_pairs [Some 1, None, Some 2, Some 3] [Some 1, Some 7, Some 3, Some 5]) = Some (-1, 2)
   \<and> (\<exists>r. nancorr_pair [Some 1, None, Some 2, Some 3] [Some 1, Some 7, Some 3, Some 5] = Some r
          \<and> 2 = r * sqrt (8 / 2))"
proof -
  have f: "regplot_fit (complete_pairs [Some 1, None, Some 2, Some 3] [Some 1, Some 7, Some 3, Some 5])
             = Some (-1, 2)"
    by (simp add: regplot_fit_def sumsq_dev_def mean_def comoment_def Let_def)
  obtain r where n: "nancorr_pair [Some 1, None, Some 2, Some (3::real)] [Some 1, Some 7, Some 3, Some 5] = Some r"
    by (simp add: nancorr_pair_pearson_ref pearson_ref_def sumsq_dev_def comoment_def mean_def Let_def)
  have "2 = r * sqrt (8 / 2)"
    using regplot_slope_corr [OF f n] by (simp add: sumsq_dev_def mean_def)
  with f n show ?thesis by blast
qed

end
