(* ===== verification/Loading.thy ===== *)
theory Loading
  imports Frame "HOL-Library.While_Combinator"
begin

text \<open>
  The part of \<^verbatim>\<open>pd.read_csv(path_name)\<close> (line 11 of \<^verbatim>\<open>main.py\<close>) that fixes the
  column names: pandas renames repeated header names with
  \<^verbatim>\<open>pandas.io.common.dedup_names\<close>, appending \<^verbatim>\<open>.1\<close>, \<^verbatim>\<open>.2\<close>, ... to later
  occurrences. Its inner \<^verbatim>\<open>while cur_count > 0\<close> loop is kept as a loop
  (\<open>while_option\<close>); it stops because every round makes the name longer and only the
  finitely many names already used have a positive count. The resulting names are
  distinct, which is the first half of the well-formedness \<open>wf_frame\<close> every other
  component assumes of the loaded table.
\<close>

section \<open>dedup_names\<close>

text \<open>\<^verbatim>\<open>f"{col}.{cur_count}"\<close>: the count in decimal.\<close>

fun nat_str :: "nat \<Rightarrow> string" where
  "nat_str n =
     (if n < 10 then [''0123456789'' ! n]
      else nat_str (n div 10) @ [''0123456789'' ! (n mod 10)])"

declare nat_str.simps [simp del]

text \<open>
  The \<^verbatim>\<open>defaultdict(int)\<close> of counts is a total function into \<open>nat\<close>, 0 where no key
  was set. One round of the \<^verbatim>\<open>while\<close> body, on the state \<open>(col, cur_count, counts)\<close>:
  \<^verbatim>\<open>counts[col] = cur_count + 1; col = f"{col}.{cur_count}"; cur_count = counts[col]\<close>.
\<close>

type_synonym counts = "string \<Rightarrow> nat"

definition dedup_body :: "string \<times> nat \<times> counts \<Rightarrow> string \<times> nat \<times> counts" where
  "dedup_body s =
     (case s of (col, cur, counts) \<Rightarrow>
        let counts' = counts(col := cur + 1); col' = col @ ''.'' @ nat_str cur
        in (col', counts' col', counts'))"

text \<open>
  One name of the header: \<^verbatim>\<open>cur_count = counts[col]\<close>, the loop, then
  \<^verbatim>\<open>names[i] = col; counts[col] = cur_count + 1\<close>.
\<close>

definition dedup_one :: "counts \<Rightarrow> string \<Rightarrow> (string \<times> counts) option" where
  "dedup_one counts col =
     map_option (\<lambda>(col', cur, counts'). (col', counts'(col' := cur + 1)))
       (while_option (\<lambda>(_, cur, _). 0 < cur) dedup_body (col, counts col, counts))"

fun dedup_loop :: "counts \<Rightarrow> string list \<Rightarrow> string list option" where
  "dedup_loop counts [] = Some []"
| "dedup_loop counts (col # cols) =
     (case dedup_one counts col of
        None \<Rightarrow> None
      | Some (col', counts') \<Rightarrow> map_option (Cons col') (dedup_loop counts' cols))"

definition dedup_names :: "string list \<Rightarrow> string list option" where
  "dedup_names names = dedup_loop (\<lambda>_. 0) names"

section \<open>Evaluating the loop\<close>

text \<open>The loop unfolded once, guarded, so that the simplifier decides the guard first.\<close>

lemma dedup_while_stop:
  "while_option (\<lambda>(_, cur, _). 0 < cur) dedup_body (col, 0, cs) = Some (col, 0, cs)"
  by (simp add: while_option_unfold [of _ _ "(col, 0, cs)"])

lemma dedup_while_step:
  "0 < cur \<Longrightarrow> while_option (\<lambda>(_, cur, _). 0 < cur) dedup_body (col, cur, cs)
     = while_option (\<lambda>(_, cur, _). 0 < cur) dedup_body
         (col @ ''.'' @ nat_str cur, (cs(col := cur + 1)) (col @ ''.'' @ nat_str cur), cs(col := cur + 1))"
  by (simp add: while_option_unfold [of _ _ "(col, cur, cs)"] dedup_body_def Let_def)

lemma nat_str_digit: "n < 10 \<Longrightarrow> nat_str n = [''0123456789'' ! n]"
  by (simp add: nat_str.simps)

lemmas dedup_eval = dedup_names_def dedup_one_def dedup_while_stop dedup_while_step nat_str_digit

section \<open>The inner loop returns\<close>

text \<open>
  The set of names with a positive count, the names already given out, stays fixed
  during the loop; the loop runs only while \<open>col\<close> is one of them, and \<open>col\<close> grows.
\<close>

definition used :: "counts \<Rightarrow> string set" where
  "used counts = {k. 0 < counts k}"

definition dedup_inv :: "string set \<Rightarrow> string \<times> nat \<times> counts \<Rightarrow> bool" where
  "dedup_inv S s = (case s of (col, cur, counts) \<Rightarrow> cur = counts col \<and> used counts = S)"

lemma dedup_body_inv:
  assumes "dedup_inv S s" and "(\<lambda>(_, cur, _). 0 < cur) s"
  shows "dedup_inv S (dedup_body s)"
proof -
  obtain col cur counts where s: "s = (col, cur, counts)" by (cases s)
  with assms have "cur = counts col" "used counts = S" "0 < cur" by (auto simp: dedup_inv_def)
  then have "used (counts(col := cur + 1)) = S" by (auto simp: used_def)
  then show ?thesis by (simp add: s dedup_body_def dedup_inv_def Let_def)
qed

lemma dedup_body_longer:
  "length (fst (dedup_body s)) > length (fst s)"
  by (cases s) (simp add: dedup_body_def Let_def)

lemma dedup_one_returns:
  assumes "finite (used counts)"
  shows "\<exists>r. dedup_one counts col = Some r"
proof -
  let ?S = "used counts"
  let ?f = "\<lambda>s::string \<times> nat \<times> counts. Suc (Max (length ` ?S)) - length (fst s)"
  have "\<exists>t. while_option (\<lambda>(_, cur, _). 0 < cur) dedup_body (col, counts col, counts) = Some t"
  proof (rule measure_while_option_Some [where P = "dedup_inv ?S" and f = ?f])
    fix s assume inv: "dedup_inv ?S s" and b: "(\<lambda>(_, cur, _). 0 < cur) s"
    obtain c cur cs where s: "s = (c, cur, cs)" by (cases s)
    with inv b have "c \<in> ?S" by (auto simp: dedup_inv_def used_def)
    then have "length c \<le> Max (length ` ?S)" using assms by simp
    moreover have "length c < length (fst (dedup_body s))"
      using dedup_body_longer [of s] by (simp add: s)
    ultimately have "?f (dedup_body s) < ?f s" by (simp add: s)
    with dedup_body_inv [OF inv b] show "dedup_inv ?S (dedup_body s) \<and> ?f (dedup_body s) < ?f s"
      by blast
  qed (simp add: dedup_inv_def)
  then show ?thesis by (auto simp: dedup_one_def)
qed

section \<open>The name it returns is fresh\<close>

lemma dedup_one_fresh:
  assumes "dedup_one counts col = Some (col', counts')"
  shows "col' \<notin> used counts" and "used counts' = insert col' (used counts)"
proof -
  obtain cur cs where w: "while_option (\<lambda>(_, cur, _). 0 < cur) dedup_body (col, counts col, counts)
                          = Some (col', cur, cs)"
    and c': "counts' = cs(col' := cur + 1)"
    using assms by (auto simp: dedup_one_def)
  have inv: "dedup_inv (used counts) (col', cur, cs)"
  proof (rule while_option_rule [where P = "dedup_inv (used counts)", OF _ w])
    show "\<And>s. dedup_inv (used counts) s \<Longrightarrow> (\<lambda>(_, cur, _). 0 < cur) s
            \<Longrightarrow> dedup_inv (used counts) (dedup_body s)"
      by (rule dedup_body_inv)
  qed (simp add: dedup_inv_def)
  have "\<not> 0 < cur" using while_option_stop [OF w] by simp
  with inv have z: "cs col' = 0" and u: "used cs = used counts" by (auto simp: dedup_inv_def)
  from z have "col' \<notin> used cs" by (simp add: used_def)
  with u show "col' \<notin> used counts" by simp
  have "used counts' = insert col' (used cs)" by (auto simp: c' used_def)
  with u show "used counts' = insert col' (used counts)" by simp
qed

lemma dedup_one_unused:
  "counts col = 0 \<Longrightarrow> dedup_one counts col = Some (col, counts(col := 1))"
  by (simp add: dedup_one_def while_option_unfold [of _ _ "(col, 0, counts)"])

section \<open>The whole header\<close>

lemma dedup_loop_returns:
  assumes "finite (used counts)"
  shows "\<exists>ns. dedup_loop counts cols = Some ns \<and> distinct ns \<and> set ns \<inter> used counts = {}
              \<and> length ns = length cols"
  using assms
proof (induction cols arbitrary: counts)
  case Nil
  then show ?case by simp
next
  case (Cons col cols)
  obtain c' cs' where one: "dedup_one counts col = Some (c', cs')"
    using dedup_one_returns [OF Cons.prems, of col] by auto
  note fr = dedup_one_fresh [OF one]
  have "finite (used cs')" using Cons.prems fr(2) by simp
  then obtain ns where ns: "dedup_loop cs' cols = Some ns" "distinct ns"
      "set ns \<inter> used cs' = {}" "length ns = length cols"
    using Cons.IH by blast
  have "c' \<notin> set ns" and "set ns \<inter> used counts = {}" using ns(3) fr(2) by auto
  with ns fr(1) show ?case by (simp add: one)
qed

lemma dedup_loop_distinct_id:
  "distinct cols \<Longrightarrow> set cols \<inter> used counts = {} \<Longrightarrow> dedup_loop counts cols = Some cols"
proof (induction cols arbitrary: counts)
  case (Cons col cols)
  then have "counts col = 0" by (auto simp: used_def)
  then have one: "dedup_one counts col = Some (col, counts(col := 1))" by (rule dedup_one_unused)
  have "set cols \<inter> used (counts(col := 1)) = {}" using Cons.prems by (auto simp: used_def)
  with Cons.IH Cons.prems have "dedup_loop (counts(col := 1)) cols = Some cols" by simp
  with one show ?case by simp
qed simp

lemma used_empty [simp]: "used (\<lambda>_. 0) = {}"
  by (simp add: used_def)

lemma dedup_names_distinct_id: "distinct names \<Longrightarrow> dedup_names names = Some names"
  by (simp add: dedup_names_def dedup_loop_distinct_id)

text \<open>A header renamed by \<open>dedup_names\<close> and rows of its length make a well-formed frame.\<close>

lemma dedup_header_wf:
  assumes "dedup_names names = Some ns" and "list_all (\<lambda>r. length r = length names) rs"
  shows "wf_frame \<lparr>columns = ns, rows = rs\<rparr>"
proof -
  obtain ns' where "dedup_names names = Some ns'" "distinct ns'" "length ns' = length names"
    using dedup_loop_returns [of "\<lambda>_. 0" names] by (auto simp: dedup_names_def)
  with assms show ?thesis by (simp add: wf_frame_def)
qed

text \<open>
  C39. \<open>dedup_names\<close> returns on every header, although its inner loop has no bound
  written in the code: the names it returns are pairwise distinct and one per header
  name.
\<close>

theorem dedup_names_total:
  "\<exists>ns. dedup_names names = Some ns \<and> distinct ns \<and> length ns = length names"
  using dedup_loop_returns [of "\<lambda>_. 0" names] by (auto simp: dedup_names_def)

text \<open>The example of the docstring of \<^verbatim>\<open>dedup_names\<close>, and a renamed name that collides.\<close>

lemma dedup_names_docstring:
  "dedup_names [''x'', ''y'', ''x'', ''x''] = Some [''x'', ''y'', ''x.1'', ''x.2'']"
  by (simp add: dedup_eval)

lemma dedup_names_collision:
  "dedup_names [''a'', ''a.1'', ''a''] = Some [''a'', ''a.1'', ''a.1.1'']"
  by (simp add: dedup_eval)

end
