(* ===== verification/Colour.thy ===== *)
theory Colour
  imports Heatmap
begin

text \<open>
  The colours of the two pcolor heatmaps of the pivot:
  \<^verbatim>\<open>plt.pcolor(df_test_one_pivot, cmap="RdBu")\<close> with \<^verbatim>\<open>plt.colorbar()\<close> (lines
  72--73), and \<^verbatim>\<open>axis.pcolor(...)\<close> with \<^verbatim>\<open>figure.colorbar(image)\<close> (lines 78 and
  91). matplotlib converts the table to a float array with its NaN entries masked
  (\<^verbatim>\<open>cbook.safe_masked_invalid\<close>). The image's \<^verbatim>\<open>Normalize\<close> takes its limits from
  the smallest and largest unmasked value (\<^verbatim>\<open>autoscale_None\<close>) and maps a value
  \<open>v\<close> to \<open>(v - vmin) / (vmax - vmin)\<close>, or to 0 when the two limits are equal. The
  colormap then reads the entry \<open>int(x * N)\<close> of its lookup table of \<open>N = 256\<close>
  colours, with \<open>x = 1\<close> sent to the last entry; a masked value gets the "bad" colour.
  The colour bar shows the range \<open>[vmin, vmax]\<close>. The RGBA values of the RdBu table
  are not modelled, only which entry each cell uses.
\<close>

section \<open>Definitions\<close>

text \<open>\<^verbatim>\<open>np.asarray(table)\<close> and the masking of NaN: each row as floats, \<open>None\<close> masked.\<close>

definition pcolor_array :: "pivot_table \<Rightarrow> real option list list result" where
  "pcolor_array p = map_r series_floats (pvalues p)"

text \<open>\<^verbatim>\<open>Normalize.autoscale_None\<close>: the limits are the least and greatest unmasked value.\<close>

definition autoscale :: "real option list list \<Rightarrow> (real \<times> real) option" where
  "autoscale a =
     (let vs = concat (map present a)
      in if vs = [] then None else Some (Min (set vs), Max (set vs)))"

text \<open>\<^verbatim>\<open>Normalize.__call__\<close> for one value, with its check of the limits.\<close>

definition normalize :: "real \<times> real \<Rightarrow> real \<Rightarrow> real result" where
  "normalize lims v =
     (case lims of (vmin, vmax) \<Rightarrow>
        if vmin = vmax then Inr 0
        else if vmax < vmin then Inl (ValueError ''minvalue must be less than or equal to maxvalue'')
        else Inr ((v - vmin) / (vmax - vmin)))"

definition cmap_N :: nat where
  "cmap_N = 256"

text \<open>
  The entry of the lookup table \<^verbatim>\<open>Colormap.__call__\<close> reads: \<open>xa = x * N\<close>, \<open>N\<close>
  itself moved to \<open>N - 1\<close>, then the under, over and bad entries for values below 0, at
  or above \<open>N\<close> and masked, and otherwise the integer part.
\<close>

datatype lut_index = LutIdx nat | LutUnder | LutOver | LutBad

definition cmap_lookup :: "real option \<Rightarrow> lut_index" where
  "cmap_lookup x =
     (case x of
        None \<Rightarrow> LutBad
      | Some v \<Rightarrow>
          let xa = v * real cmap_N;
              xa' = (if xa = real cmap_N then real cmap_N - 1 else xa)
          in if xa' < 0 then LutUnder
             else if real cmap_N \<le> xa' then LutOver
             else LutIdx (nat \<lfloor>xa'\<rfloor>))"

text \<open>
  The colour of every cell of the image. With no unmasked value there is nothing to
  scale and every cell is drawn in the bad colour.
\<close>

definition pcolor_colours :: "real option list list \<Rightarrow> lut_index list list result" where
  "pcolor_colours a =
     (case autoscale a of
        None \<Rightarrow> Inr (map (map (\<lambda>_. LutBad)) a)
      | Some lims \<Rightarrow>
          map_r (map_r (\<lambda>v. case v of
                              None \<Rightarrow> Inr LutBad
                            | Some x \<Rightarrow> bind_r (normalize lims x) (\<lambda>y. Inr (cmap_lookup (Some y))))) a)"

definition pcolor :: "pivot_table \<Rightarrow> lut_index list list result" where
  "pcolor p = bind_r (pcolor_array p) pcolor_colours"

text \<open>What a cell may be drawn with: the bad colour when masked, an entry of the table otherwise.\<close>

definition lut_ok :: "real option \<Rightarrow> lut_index \<Rightarrow> bool" where
  "lut_ok v l = (case v of None \<Rightarrow> l = LutBad | Some _ \<Rightarrow> (\<exists>k. l = LutIdx k \<and> k < cmap_N))"

text \<open>The range the colour bar shows.\<close>

definition colorbar_range :: "pivot_table \<Rightarrow> (real \<times> real) option result" where
  "colorbar_range p = bind_r (pcolor_array p) (\<lambda>a. Inr (autoscale a))"

section \<open>Lemmas\<close>

lemma autoscale_Some:
  assumes "autoscale a = Some (lo, hi)"
  shows "lo \<in> set (concat (map present a))" and "hi \<in> set (concat (map present a))"
    and "\<And>v. v \<in> set (concat (map present a)) \<Longrightarrow> lo \<le> v \<and> v \<le> hi"
proof -
  let ?vs = "concat (map present a)"
  have ne: "?vs \<noteq> []" and lo: "lo = Min (set ?vs)" and hi: "hi = Max (set ?vs)"
    using assms by (auto simp: autoscale_def Let_def split: if_splits)
  have fin: "finite (set ?vs)" and ne': "set ?vs \<noteq> {}" using ne by simp_all
  show "lo \<in> set ?vs" unfolding lo by (rule Min_in [OF fin ne'])
  show "hi \<in> set ?vs" unfolding hi by (rule Max_in [OF fin ne'])
  show "lo \<le> v \<and> v \<le> hi" if "v \<in> set ?vs" for v using that by (simp add: lo hi)
qed

lemma autoscale_None: "autoscale a = None \<Longrightarrow> \<forall>row\<in>set a. \<forall>v\<in>set row. v = None"
  by (auto simp: autoscale_def Let_def present_Nil_iff split: if_splits)

lemma normalize_unit:
  assumes "lo \<le> v" and "v \<le> hi"
  shows "\<exists>y. normalize (lo, hi) v = Inr y \<and> 0 \<le> y \<and> y \<le> 1"
proof (cases "lo = hi")
  case True
  then show ?thesis by (simp add: normalize_def)
next
  case False
  with assms have lt: "lo < hi" by simp
  then have "0 \<le> (v - lo) / (hi - lo)" and "(v - lo) / (hi - lo) \<le> 1"
    using assms by (simp_all add: divide_le_eq_1)
  with False lt show ?thesis by (simp add: normalize_def)
qed

lemma normalize_ends:
  assumes "lo < hi"
  shows "normalize (lo, hi) lo = Inr 0" and "normalize (lo, hi) hi = Inr 1"
  using assms by (simp_all add: normalize_def)

lemma cmap_lookup_unit:
  assumes "0 \<le> y" and "y \<le> 1"
  shows "\<exists>k. cmap_lookup (Some y) = LutIdx k \<and> k < cmap_N"
proof -
  define xa where "xa = y * real cmap_N"
  define xa' where "xa' = (if xa = real cmap_N then real cmap_N - 1 else xa)"
  have "0 \<le> xa" and "xa \<le> real cmap_N" using assms by (simp_all add: xa_def cmap_N_def)
  then have a: "0 \<le> xa'" and b: "xa' < real cmap_N" by (auto simp: xa'_def cmap_N_def)
  then have "\<lfloor>xa'\<rfloor> < int cmap_N" by (simp add: floor_less_iff)
  moreover have "0 \<le> \<lfloor>xa'\<rfloor>" using a by simp
  ultimately have "nat \<lfloor>xa'\<rfloor> < cmap_N" by (simp add: nat_less_iff)
  moreover have "cmap_lookup (Some y)
      = (if xa' < 0 then LutUnder else if real cmap_N \<le> xa' then LutOver else LutIdx (nat \<lfloor>xa'\<rfloor>))"
    unfolding cmap_lookup_def Let_def xa'_def xa_def by simp
  then have "cmap_lookup (Some y) = LutIdx (nat \<lfloor>xa'\<rfloor>)" using a b by simp
  ultimately show ?thesis by blast
qed

lemma cmap_lookup_ends: "cmap_lookup (Some 0) = LutIdx 0" "cmap_lookup (Some 1) = LutIdx 255"
  by (simp_all add: cmap_lookup_def cmap_N_def)

text \<open>
  Drawing the image never raises: every masked cell gets the bad colour and every other
  cell an entry of the lookup table.
\<close>

lemma pcolor_colours_ok:
  "\<exists>c. pcolor_colours a = Inr c \<and> list_all2 (list_all2 lut_ok) a c"
proof (cases "autoscale a")
  case None
  then have "\<forall>row\<in>set a. \<forall>v\<in>set row. v = None" by (rule autoscale_None)
  then have "\<forall>row\<in>set a. \<forall>v\<in>set row. lut_ok v LutBad"
    unfolding lut_ok_def by (metis option.simps(4))
  then have "list_all2 (list_all2 lut_ok) a (map (map (\<lambda>_. LutBad)) a)"
    by (simp add: list_all2_map2 list_all2_same)
  with None show ?thesis by (simp add: pcolor_colours_def)
next
  case (Some lims)
  then obtain lo hi where l: "autoscale a = Some (lo, hi)" by (cases lims) auto
  note sc = autoscale_Some [OF l]
  have cell: "\<exists>l. (case v of None \<Rightarrow> Inr LutBad
                   | Some x \<Rightarrow> bind_r (normalize (lo, hi) x) (\<lambda>y. Inr (cmap_lookup (Some y)))) = Inr l
             \<and> lut_ok v l"
    if "v \<in> set row" "row \<in> set a" for v row
  proof (cases v)
    case (Some x)
    then have "x \<in> set (concat (map present a))"
      using that by (auto simp: in_set_present)
    then obtain y where y: "normalize (lo, hi) x = Inr y" "0 \<le> y" "y \<le> 1"
      using normalize_unit sc(3) by blast
    then obtain k where "cmap_lookup (Some y) = LutIdx k" "k < cmap_N"
      using cmap_lookup_unit by blast
    with y Some show ?thesis by (simp add: lut_ok_def)
  qed (simp add: lut_ok_def)
  have "\<exists>c. map_r (map_r (\<lambda>v. case v of None \<Rightarrow> Inr LutBad
              | Some x \<Rightarrow> bind_r (normalize (lo, hi) x) (\<lambda>y. Inr (cmap_lookup (Some y))))) a = Inr c
          \<and> list_all2 (list_all2 lut_ok) a c"
    by (rule map_r_Inr_rel, rule map_r_Inr_rel) (use cell in blast)
  with l show ?thesis by (simp add: pcolor_colours_def)
qed

section \<open>The script's pivot holds floats and NaN only\<close>

lemma nanmean_not_str: "\<not> is_str (nanmean vs)"
  by (simp add: nanmean_def split: list.split)

lemma groupby_mean_value_cells:
  assumes "groupby_mean df keys = Inr out" and "r \<in> set (rows out)"
    and "length keys \<le> v" and "v < length (columns out)"
  shows "\<not> is_str (r ! v)"
proof -
  obtain ks where ks: "map_r (col_index df) keys = Inr ks"
    and rs: "rows out = map (\<lambda>k. k @ map (\<lambda>i. nanmean (map float_of
                         (column_at (group_rows ks (rows df) k) i)))
                     (filter (\<lambda>i. i \<notin> set ks) [0..<length (columns df)]))
                   (group_keys ks (rows df))"
    by (rule groupby_mean_Inr [OF assms(1)])
  let ?vis = "filter (\<lambda>i. i \<notin> set ks) [0..<length (columns df)]"
  have cs: "columns out = keys @ map (\<lambda>i. columns df ! i) ?vis"
    using assms(1) ks by (auto simp: groupby_mean_def Let_def split: if_splits)
  have lk: "length ks = length keys" using ks by (simp add: map_r_Inr_iff list_all2_lengthD)
  from assms(2) rs obtain k where k: "k \<in> set (group_keys ks (rows df))"
    and r: "r = k @ map (\<lambda>i. nanmean (map float_of (column_at (group_rows ks (rows df) k) i))) ?vis"
    by auto
  have "length k = length keys" using group_keys_length [OF k] lk by simp
  moreover have "v - length keys < length ?vis" using assms(3,4) by (simp add: cs)
  ultimately show ?thesis using assms(3) by (simp add: r nth_append nanmean_not_str)
qed

lemma pivot_value_cells:
  assumes "pivot df a b = Inr p" and "col_index df a = Inr i" and "col_index df b = Inr j"
    and "row \<in> set (pvalues p)" and "c \<in> set row"
  shows "c = NaN \<or> (\<exists>r\<in>set (rows df). \<exists>v<length (columns df). v \<noteq> i \<and> v \<noteq> j \<and> c = r ! v)"
proof -
  from assms(1) obtain i' j' where "col_index df a = Inr i'" "col_index df b = Inr j'"
    and d: "distinct (map (\<lambda>r. (r ! i', r ! j')) (rows df))" by (rule pivot_Inr_cases)
  with assms(2,3) have d': "distinct (map (\<lambda>r. (r ! i, r ! j)) (rows df))" by simp
  note pe = pivot_Inr [OF assms(2,3) d']
  from assms(1,4,5) pe obtain x v y where v: "v \<in> set (filter (\<lambda>v. v \<noteq> i \<and> v \<noteq> j) [0..<length (columns df)])"
    and c: "c = pivot_lookup (rows df) i j v x y"
    by auto
  then show ?thesis
    using pivot_lookup_cases [where rs = "rows df" and i = i and j = j and v = v and x = x and y = y]
    by auto
qed

lemma df_test_one_pivot_numeric:
  assumes "df_test_one_pivot df = Inr p"
  shows "list_all (\<lambda>row. \<not> list_ex is_str row) (pvalues p)"
proof -
  obtain t where t: "df_test_one df = Inr t" and pv: "pivot t ''drive-wheels'' ''body-style'' = Inr p"
    using assms by (auto simp: df_test_one_pivot_def bind_r_Inr_iff)
  obtain g where g: "select_columns df [''drive-wheels'', ''body-style'', ''price''] = Inr g"
    and gm: "groupby_mean g [''drive-wheels'', ''body-style''] = Inr t"
    using t by (auto simp: df_test_one_def bind_r_Inr_iff)
  have cg: "columns g = [''drive-wheels'', ''body-style'', ''price'']"
    using g by (auto simp: select_columns_Inr_iff)
  have ks: "map_r (col_index g) [''drive-wheels'', ''body-style''] = Inr [0, 1]"
    by (simp add: cg col_index_def)
  have "filter (\<lambda>i. i \<notin> set [0, 1]) [0..<length (columns g)] = [2]"
    by (simp add: cg upt_rec)
  then have ct: "columns t = [''drive-wheels'', ''body-style'', ''price'']"
    using gm ks by (auto simp: groupby_mean_def Let_def cg split: if_splits)
  have ci: "col_index t ''drive-wheels'' = Inr 0" "col_index t ''body-style'' = Inr 1"
    by (simp_all add: ct col_index_def)
  have "\<not> is_str c" if "row \<in> set (pvalues p)" "c \<in> set row" for row c
  proof -
    from pivot_value_cells [OF pv ci that]
    show ?thesis
    proof
      assume "c = NaN"
      then show ?thesis by simp
    next
      assume "\<exists>r\<in>set (rows t). \<exists>v<length (columns t). v \<noteq> 0 \<and> v \<noteq> 1 \<and> c = r ! v"
      then obtain r v where r: "r \<in> set (rows t)" and v: "v < length (columns t)" "v \<noteq> 0" "v \<noteq> 1"
        and c: "c = r ! v" by blast
      have "length [''drive-wheels'', ''body-style''] \<le> v" using v(2,3) by simp
      from groupby_mean_value_cells [OF gm r this v(1)] c show ?thesis by simp
    qed
  qed
  then show ?thesis by (auto simp: list_all_iff list_ex_iff)
qed

section \<open>The colours of the script's heatmaps\<close>

lemma pcolor_colours_cell:
  assumes "pcolor_colours a = Inr c" and "autoscale a = Some lims"
    and "i < length a" and "j < length (a ! i)"
  shows "(case a ! i ! j of
            None \<Rightarrow> Inr LutBad
          | Some x \<Rightarrow> bind_r (normalize lims x) (\<lambda>y. Inr (cmap_lookup (Some y)))) = Inr (c ! i ! j)"
proof -
  have "list_all2 (\<lambda>row crow. list_all2 (\<lambda>v l. (case v of None \<Rightarrow> Inr LutBad
          | Some x \<Rightarrow> bind_r (normalize lims x) (\<lambda>y. Inr (cmap_lookup (Some y)))) = Inr l) row crow) a c"
    using assms(1,2) by (simp add: pcolor_colours_def map_r_Inr_iff)
  with assms(3,4) show ?thesis by (auto simp: list_all2_conv_all_nth)
qed

text \<open>
  When the values are not all equal, the cells holding the largest value use the last
  entry of the table (the blue end of RdBu) and those holding the smallest the first
  (the red end).
\<close>

lemma pcolor_colours_extremes:
  assumes "pcolor_colours a = Inr c" and "autoscale a = Some (lo, hi)" and "lo < hi"
    and "i < length a" and "j < length (a ! i)"
  shows "a ! i ! j = Some hi \<Longrightarrow> c ! i ! j = LutIdx 255"
    and "a ! i ! j = Some lo \<Longrightarrow> c ! i ! j = LutIdx 0"
  using pcolor_colours_cell [OF assms(1,2,4,5)] assms(3)
  by (simp_all add: normalize_ends cmap_lookup_ends)

lemma pcolor_array_numeric:
  "list_all (\<lambda>row. \<not> list_ex is_str row) (pvalues p) \<Longrightarrow>
   pcolor_array p = Inr (map (map float_of) (pvalues p))"
  unfolding pcolor_array_def by (rule map_r_map) (simp add: list_all_iff series_floats_ok)

text \<open>
  The heatmaps of lines 72 and 78 and their colour bars never raise on the script's
  pivot: every NaN cell is drawn in the bad colour, every other cell with an entry of
  the table, and the colour bar spans the least to the greatest mean price.
\<close>

lemma df_test_one_pivot_pcolor:
  assumes "df_test_one_pivot df = Inr p"
  shows "\<exists>c. pcolor p = Inr c \<and> list_all2 (list_all2 lut_ok) (map (map float_of) (pvalues p)) c"
    and "colorbar_range p = Inr (autoscale (map (map float_of) (pvalues p)))"
proof -
  have a: "pcolor_array p = Inr (map (map float_of) (pvalues p))"
    by (rule pcolor_array_numeric [OF df_test_one_pivot_numeric [OF assms]])
  show "\<exists>c. pcolor p = Inr c \<and> list_all2 (list_all2 lut_ok) (map (map float_of) (pvalues p)) c"
    using pcolor_colours_ok [of "map (map float_of) (pvalues p)"] by (simp add: pcolor_def a)
  show "colorbar_range p = Inr (autoscale (map (map float_of) (pvalues p)))"
    by (simp add: colorbar_range_def a)
qed

text \<open>
  The heatmap of the sample table: NaN for the absent drive-wheel/body-style pairs, the
  red end for the cheapest mean (fwd hatchback), the blue end for the dearest (4wd sedan).
\<close>

lemma autos_heatmap_colours:
  "bind_r (df_test_one_pivot autos) pcolor
     = Inr [[LutBad, LutBad, LutIdx 255], [LutBad, LutIdx 0, LutIdx 91], [LutIdx 165, LutBad, LutIdx 234]]"
  by (simp add: df_test_one_pivot_autos pcolor_def pcolor_array_def series_floats_def autoscale_def
      pcolor_colours_def normalize_def cmap_lookup_def cmap_N_def Let_def floor_divide_of_int_eq)

end
