(* ===== verification/Spec2Isabelle.thy ===== *)
theory Spec2Isabelle
  imports Script Plots Loading Colour
begin

text \<open>
  \<^bold>\<open>A verification model of Lab03_ANOVA.\<close>

  The program is one script, \<^verbatim>\<open>src/venv/bin/main.py\<close>: an exploratory analysis of an
  automobile table. It loads the table (line 11), prints a correlation matrix of four
  numeric columns and of bore against price (lines 20--26), draws plots, counts the
  drive-wheel values (48--51), averages price by drive wheels and body style and pivots
  the result (58--69), draws a heatmap of the pivot (72--92), runs \<^verbatim>\<open>stats.pearsonr\<close>
  of nine columns against price (99--125) and one-way ANOVA of price across drive-wheel
  groups (131--152). All computation is done by pandas and scipy; the model therefore
  translates the library routines the script calls, at the semantics of pandas 2 and
  scipy 1.11 or later, into HOL, and proves what the script relies on.

  \<^bold>\<open>Values.\<close> A table is a \<^typ>\<open>frame\<close> (theory \<open>Frame\<close>): column names and rows of
  cells, a cell being a float (\<^term>\<open>Num r\<close>), a string (\<^term>\<open>Str s\<close>) or missing
  (\<^term>\<open>NaN\<close>). Floats are exact reals: the theorems are about the algorithms, not
  about rounding. Every Python exception the script can meet is a value of
  \<^typ>\<open>py_error\<close> (\<open>KeyError\<close>, \<open>ValueError\<close>, \<open>TypeError\<close>) and every fallible
  operation returns \<^typ>\<open>'a result\<close>, so each raise of the library is a branch of the
  model (theory \<open>Prelude\<close>, with the traversal \<open>map_r\<close> that stops at the first
  exception, as a Python loop does).

  \<^bold>\<open>Theories and the code they model.\<close>
  \<^item> \<open>Prelude\<close>: results, the mean, centred sums, Cauchy--Schwarz over lists and the
    update identities of a streaming mean and co-moment, shared by all components.
  \<^item> \<open>Frame\<close>: \<^verbatim>\<open>df[[...]]\<close> (\<open>select_columns\<close>, KeyError on the first missing
    column), \<^verbatim>\<open>df['c']\<close> (\<open>get_column\<close>), \<^verbatim>\<open>df.head()\<close>, and the float conversion
    (\<open>series_floats\<close>, ValueError on a string) that every numeric routine applies.
  \<^item> \<open>Correlation\<close>: \<^verbatim>\<open>DataFrame.corr()\<close> of lines 22 and 26, i.e. pandas'
    \<^verbatim>\<open>nancorr\<close>: a Welford pass (\<open>welford_step\<close>, \<open>nancorr_scan\<close>) per column pair over
    the pairwise-complete rows, then \<open>nancorr_pair\<close> (divide, clip to [-1, 1], NaN for a
    zero divisor) and the matrix loop \<open>nancorr\<close>. Its specification is the two-pass
    textbook coefficient \<open>pearson_ref\<close>.
  \<^item> \<open>Pearson\<close>: \<^verbatim>\<open>stats.pearsonr\<close> of lines 99--125 (\<open>pearsonr\<close>): its ValueErrors,
    NaN for NaN or constant input, the two-value sign shortcut, the clipped centred
    dot product.
  \<^item> \<open>GroupBy\<close>: \<^verbatim>\<open>groupby(...).mean()\<close> of lines 58--60 (\<open>group_keys\<close>, \<open>group_rows\<close>,
    \<open>nanmean\<close>, \<open>groupby_mean\<close>; keys with NaN dropped, keys sorted, TypeError for a
    string value column), \<^verbatim>\<open>get_group\<close> and \<^verbatim>\<open>GroupBy.head\<close> of lines 131--135,
    \<^verbatim>\<open>value_counts().to_frame()\<close> with the rename and index name of lines 48--51.
  \<^item> \<open>Anova\<close>: \<^verbatim>\<open>stats.f_oneway\<close> (\<open>anova_ss\<close>, \<open>f_oneway_core\<close>, \<open>f_oneway\<close>: TypeError
    for fewer than two samples, NaN for an empty or NaN sample, offset-centred sums of
    squares, NaN/inf for constant input; the statistic is an extended real
    \<^typ>\<open>fstat\<close>), and the script's tests of lines 131--152 (\<open>grouped_test_two\<close>,
    \<open>group_price\<close>, \<open>anova_test\<close>, \<open>drive_wheel_anova\<close>); the reference is the textbook
    decomposition \<open>ss_between\<close> / \<open>ss_within\<close>.
  \<^item> \<open>Pivot\<close>: \<^verbatim>\<open>DataFrame.pivot\<close> of line 61 as pandas computes it,
    \<^verbatim>\<open>set_index([a, b]).unstack(b)\<close> (\<open>pivot\<close>, \<open>pivot_lookup\<close>; KeyError naming the
    missing columns, ValueError on a duplicate label pair), read abstractly as its set of
    entries \<open>pivot_entries\<close>; the script's compositions \<open>df_test_one\<close> (lines 58--59),
    \<open>df_test_one_pivot\<close> (58--62) and \<open>df_group_two\<close> (68), with the intended table
    \<open>cell_mean_price\<close> as specification.
  \<^item> \<open>Heatmap\<close>: the labelled heatmap of lines 77--92 as axis state \<open>heat_axis\<close>:
    \<^verbatim>\<open>set_xticklabels\<close>/\<^verbatim>\<open>set_yticklabels\<close> install a \<open>fixed_formatter\<close> while the
    locator is still automatic, \<^verbatim>\<open>set_xticks\<close>/\<^verbatim>\<open>set_yticks\<close> then place the ticks
    at \<open>arange_plus_half\<close>; \<open>heatmap_axis\<close> runs lines 81--86 in order and
    \<open>xtick_labels\<close>/\<open>ytick_labels\<close> read off what is drawn.
  \<^item> \<open>Plots\<close>: the two plots whose content is computed from the data.
    \<^verbatim>\<open>sns.regplot\<close> of line 29 (\<open>regplot\<close>): the complete rows, and the line
    \<open>regplot_fit\<close> that \<^verbatim>\<open>pinv(X).dot(y)\<close> gives, drawn over
    \<open>linspace\<close>. \<^verbatim>\<open>sns.boxplot\<close> of line 36 (\<open>boxplot\<close>): one box per category in
    seaborn's \<open>categorical_order\<close>, each summarised by matplotlib's
    \<open>boxplot_stats\<close>, with quartiles from numpy's \<open>percentile\<close>.
  \<^item> \<open>Colour\<close>: the colours of the pcolor heatmaps of lines 72 and 78 and the
    range of their colour bars (73, 91). \<open>pcolor_array\<close> is the table with NaN masked.
    \<open>autoscale\<close> gives the limits, \<open>normalize\<close> maps a value into them, and
    \<open>cmap_lookup\<close> reads RdBu's 256-entry lookup table. \<open>pcolor_colours\<close> colours every
    cell and \<open>colorbar_range\<close> is the range the colour bar shows.
  \<^item> \<open>Loading\<close>: the renaming of repeated header names by pandas'
    \<^verbatim>\<open>dedup_names\<close>, which \<^verbatim>\<open>read_csv\<close> of line 11 applies (\<open>dedup_body\<close> is
    the body of its \<^verbatim>\<open>while\<close> loop, \<open>dedup_one\<close> one header name, \<open>dedup_loop\<close>
    the \<^verbatim>\<open>for\<close> loop).
  \<^item> \<open>Script\<close>: the script as one run. Each printing statement of \<^verbatim>\<open>main.py\<close> is
    a \<open>printed result\<close> computed by the models above (\<open>corr_step\<close>, \<open>pearson_step\<close> over
    \<open>pearson_columns\<close>, \<open>anova_step\<close>, ...). \<open>script_steps\<close> lists them in source
    order (\<open>eda_steps\<close> for lines 12--92, the Pearson tests, \<open>anova_steps\<close> for
    131--152). \<open>run\<close> prints them one after the other and stops at the first
    exception, as the Python interpreter does at top level.
  \<^item> \<open>Samples\<close>: small frames in the shape of the real table (\<open>autos\<close>, \<open>autos_full\<close>
    with every column the script reads, and variants), on which the witnesses evaluate
    the theorems.

  \<^bold>\<open>What the lemmas show.\<close>
  \<^item> Frame and GroupBy: reading a column back from a selection gives the original column
    (round trip); selection, \<open>get_group\<close> and the group mean keep frames well formed
    (distinct names, rows as long as the header).
  \<^item> Correlation: the Welford invariant, by rule induction on the step relation
    \<open>welford_reach\<close> of the loop body: after every row the accumulators hold the count,
    means and centred sums of the complete pairs seen so far. Hence \<open>nancorr_pair\<close> equals \<open>pearson_ref\<close> on the complete pairs
    (refinement); the clip never acts (Cauchy--Schwarz); the matrix is symmetric and
    its entries are the pairwise coefficients; its diagonal is 1 or NaN.
  \<^item> Pearson: the exact error conditions; agreement with \<open>nancorr\<close> on NaN-free data of
    length at least 2; NaN as soon as one value is missing, where \<open>corr()\<close> is not.
  \<^item> GroupBy: the groups partition the rows with a NaN-free key (multisets); the mean
    table lists each key once in ascending order; a group mean lies between the
    group's extremes; \<open>get_group\<close>'s result and KeyErrors; \<open>head\<close> keeps the first rows
    of each group in order; \<open>value_counts\<close> is a non-increasing list of counts that sum
    to the non-NaN cells; under pandas 2 the rename of line 49 has no effect.
  \<^item> Anova: scipy's sums equal the textbook ones; a finite F is non-negative and is
    \<open>(SSB/(k-1))/(SSW/(N-k))\<close> with positive divisors; NaN and inf are exactly the
    degenerate cases 0/0 and x/0; the script's tests run on each group's prices in row
    order and raise KeyError for the first absent group.
  \<^item> Pivot: pivoting a two-key group-by result never raises; no value is lost and every
    entry is a row's value or NaN for an absent pair; labels are sorted and distinct
    and the table is rectangular; the table printed at line 62 is, entry by entry, the
    mean price per drive-wheel and body-style pair (refinement of \<open>cell_mean_price\<close>).
  \<^item> Heatmap: each row label sits at the centre of its row; labelling the columns with
    \<^verbatim>\<open>columns.levels[1]\<close> leaves columns unlabelled as soon as a pivot has two value
    columns; the script's own heatmap, whose pivot has the single value column
    \<open>price\<close>, labels every tick correctly.
  \<^item> Script: on a frame with the script's columns, numeric data, two rows and the three
    drive-wheel values, the run raises nothing and prints all 22 outputs. Without a price
    column it stops at line 26 with \<open>KeyError\<close> after two outputs. Without a
    \<^verbatim>\<open>4wd\<close> row it stops at line 135 after 18 outputs. On fewer than two
    rows everything up to the heatmap runs and the first \<open>pearsonr\<close> (line 99) raises
    \<open>ValueError\<close> after 8 outputs. A complete run prints
    nine Pearson coefficients, where the spec speaks of eight.
  \<^item> Plots: numpy's percentile is monotone in the percentage and lies between the
    sample's extremes. Every box is ordered from minimum through whiskers and quartiles
    to maximum, and its fliers are exactly the values beyond the Tukey fences. The
    regression line has slope \<open>r * sqrt (Syy / Sxx)\<close>, where \<open>r\<close> is pandas'
    coefficient of the same rows, and it passes through the means.
  \<^item> Colour: drawing never raises. Every NaN cell gets the bad colour and every other
    cell an entry below 256; the largest value gets the last entry and the smallest the
    first. The script's pivot holds only floats and NaN, so both of its heatmaps and
    colour bars are drawn. On the sample table the colours are computed exactly
    (\<open>autos_heatmap_colours\<close>).
  \<^item> Loading: \<open>dedup_names\<close> returns on every header. The names it returns are
    distinct, one per header name, and equal to the header when that has no repeats.
    Hence a frame built from a renamed header satisfies the \<open>wf_frame\<close> that the
    other components assume.

  \<^bold>\<open>Across components\<close> (this theory). The script reports the bore/price
  correlation twice, through pandas at line 26 and through scipy at line 118; on data
  without missing values the two printed numbers coincide (\<open>bore_price_reports_agree\<close>),
  combining the Welford refinement, the agreement of \<open>pearsonr\<close> with the reference
  coefficient and the run of the script. The plots of lines 29 and 36 are not steps of
  \<open>run\<close>. \<open>plots_ok\<close> shows that they cannot raise on a frame the run gets past
  line 26 with. \<open>heatmaps_ok\<close> shows the same for the pcolor heatmaps of lines 72 and
  78, using the Colour lemmas.

  \<^bold>\<open>Loops, fuel and bounds.\<close> Every loop of the modelled library code runs over a finite
  list (rows, columns, samples) and is structural recursion (\<open>nancorr_scan\<close>,
  \<open>head_scan\<close>, \<open>map_r\<close>, \<open>run\<close>, \<open>dedup_loop\<close>) or a list combinator, so
  those definitions are total and need no fuel. The one exception is the inner
  \<^verbatim>\<open>while cur_count > 0\<close> of \<^verbatim>\<open>dedup_names\<close>. No bound on it is written in the code,
  so it is kept as \<open>while_option\<close>. It is proved to return with the measure
  "longest used name + 1 - length of the current name" (\<open>dedup_one_returns\<close>).
  The script itself is straight-line code. No machine integer is involved: counts are \<^typ>\<open>nat\<close>, values \<^typ>\<open>real\<close>.

  \<^bold>\<open>Not modelled.\<close> Reading the CSV from the network and pandas' C tokenizer and
  type inference. The frame is the model's input; only the header renaming is
  modelled. The tokenizer and type inference are C and Cython code whose details are
  not part of this repository. \<^verbatim>\<open>print(df.dtypes)\<close> is not modelled either, since
  it depends on the CSV text. The rendering of every plot is left out: the RGBA values of
  the colour table, label rotation, the axis limits of line 30, and
  regplot's bootstrap confidence band, which comes from random resampling. The model
  keeps the data each plot draws: regplot's points and line, the boxes, and the
  heatmap's tick positions and labels. A string in the value column of a plot is
  modelled as the float conversion's \<open>ValueError\<close>. the p-values
  of \<^verbatim>\<open>pearsonr\<close> and \<^verbatim>\<open>f_oneway\<close> (beta and F distribution functions); the
  text format of the prints. A string in a column that \<^verbatim>\<open>pearsonr\<close> or
  \<^verbatim>\<open>f_oneway\<close> receives is modelled as the \<open>ValueError\<close> of the float conversion
  (\<open>series_floats\<close>), which is what pandas' \<^verbatim>\<open>corr()\<close> raises; scipy may fail
  differently on an object array. The theorems about whole runs therefore assume numeric
  columns (\<open>script_columns_ok\<close>).
\<close>

section \<open>Properties across components\<close>

lemma float_of_cells:
  assumes "\<not> list_ex is_str cs" and "NaN \<notin> set cs"
  shows "map float_of cs = map Some (map (\<lambda>c. the (float_of c)) cs)"
proof -
  have "float_of c = Some (the (float_of c))" if "c \<in> set cs" for c
    using that assms by (auto simp: float_of_def list_ex_iff split: cell.splits)
  then show ?thesis by simp
qed

lemma corr_step_pair:
  assumes "a \<in> set (columns df)" and "b \<in> set (columns df)"
    and "\<not> list_ex is_str (column_cells df a)" and "\<not> list_ex is_str (column_cells df b)"
  shows "corr_step [a, b] df
           = Inr (OCorr [a, b] (nancorr [map float_of (column_cells df a), map float_of (column_cells df b)]))"
proof -
  let ?ka = "the (index_of a (columns df))" and ?kb = "the (index_of b (columns df))"
  define s where "s = \<lparr>columns = [a, b], rows = map (row_key [?ka, ?kb]) (rows df)\<rparr>"
  have sel: "select_columns df [a, b] = Inr s"
    unfolding s_def by (rule select_columns_Inr) (simp add: col_index_ok assms(1,2))
  have c0: "column_at (rows s) 0 = column_cells df a" and c1: "column_at (rows s) 1 = column_cells df b"
    by (simp_all add: s_def column_at_def row_key_def column_cells_def)
  have cs: "[0..<length (columns s)] = [0, 1]" by (simp add: s_def upt_rec)
  have "map_r (\<lambda>i. series_floats (column_at (rows s) i)) [0..<length (columns s)]
          = Inr [map float_of (column_cells df a), map float_of (column_cells df b)]"
    unfolding cs using assms(3,4) by (simp add: c0 c1 [unfolded One_nat_def] series_floats_ok)
  then show ?thesis by (simp add: corr_step_def sel frame_corr_def s_def)
qed

text \<open>
  The plots of lines 29 and 36 are left out of \<open>run\<close>: on a frame with the script's
  columns and numeric data, which the run needs to get past line 26, neither call
  raises, and each draws what \<^theory_text>\<open>Plots\<close> computes from the two columns.
\<close>

lemma plots_ok:
  assumes "script_frame_ok df"
  shows "regplot df ''bore'' ''price''
           = Inr (complete_pairs (map float_of (column_cells df ''bore''))
                                 (map float_of (column_cells df ''price'')),
                  regplot_line (complete_pairs (map float_of (column_cells df ''bore''))
                                               (map float_of (column_cells df ''price''))))"
      (is "_ = ?r")
    and "boxplot df ''drive-wheels'' ''price''
           = Inr (boxplot_boxes (column_cells df ''drive-wheels'')
                                (map float_of (column_cells df ''price'')))"
      (is "_ = ?b")
proof -
  note k = script_frame_okD [OF assms]
  have bore: "''bore'' \<in> set numeric_columns" by (simp add: numeric_columns_def)
  show "regplot df ''bore'' ''price'' = ?r"
    by (rule regplot_ok [OF get_column_cells [OF k(1) [OF bore]] get_column_cells [OF k(5)]
          k(2) [OF bore] k(6)])
  show "boxplot df ''drive-wheels'' ''price'' = ?b"
    by (rule boxplot_ok [OF get_column_cells [OF k(3)] get_column_cells [OF k(5)] k(6)])
qed

text \<open>
  The heatmaps of lines 72 and 78 are drawn on any frame the run gets past line 26
  with: the pivot exists, every cell gets the bad colour or an entry of the colour table,
  and the colour bars show the least to the greatest mean price.
\<close>

lemma heatmaps_ok:
  assumes "script_frame_ok df"
  shows "\<exists>p c. df_test_one_pivot df = Inr p \<and> pcolor p = Inr c
              \<and> list_all2 (list_all2 lut_ok) (map (map float_of) (pvalues p)) c"
proof -
  note k = script_frame_okD [OF assms]
  obtain p where p: "df_test_one_pivot df = Inr p"
    using df_test_one_pivot_ok [OF k(3) k(4) k(5) k(6)] by blast
  with df_test_one_pivot_pcolor(1) [OF p] show ?thesis by blast
qed

text \<open>
  The boxes of line 36 on the sample table: one per drive-wheel value in order of first
  appearance, each at the median price of its rows.
\<close>

lemma autos_full_boxes:
  "map (\<lambda>(k, c, b). (k, c, bx_med b)) (boxplot_boxes (column_cells autos_full ''drive-wheels'')
        (map float_of (column_cells autos_full ''price'')))
   = [(0, Str ''rwd'', 13495), (1, Str ''fwd'', 20245 / 2), (2, Str ''4wd'', 17450)]"
  by (simp add: boxplot_boxes_def categorical_order_def group_values_def boxplot_stats_def
      percentile_def float_of_def unique_def column_cells_def column_at_def autos_full_def Let_def)

text \<open>
  C35. The script reports the correlation of bore and price twice: as the off-diagonal
  entry of \<^verbatim>\<open>df[["bore", "price"]].corr()\<close> (line 26, pandas) and as the coefficient of
  \<^verbatim>\<open>stats.pearsonr(df['bore'], df['price'])\<close> (line 118, scipy). When neither column
  has a missing value the two printed numbers are the same (both NaN when one column is
  constant); C7 shows that a single missing value breaks this.
\<close>

theorem bore_price_reports_agree:
  assumes "script_pre df"
    and "NaN \<notin> set (column_cells df ''bore'')" and "NaN \<notin> set (column_cells df ''price'')"
  shows "\<exists>m. fst (run (script_steps df)) ! 2 = OCorr [''bore'', ''price''] m
             \<and> fst (run (script_steps df)) ! 14 = OPearson (m ! 0 ! 1)"
proof -
  have ok: "script_columns_ok df" using assms(1) by (simp add: script_pre_def)
  note k = script_columns_okD [OF ok]
  have bore: "''bore'' \<in> set numeric_columns" by (simp add: numeric_columns_def)
  define xs where "xs = map (\<lambda>c. the (float_of c)) (column_cells df ''bore'')"
  define ys where "ys = map (\<lambda>c. the (float_of c)) (column_cells df ''price'')"
  have fx: "map float_of (column_cells df ''bore'') = map Some xs"
    unfolding xs_def by (rule float_of_cells [OF k(2) [OF bore] assms(2)])
  have fy: "map float_of (column_cells df ''price'') = map Some ys"
    unfolding ys_def by (rule float_of_cells [OF k(6) assms(3)])
  have len: "length xs = length ys" and two: "2 \<le> length xs"
    using k(7) by (simp_all add: xs_def ys_def)
  have outs: "fst (run (script_steps df)) = map projr (script_steps df)"
    using run_all_Inr [OF script_steps_ok [OF assms(1)]] by simp
  have s2: "script_steps df ! 2 = corr_step [''bore'', ''price''] df"
    by (simp add: script_steps_def eda_steps_def)
  have s14: "script_steps df ! 14 = pearson_step ''bore'' df"
    by (simp add: script_steps_def nth_append pearson_columns_def)
  have corr: "corr_step [''bore'', ''price''] df
      = Inr (OCorr [''bore'', ''price''] (nancorr [map Some xs, map Some ys]))"
    using corr_step_pair [OF k(1) [OF bore] k(5) k(2) [OF bore] k(6)] by (simp add: fx fy)
  have "nancorr [map Some xs, map Some ys] ! 0 ! 1 = nancorr_pair (map Some ys) (map Some xs)"
    by (simp add: nancorr_def)
  also have "\<dots> = nancorr_pair (map Some xs) (map Some ys)" by (rule nancorr_pair_sym)
  also have "\<dots> = pearson_ref (zip xs ys)" using len by (simp add: nancorr_pair_pearson_ref)
  finally have "nancorr [map Some xs, map Some ys] ! 0 ! 1 = pearson_ref (zip xs ys)" .
  moreover have "pearson_step ''bore'' df = Inr (OPearson (pearson_ref (zip xs ys)))"
    using pearson_step_eq [OF ok, of "''bore''"] pearsonr_Some_ref [OF len two]
    by (simp add: pearson_columns_def fx fy)
  moreover have "length (script_steps df) = 22" by (rule length_script_steps)
  ultimately show ?thesis using outs s2 s14 corr by simp
qed

theorem bore_price_reports_agree_witness:
  "\<exists>m. fst (run (script_steps autos_no_nan)) ! 2 = OCorr [''bore'', ''price''] m
       \<and> fst (run (script_steps autos_no_nan)) ! 14 = OPearson (m ! 0 ! 1)"
  by (rule bore_price_reports_agree) (simp_all add: script_pre_eval autos_no_nan_def autos_full_def)

end
